theory Spec2Isabelle
  imports Main "HOL-Library.AList" "HOL-Library.Sublist"
begin

section \<open>JavaScript string primitives used by the scripts\<close>

text \<open>
  Strings are byte lists (the UTF-8 text the scripts read and write). Only the
  string methods the two scripts call are modelled, each under its own name.
\<close>

definition startsWith :: "string \<Rightarrow> string \<Rightarrow> bool" where
  \<comment> \<open>\<^verbatim>\<open>s.startsWith(p)\<close>\<close>
  "startsWith s p = prefix p s"

definition endsWith :: "string \<Rightarrow> string \<Rightarrow> bool" where
  \<comment> \<open>\<^verbatim>\<open>s.endsWith(p)\<close>\<close>
  "endsWith s p = suffix p s"

fun js_split :: "char \<Rightarrow> string \<Rightarrow> string list" where
  \<comment> \<open>\<^verbatim>\<open>s.split(c)\<close> for a one-character separator: never the empty list\<close>
  "js_split c [] = [[]]"
| "js_split c (x # xs) =
     (if x = c then [] # js_split c xs
      else (case js_split c xs of
              [] \<Rightarrow> [[x]]
            | p # ps \<Rightarrow> (x # p) # ps))"

definition isDigit :: "char \<Rightarrow> bool" where
  \<comment> \<open>the class \<^verbatim>\<open>\d\<close> of a regular expression without the unicode flag\<close>
  "isDigit c = (c \<in> set ''0123456789'')"

definition digitVal :: "char \<Rightarrow> nat" where
  "digitVal c = of_char c - 48"

definition parseInt :: "string \<Rightarrow> nat" where
  \<comment> \<open>\<^verbatim>\<open>parseInt(ds)\<close> on a run of decimal digits, the only argument it is given
      here; the value is taken as exact (JavaScript numbers are exact up to \<open>2^53\<close>)\<close>
  "parseInt ds = foldl (\<lambda>n c. 10 * n + digitVal c) 0 ds"

definition digitChar :: "nat \<Rightarrow> char" where
  "digitChar d = char_of (48 + d)"

function show_nat :: "nat \<Rightarrow> string" where
  \<comment> \<open>the decimal text of a non-negative integer in a template literal\<close>
  "show_nat n = (if n < 10 then [digitChar n] else show_nat (n div 10) @ [digitChar (n mod 10)])"
  by pat_completeness auto
termination
  by (relation "measure id") auto

declare show_nat.simps [simp del]

definition show_int :: "int \<Rightarrow> string" where
  \<comment> \<open>the decimal text of an integer in a template literal\<close>
  "show_int i = (if i < 0 then CHR ''-'' # show_nat (nat (- i)) else show_nat (nat i))"

section \<open>The reconciler: \<^verbatim>\<open>cleanupOldFiles\<close> of generate-docs.js\<close>

text \<open>
  A directory is the list of its entries in the order \<^verbatim>\<open>readdirSync\<close> lists them, each
  a file name with the file's content. Entries are regular files and the file-system
  calls succeed.
\<close>

type_synonym directory = "(string \<times> string) list"

definition readdirSync :: "directory \<Rightarrow> string list" where
  "readdirSync dir = map fst dir"

definition writeFileSync :: "string \<Rightarrow> string \<Rightarrow> directory \<Rightarrow> directory" where
  \<comment> \<open>creates the file or replaces its content\<close>
  "writeFileSync name content dir = AList.update name content dir"

definition unlinkSync :: "string \<Rightarrow> directory \<Rightarrow> directory" where
  "unlinkSync name dir = AList.delete name dir"

text \<open>The errors the runtime throws.\<close>

datatype error = RangeError | SyntaxError | TypeError

text \<open>
  The lines the generator prints, one constructor for each call of the console, and the
  report of an exception nothing catches.
\<close>

datatype line =
    DbPathLine string
  | DocsDirLine string
  | DbNotFound string
  | UsageHint
  | FoundSwot nat
  | FoundComparisons nat
  | Written string
  | RemovedStale string
  | RemovedSwotCount nat
  | RemovedCompCount nat
  | Finished
  | StartServerHint
  | UncaughtException error

definition matchId :: "string \<Rightarrow> string option" where
  \<comment> \<open>\<^verbatim>\<open>file.match(/-(\d+)\.mdx$/)\<close>: the capture group of the match, \<open>None\<close> for null.
      The name must end in \<^verbatim>\<open>.mdx\<close>; the digits before the extension are the group; they
      must be at least one and follow a dash.\<close>
  "matchId file =
     (if suffix ''.mdx'' file then
        (let stem = take (length file - 4) file;
             ds = rev (takeWhile isDigit (rev stem));
             pre = rev (dropWhile isDigit (rev stem))
         in if ds \<noteq> [] \<and> pre \<noteq> [] \<and> last pre = CHR ''-'' then Some ds else None)
      else None)"

definition listed :: "string \<Rightarrow> bool" where
  \<comment> \<open>the filter on the directory listing: \<^verbatim>\<open>f.endsWith('.mdx') && !f.startsWith('_')\<close>\<close>
  "listed f = (endsWith f ''.mdx'' \<and> \<not> startsWith f ''_'')"

record dir_io =
  files :: directory
  out :: "line list"

definition cleanup_step :: "int list \<Rightarrow> string \<Rightarrow> dir_io \<times> nat \<Rightarrow> dir_io \<times> nat" where
  \<comment> \<open>the body of \<^verbatim>\<open>files.forEach\<close>\<close>
  "cleanup_step validIds file = (\<lambda>(io, removed).
     (case matchId file of
        None \<Rightarrow> (io, removed)
      | Some ds \<Rightarrow>
          (let fileId = int (parseInt ds) in
           if fileId \<notin> set validIds
           then (io\<lparr>files := unlinkSync file (files io),
                     out := out io @ [RemovedStale file]\<rparr>, removed + 1)
           else (io, removed))))"

definition cleanupOldFiles :: "int list \<Rightarrow> dir_io \<Rightarrow> dir_io \<times> nat" where
  "cleanupOldFiles validIds io =
     (let fs = filter listed (readdirSync (files io))
      in fold (cleanup_step validIds) fs (io, 0))"

text \<open>
  The language of the pattern, stated on its own: a name matches with group \<open>ds\<close> when
  it is some text, a dash, the digits \<open>ds\<close> (at least one) and the extension.
\<close>

definition matches_pattern :: "string \<Rightarrow> string \<Rightarrow> string \<Rightarrow> bool" where
  "matches_pattern file pre ds =
     (file = pre @ ''-'' @ ds @ ''.mdx'' \<and> ds \<noteq> [] \<and> list_all isDigit ds)"

definition orphan :: "int list \<Rightarrow> string \<Rightarrow> bool" where
  \<comment> \<open>the name matches the pattern and the identifier in it is not a valid one\<close>
  "orphan validIds f =
     (case matchId f of None \<Rightarrow> False | Some ds \<Rightarrow> int (parseInt ds) \<notin> set validIds)"

definition stale :: "int list \<Rightarrow> string \<Rightarrow> bool" where
  \<comment> \<open>the files the reconciler is to delete\<close>
  "stale validIds f = (listed f \<and> orphan validIds f)"

section \<open>Dates\<close>

text \<open>
  A \<^verbatim>\<open>Date\<close> is its time value, the milliseconds since the epoch in UTC, or \<open>None\<close>
  for an invalid date. The calendar date of a day number is computed by the usual
  era arithmetic of the proleptic Gregorian calendar.
\<close>

definition msPerDay :: int where
  "msPerDay = 86400000"

definition TimeClip :: "int \<Rightarrow> int option" where
  \<comment> \<open>a time more than 100 000 000 days from the epoch is no time value\<close>
  "TimeClip t = (if \<bar>t\<bar> \<le> 8640000000000000 then Some t else None)"

definition civil_from_days :: "int \<Rightarrow> int \<times> int \<times> int" where
  \<comment> \<open>year, month (1 to 12) and day of the month of a day number\<close>
  "civil_from_days z =
     (let z' = z + 719468;
          era = z' div 146097;
          doe = z' mod 146097;
          yoe = (doe - doe div 1460 + doe div 36524 - doe div 146096) div 365;
          y = yoe + era * 400;
          doy = doe - (365 * yoe + yoe div 4 - yoe div 100);
          mp = (5 * doy + 2) div 153;
          d = doy - (153 * mp + 2) div 5 + 1;
          m = (if mp < 10 then mp + 3 else mp - 9)
      in (if m \<le> 2 then y + 1 else y, m, d))"

definition pad :: "nat \<Rightarrow> string \<Rightarrow> string" where
  \<comment> \<open>zero padding on the left up to \<open>n\<close> characters\<close>
  "pad n s = replicate (n - length s) CHR ''0'' @ s"

definition two :: "int \<Rightarrow> string" where
  "two x = pad 2 (show_nat (nat x))"

definition yearString :: "int \<Rightarrow> string" where
  \<comment> \<open>four digits for the years 0 to 9999, a sign and six digits otherwise\<close>
  "yearString y =
     (if 0 \<le> y \<and> y \<le> 9999 then pad 4 (show_nat (nat y))
      else (if y < 0 then ''-'' else ''+'') @ pad 6 (show_nat (nat \<bar>y\<bar>)))"

definition dateString :: "int \<Rightarrow> string" where
  \<comment> \<open>the ISO date \<^verbatim>\<open>YYYY-MM-DD\<close> of a time value, in UTC\<close>
  "dateString t =
     (case civil_from_days (t div msPerDay) of
        (y, m, d) \<Rightarrow> yearString y @ ''-'' @ two m @ ''-'' @ two d)"

definition clockString :: "int \<Rightarrow> string" where
  \<comment> \<open>\<^verbatim>\<open>HH:MM:SS\<close> of a time value\<close>
  "clockString t =
     (let ms = t mod msPerDay
      in two (ms div 3600000) @ '':'' @ two (ms div 60000 mod 60) @ '':'' @ two (ms div 1000 mod 60))"

definition toISOString :: "int option \<Rightarrow> error + string" where
  \<comment> \<open>\<^verbatim>\<open>date.toISOString()\<close>: \<^verbatim>\<open>YYYY-MM-DDTHH:mm:ss.sssZ\<close>, a RangeError on an invalid date\<close>
  "toISOString date =
     (case date of
        None \<Rightarrow> Inl RangeError
      | Some t \<Rightarrow>
          Inr (dateString t @ ''T'' @ clockString t @ ''.''
               @ pad 3 (show_nat (nat (t mod 1000))) @ ''Z''))"

section \<open>Parsed JSON and the runtime library\<close>

text \<open>
  A value \<^verbatim>\<open>JSON.parse\<close> returns. A number is named by its decimal text. The library
  functions whose results the generator only passes on are parameters of the model:
  \<^item> \<open>JSON_parse\<close>, \<open>None\<close> when \<^verbatim>\<open>JSON.parse\<close> throws a SyntaxError;
  \<^item> \<open>JSON_stringify\<close>;
  \<^item> \<open>ToString\<close>, the conversion of a value inside a template literal, \<open>None\<close> when
    it throws a TypeError;
  \<^item> \<open>Date_parse\<close>, the time value \<^verbatim>\<open>Date.parse\<close> reads from a text on this machine, \<open>None\<close>
    for NaN: a text with a time of day and no zone is read in the local time of the machine,
    so the value depends on the zone the machine is set to;
  \<^item> \<open>LocalTZA\<close>, the offset of local time from UTC at a time value, in milliseconds;
  \<^item> \<open>TimeZoneString\<close>, the zone suffix of \<^verbatim>\<open>toTimeString\<close> after \<^verbatim>\<open>GMT\<close>.
\<close>

datatype json =
    JNull
  | JBool bool
  | JNumber string
  | JString string
  | JArray "json list"
  | JObject "(string \<times> json) list"

record runtime =
  JSON_parse :: "string \<Rightarrow> json option"
  JSON_stringify :: "json \<Rightarrow> string"
  ToString :: "json \<Rightarrow> string option"
  Date_parse :: "string \<Rightarrow> int option"
  LocalTZA :: "int \<Rightarrow> int"
  TimeZoneString :: "int \<Rightarrow> string"

text \<open>
  A value of the column \<^verbatim>\<open>created_at\<close> as the query returns it: NULL, a number or a text.
  A number is taken whole, as the constructor takes it.
\<close>

datatype stored = Null | Number int | Text string

definition new_Date :: "runtime \<Rightarrow> stored \<Rightarrow> int option" where
  \<comment> \<open>\<^verbatim>\<open>new Date(v)\<close>: null is the number 0, the epoch; a number is the time value; a text
      is parsed on this machine; a time out of range is an invalid date\<close>
  "new_Date rt v =
     (case v of
        Null \<Rightarrow> TimeClip 0
      | Number t \<Rightarrow> TimeClip t
      | Text s \<Rightarrow> (case Date_parse rt s of None \<Rightarrow> None | Some t \<Rightarrow> TimeClip t))"

definition toTimeString :: "runtime \<Rightarrow> int option \<Rightarrow> string" where
  \<comment> \<open>\<^verbatim>\<open>date.toTimeString()\<close>: the local clock time, \<^verbatim>\<open>GMT\<close> and the zone\<close>
  "toTimeString rt date =
     (case date of
        None \<Rightarrow> ''Invalid Date''
      | Some t \<Rightarrow> clockString (t + LocalTZA rt t) @ '' GMT'' @ TimeZoneString rt t)"

definition js_join :: "string \<Rightarrow> string list \<Rightarrow> string" where
  \<comment> \<open>\<^verbatim>\<open>parts.join(sep)\<close>\<close>
  "js_join sep parts = (case parts of [] \<Rightarrow> [] | p # ps \<Rightarrow> p @ concat (map (\<lambda>q. sep @ q) ps))"

definition nl :: string where
  "nl = [CHR 0x0A]"

definition dq :: string where
  \<comment> \<open>the double quote\<close>
  "dq = [CHR 0x22]"

definition sq :: string where
  \<comment> \<open>the single quote\<close>
  "sq = [CHR 0x27]"

definition bt :: string where
  \<comment> \<open>the backtick\<close>
  "bt = [CHR 0x60]"

definition utf8 :: "nat list \<Rightarrow> string" where
  \<comment> \<open>text outside ASCII, by its UTF-8 bytes\<close>
  "utf8 bs = map char_of bs"

definition ru_Versii :: string where
  \<comment> \<open>Versions\<close>
  "ru_Versii = utf8
    [0xD0, 0x92, 0xD0, 0xB5, 0xD1, 0x80, 0xD1, 0x81, 0xD0, 0xB8, 0xD0, 0xB8]"

definition ru_Vozmozhnosti :: string where
  \<comment> \<open>Opportunities\<close>
  "ru_Vozmozhnosti = utf8
    [0xD0, 0x92, 0xD0, 0xBE, 0xD0, 0xB7, 0xD0, 0xBC, 0xD0, 0xBE, 0xD0, 0xB6, 0xD0, 0xBD,
     0xD0, 0xBE, 0xD1, 0x81, 0xD1, 0x82, 0xD0, 0xB8]"

definition ru_Data :: string where
  \<comment> \<open>Date\<close>
  "ru_Data = utf8
    [0xD0, 0x94, 0xD0, 0xB0, 0xD1, 0x82, 0xD0, 0xB0]"

definition ru_Istochnik :: string where
  \<comment> \<open>Source\<close>
  "ru_Istochnik = utf8
    [0xD0, 0x98, 0xD1, 0x81, 0xD1, 0x82, 0xD0, 0xBE, 0xD1, 0x87, 0xD0, 0xBD, 0xD0, 0xB8,
     0xD0, 0xBA]"

definition ru_hover_hint :: string where
  \<comment> \<open>Hover over an item to see its reasoning\<close>
  "ru_hover_hint = utf8
    [0xD0, 0x9D, 0xD0, 0xB0, 0xD0, 0xB2, 0xD0, 0xB5, 0xD0, 0xB4, 0xD0, 0xB8, 0xD1, 0x82,
     0xD0, 0xB5, 0x20, 0xD0, 0xBD, 0xD0, 0xB0, 0x20, 0xD0, 0xBF, 0xD1, 0x83, 0xD0, 0xBD,
     0xD0, 0xBA, 0xD1, 0x82, 0x2C, 0x20, 0xD1, 0x87, 0xD1, 0x82, 0xD0, 0xBE, 0xD0, 0xB1,
     0xD1, 0x8B, 0x20, 0xD1, 0x83, 0xD0, 0xB2, 0xD0, 0xB8, 0xD0, 0xB4, 0xD0, 0xB5, 0xD1,
     0x82, 0xD1, 0x8C, 0x20, 0xD0, 0xBE, 0xD0, 0xB1, 0xD0, 0xBE, 0xD1, 0x81, 0xD0, 0xBD,
     0xD0, 0xBE, 0xD0, 0xB2, 0xD0, 0xB0, 0xD0, 0xBD, 0xD0, 0xB8, 0xD0, 0xB5]"

definition ru_Podskazka :: string where
  \<comment> \<open>Hint\<close>
  "ru_Podskazka = utf8
    [0xD0, 0x9F, 0xD0, 0xBE, 0xD0, 0xB4, 0xD1, 0x81, 0xD0, 0xBA, 0xD0, 0xB0, 0xD0, 0xB7,
     0xD0, 0xBA, 0xD0, 0xB0]"

definition ru_Silnye_storony :: string where
  \<comment> \<open>Strengths\<close>
  "ru_Silnye_storony = utf8
    [0xD0, 0xA1, 0xD0, 0xB8, 0xD0, 0xBB, 0xD1, 0x8C, 0xD0, 0xBD, 0xD1, 0x8B, 0xD0, 0xB5,
     0x20, 0xD1, 0x81, 0xD1, 0x82, 0xD0, 0xBE, 0xD1, 0x80, 0xD0, 0xBE, 0xD0, 0xBD, 0xD1,
     0x8B]"

definition ru_Slabye_storony :: string where
  \<comment> \<open>Weaknesses\<close>
  "ru_Slabye_storony = utf8
    [0xD0, 0xA1, 0xD0, 0xBB, 0xD0, 0xB0, 0xD0, 0xB1, 0xD1, 0x8B, 0xD0, 0xB5, 0x20, 0xD1,
     0x81, 0xD1, 0x82, 0xD0, 0xBE, 0xD1, 0x80, 0xD0, 0xBE, 0xD0, 0xBD, 0xD1, 0x8B]"

definition ru_Sravnenie :: string where
  \<comment> \<open>Comparison\<close>
  "ru_Sravnenie = utf8
    [0xD0, 0xA1, 0xD1, 0x80, 0xD0, 0xB0, 0xD0, 0xB2, 0xD0, 0xBD, 0xD0, 0xB5, 0xD0, 0xBD,
     0xD0, 0xB8, 0xD0, 0xB5]"

definition ru_Ugrozy :: string where
  \<comment> \<open>Threats\<close>
  "ru_Ugrozy = utf8
    [0xD0, 0xA3, 0xD0, 0xB3, 0xD1, 0x80, 0xD0, 0xBE, 0xD0, 0xB7, 0xD1, 0x8B]"

definition ru_analiz_ot :: string where
  \<comment> \<open>analysis of\<close>
  "ru_analiz_ot = utf8
    [0xD0, 0xB0, 0xD0, 0xBD, 0xD0, 0xB0, 0xD0, 0xBB, 0xD0, 0xB8, 0xD0, 0xB7, 0x20, 0xD0,
     0xBE, 0xD1, 0x82]"

definition ru_analizov :: string where
  \<comment> \<open>of analyses\<close>
  "ru_analizov = utf8
    [0xD0, 0xB0, 0xD0, 0xBD, 0xD0, 0xB0, 0xD0, 0xBB, 0xD0, 0xB8, 0xD0, 0xB7, 0xD0, 0xBE,
     0xD0, 0xB2]"

definition ru_analiz :: string where
  \<comment> \<open>analysis\<close>
  "ru_analiz = utf8
    [0xD0, 0xB0, 0xD0, 0xBD, 0xD0, 0xB0, 0xD0, 0xBB, 0xD0, 0xB8, 0xD0, 0xB7]"

definition ru_matritsa :: string where
  \<comment> \<open>matrix\<close>
  "ru_matritsa = utf8
    [0xD0, 0xBC, 0xD0, 0xB0, 0xD1, 0x82, 0xD1, 0x80, 0xD0, 0xB8, 0xD1, 0x86, 0xD0, 0xB0]"

definition em_dash :: string where
  \<comment> \<open>U+2014\<close>
  "em_dash = utf8
    [0xE2, 0x80, 0x94]"

definition right_arrow :: string where
  \<comment> \<open>U+2192\<close>
  "right_arrow = utf8
    [0xE2, 0x86, 0x92]"

definition emoji_id :: string where
  \<comment> \<open>U+1F194\<close>
  "emoji_id = utf8
    [0xF0, 0x9F, 0x86, 0x94]"

definition emoji_new :: string where
  \<comment> \<open>U+1F195\<close>
  "emoji_new = utf8
    [0xF0, 0x9F, 0x86, 0x95]"

definition emoji_target :: string where
  \<comment> \<open>U+1F3AF\<close>
  "emoji_target = utf8
    [0xF0, 0x9F, 0x8E, 0xAF]"

definition emoji_page :: string where
  \<comment> \<open>U+1F4C4\<close>
  "emoji_page = utf8
    [0xF0, 0x9F, 0x93, 0x84]"

definition emoji_calendar :: string where
  \<comment> \<open>U+1F4C5\<close>
  "emoji_calendar = utf8
    [0xF0, 0x9F, 0x93, 0x85]"

definition emoji_chart :: string where
  \<comment> \<open>U+1F4CA\<close>
  "emoji_chart = utf8
    [0xF0, 0x9F, 0x93, 0x8A]"

definition ru_Obzor :: string where
  \<comment> \<open>Overview\<close>
  "ru_Obzor = utf8
    [0xD0, 0x9E, 0xD0, 0xB1, 0xD0, 0xB7, 0xD0, 0xBE, 0xD1, 0x80]"

definition emoji_memo :: string where
  \<comment> \<open>U+1F4DD\<close>
  "emoji_memo = utf8
    [0xF0, 0x9F, 0x93, 0x9D]"

definition ru_Detali :: string where
  \<comment> \<open>Details\<close>
  "ru_Detali = utf8
    [0xD0, 0x94, 0xD0, 0xB5, 0xD1, 0x82, 0xD0, 0xB0, 0xD0, 0xBB, 0xD0, 0xB8]"

definition emoji_cycle :: string where
  \<comment> \<open>U+1F504\<close>
  "emoji_cycle = utf8
    [0xF0, 0x9F, 0x94, 0x84]"

definition emoji_compass :: string where
  \<comment> \<open>U+1F9ED\<close>
  "emoji_compass = utf8
    [0xF0, 0x9F, 0xA7, 0xAD]"

definition ru_strategic_mapping :: string where
  \<comment> \<open>Strategic mapping\<close>
  "ru_strategic_mapping = utf8
    [0xD0, 0xA1, 0xD1, 0x82, 0xD1, 0x80, 0xD0, 0xB0, 0xD1, 0x82, 0xD0, 0xB5, 0xD0, 0xB3,
     0xD0, 0xB8, 0xD1, 0x87, 0xD0, 0xB5, 0xD1, 0x81, 0xD0, 0xBA, 0xD0, 0xBE, 0xD0, 0xB5,
     0x20, 0xD1, 0x81, 0xD0, 0xBE, 0xD0, 0xBF, 0xD0, 0xBE, 0xD1, 0x81, 0xD1, 0x82, 0xD0,
     0xB0, 0xD0, 0xB2, 0xD0, 0xBB, 0xD0, 0xB5, 0xD0, 0xBD, 0xD0, 0xB8, 0xD0, 0xB5]"

section \<open>Records of the store and rendered documents\<close>

text \<open>
  The columns the generator reads. \<open>created_at\<close> is the stored value as the query returns
  it. A text column is \<open>None\<close> when it is NULL.
\<close>

record row =
  row_id :: int
  created_at :: stored

record swot_row = row +
  source_file :: "string option"
  strengths_json :: "string option"
  weaknesses_json :: "string option"
  opportunities_json :: "string option"
  threats_json :: "string option"
  strategic_so_json :: "string option"
  strategic_wo_json :: "string option"
  strategic_st_json :: "string option"
  strategic_wt_json :: "string option"
  context_content :: "string option"

record comp_row = row +
  old_swot_id :: "int option"
  new_swot_id :: "int option"
  items_json :: "string option"
  summary :: "string option"

text \<open>The values the loop body derives from a row before it fills the template.\<close>

record doc =
  dateStr :: string
  timeStr :: string
  slug :: string
  isLatest :: bool

record swot_doc = doc +
  strengths :: json
  weaknesses :: json
  opportunities :: json
  threats :: json
  strategicSO :: json
  strategicWO :: json
  strategicST :: json
  strategicWT :: json

record comp_doc = doc +
  items :: json

section \<open>The transform stage\<close>

definition heading :: "runtime \<Rightarrow> 'a row_scheme \<Rightarrow> nat \<Rightarrow> error + doc" where
  \<comment> \<open>lines 75 to 81, and 233 to 238 for a comparison\<close>
  "heading rt row index =
     (let date = new_Date rt (created_at row) in
      case toISOString date of
        Inl e \<Rightarrow> Inl e
      | Inr isoStr \<Rightarrow>
          (let dateStr = hd (js_split CHR ''T'' isoStr);
               timeStr = take 5 (hd (js_split CHR '' '' (toTimeString rt date)));
               slug = dateStr @ ''-'' @ show_int (row_id row);
               isLatest = (index = 0)
           in Inr \<lparr>dateStr = dateStr, timeStr = timeStr, slug = slug, isLatest = isLatest\<rparr>))"

definition or_default :: "string option \<Rightarrow> string \<Rightarrow> string" where
  \<comment> \<open>\<^verbatim>\<open>column || dflt\<close>: NULL and the empty string are falsy\<close>
  "or_default column dflt = (case column of None \<Rightarrow> dflt | Some s \<Rightarrow> if s = [] then dflt else s)"

definition parse_field :: "runtime \<Rightarrow> string option \<Rightarrow> error + json" where
  \<comment> \<open>\<^verbatim>\<open>JSON.parse(column || '[]')\<close>\<close>
  "parse_field rt column =
     (case JSON_parse rt (or_default column ''[]'') of
        None \<Rightarrow> Inl SyntaxError
      | Some v \<Rightarrow> Inr v)"

definition swot_transform :: "runtime \<Rightarrow> swot_row \<Rightarrow> nat \<Rightarrow> error + swot_doc" where
  \<comment> \<open>lines 75 to 91\<close>
  "swot_transform rt row index =
     (case heading rt row index of Inl e \<Rightarrow> Inl e | Inr h \<Rightarrow>
      case parse_field rt (strengths_json row) of Inl e \<Rightarrow> Inl e | Inr s \<Rightarrow>
      case parse_field rt (weaknesses_json row) of Inl e \<Rightarrow> Inl e | Inr w \<Rightarrow>
      case parse_field rt (opportunities_json row) of Inl e \<Rightarrow> Inl e | Inr p \<Rightarrow>
      case parse_field rt (threats_json row) of Inl e \<Rightarrow> Inl e | Inr t \<Rightarrow>
      case parse_field rt (strategic_so_json row) of Inl e \<Rightarrow> Inl e | Inr so \<Rightarrow>
      case parse_field rt (strategic_wo_json row) of Inl e \<Rightarrow> Inl e | Inr wo \<Rightarrow>
      case parse_field rt (strategic_st_json row) of Inl e \<Rightarrow> Inl e | Inr st \<Rightarrow>
      case parse_field rt (strategic_wt_json row) of Inl e \<Rightarrow> Inl e | Inr wt \<Rightarrow>
        Inr \<lparr>dateStr = dateStr h, timeStr = timeStr h, slug = slug h, isLatest = isLatest h,
             strengths = s, weaknesses = w, opportunities = p, threats = t,
             strategicSO = so, strategicWO = wo, strategicST = st, strategicWT = wt\<rparr>)"

definition comp_transform :: "runtime \<Rightarrow> comp_row \<Rightarrow> nat \<Rightarrow> error + comp_doc" where
  \<comment> \<open>lines 233 to 240\<close>
  "comp_transform rt row index =
     (case heading rt row index of Inl e \<Rightarrow> Inl e | Inr h \<Rightarrow>
      case parse_field rt (items_json row) of Inl e \<Rightarrow> Inl e | Inr its \<Rightarrow>
        Inr \<lparr>dateStr = dateStr h, timeStr = timeStr h, slug = slug h, isLatest = isLatest h,
             items = its\<rparr>)"

section \<open>The document emitter\<close>

definition sidebar_position :: "'a row_scheme \<Rightarrow> int" where
  \<comment> \<open>\<^verbatim>\<open>1000 - row.id\<close>, exact on the integers a JavaScript number holds exactly\<close>
  "sidebar_position row = 1000 - row_id row"

definition text_of :: "string option \<Rightarrow> string" where
  \<comment> \<open>a text column in a template literal\<close>
  "text_of column = (case column of None \<Rightarrow> ''null'' | Some s \<Rightarrow> s)"

definition number_of :: "int option \<Rightarrow> string" where
  \<comment> \<open>an integer column in a template literal\<close>
  "number_of column = (case column of None \<Rightarrow> ''null'' | Some n \<Rightarrow> show_int n)"

definition get_property :: "json \<Rightarrow> string \<Rightarrow> error + json option" where
  \<comment> \<open>\<^verbatim>\<open>s.text\<close>, \<^verbatim>\<open>s.reasoning\<close>: a TypeError on null, \<open>None\<close> for undefined\<close>
  "get_property s key =
     (case s of
        JNull \<Rightarrow> Inl TypeError
      | JObject members \<Rightarrow> Inr (map_of members key)
      | _ \<Rightarrow> Inr None)"

definition interpolate :: "runtime \<Rightarrow> json option \<Rightarrow> error + string" where
  \<comment> \<open>a property value in a template literal\<close>
  "interpolate rt v =
     (case v of
        None \<Rightarrow> Inr ''undefined''
      | Some x \<Rightarrow> (case ToString rt x of None \<Rightarrow> Inl TypeError | Some s \<Rightarrow> Inr s))"

definition item_text :: "runtime \<Rightarrow> nat \<Rightarrow> json \<Rightarrow> error + string" where
  \<comment> \<open>the inner template of lines 168 to 172, for the item \<open>s\<close> at index \<open>i\<close>\<close>
  "item_text rt i s =
     (case get_property s ''text'' of Inl e \<Rightarrow> Inl e | Inr tv \<Rightarrow>
      case interpolate rt tv of Inl e \<Rightarrow> Inl e | Inr item \<Rightarrow>
      case get_property s ''reasoning'' of Inl e \<Rightarrow> Inl e | Inr rv \<Rightarrow>
      case interpolate rt rv of Inl e \<Rightarrow> Inl e | Inr reasoning \<Rightarrow>
        Inr (js_join nl
          ['''',
           ''### '' @ show_nat (i + 1) @ ''. '' @ item,
           '''',
           ''> '' @ reasoning,
           '''']))"

fun items_text :: "runtime \<Rightarrow> nat \<Rightarrow> json list \<Rightarrow> error + string list" where
  \<comment> \<open>\<^verbatim>\<open>list.map((s, i) => ...)\<close> from index \<open>i\<close> on\<close>
  "items_text rt i [] = Inr []"
| "items_text rt i (s # ss) =
     (case item_text rt i s of Inl e \<Rightarrow> Inl e | Inr x \<Rightarrow>
      case items_text rt (i + 1) ss of Inl e \<Rightarrow> Inl e | Inr xs \<Rightarrow> Inr (x # xs))"

definition category :: "runtime \<Rightarrow> json \<Rightarrow> error + string \<times> string" where
  \<comment> \<open>\<^verbatim>\<open>list.length\<close> and \<^verbatim>\<open>list.map(...).join('\n')\<close> of one category; on a value that is
      not an array one of the two throws a TypeError\<close>
  "category rt v =
     (case v of
        JArray xs \<Rightarrow>
          (case items_text rt 0 xs of Inl e \<Rightarrow> Inl e
           | Inr ts \<Rightarrow> Inr (show_nat (length xs), js_join nl ts))
      | _ \<Rightarrow> Inl TypeError)"

definition swot_mdx :: "runtime \<Rightarrow> swot_row \<Rightarrow> swot_doc \<Rightarrow> error + string" where
  \<comment> \<open>the template of lines 109 to 208, one list element for each line\<close>
  "swot_mdx rt row d =
     (case category rt (strengths d) of Inl e \<Rightarrow> Inl e | Inr s \<Rightarrow>
      case category rt (weaknesses d) of Inl e \<Rightarrow> Inl e | Inr w \<Rightarrow>
      case category rt (opportunities d) of Inl e \<Rightarrow> Inl e | Inr p \<Rightarrow>
      case category rt (threats d) of Inl e \<Rightarrow> Inl e | Inr t \<Rightarrow>
      Inr (js_join nl
       [
        ''---'',
        ''sidebar_position: '' @ show_int (sidebar_position row),
        ''title: '' @ dq @ (if isLatest d then emoji_new @ '' '' else []) @ dateStr d @ '' '' @ em_dash @ '' '' @ text_of (source_file row) @ dq,
        ''description: '' @ dq @ ''SWOT-'' @ ru_analiz_ot @ '' '' @ dateStr d @ '' '' @ timeStr d @ dq,
        ''---'',
        '''',
        ''import SwotMatrix, { SwotStats } from '' @ sq @ ''@site/src/components/SwotMatrix'' @ sq @ '';'',
        ''import StrategicPairs from '' @ sq @ ''@site/src/components/StrategicPairs'' @ sq @ '';'',
        '''',
        ''# SWOT-'' @ ru_analiz @ '': '' @ text_of (source_file row),
        '''',
        emoji_calendar @ '' **'' @ ru_Data @ '':** '' @ dateStr d @ '' '' @ timeStr d @ ''  '',
        emoji_page @ '' **'' @ ru_Istochnik @ '':** '' @ bt @ text_of (source_file row) @ bt @ ''  '',
        emoji_id @ '' **ID:** '' @ show_int (row_id row),
        '''',
        ''---'',
        '''',
        ''## '' @ emoji_chart @ '' '' @ ru_Obzor,
        '''',
        ''<SwotStats '',
        ''  strengths={'' @ JSON_stringify rt (strengths d) @ ''}'',
        ''  weaknesses={'' @ JSON_stringify rt (weaknesses d) @ ''}'',
        ''  opportunities={'' @ JSON_stringify rt (opportunities d) @ ''}'',
        ''  threats={'' @ JSON_stringify rt (threats d) @ ''}'',
        ''/>'',
        '''',
        ''---'',
        '''',
        ''## '' @ emoji_target @ '' SWOT-'' @ ru_matritsa,
        '''',
        ''<SwotMatrix '',
        ''  strengths={'' @ JSON_stringify rt (strengths d) @ ''}'',
        ''  weaknesses={'' @ JSON_stringify rt (weaknesses d) @ ''}'',
        ''  opportunities={'' @ JSON_stringify rt (opportunities d) @ ''}'',
        ''  threats={'' @ JSON_stringify rt (threats d) @ ''}'',
        ''/>'',
        '''',
        '':::tip '' @ ru_Podskazka,
        ru_hover_hint,
        '':::'',
        '''',
        ''---'',
        '''',
        ''## '' @ emoji_compass @ '' '' @ ru_strategic_mapping,
        '''',
        ''<StrategicPairs '',
        ''  so={'' @ JSON_stringify rt (strategicSO d) @ ''}'',
        ''  wo={'' @ JSON_stringify rt (strategicWO d) @ ''}'',
        ''  st={'' @ JSON_stringify rt (strategicST d) @ ''}'',
        ''  wt={'' @ JSON_stringify rt (strategicWT d) @ ''}'',
        ''/>'',
        '''',
        ''---'',
        '''',
        ''## '' @ emoji_memo @ '' '' @ ru_Detali,
        '''',
        ''<details>'',
        ''<summary>'' @ ru_Silnye_storony @ '' ('' @ fst s @ '')</summary>'',
        '''',
        snd s,
        '''',
        ''</details>'',
        '''',
        ''<details>'',
        ''<summary>'' @ ru_Slabye_storony @ '' ('' @ fst w @ '')</summary>'',
        '''',
        snd w,
        '''',
        ''</details>'',
        '''',
        ''<details>'',
        ''<summary>'' @ ru_Vozmozhnosti @ '' ('' @ fst p @ '')</summary>'',
        '''',
        snd p,
        '''',
        ''</details>'',
        '''',
        ''<details>'',
        ''<summary>'' @ ru_Ugrozy @ '' ('' @ fst t @ '')</summary>'',
        '''',
        snd t,
        '''',
        ''</details>'',
        ''''
       ]))"

definition comp_mdx :: "runtime \<Rightarrow> comp_row \<Rightarrow> comp_doc \<Rightarrow> string" where
  \<comment> \<open>the template of lines 242 to 261\<close>
  "comp_mdx rt row d =
     js_join nl
       [
        ''---'',
        ''sidebar_position: '' @ show_int (sidebar_position row),
        ''title: '' @ dq @ (if isLatest d then emoji_new @ '' '' else []) @ ru_Sravnenie @ '' '' @ dateStr d @ dq,
        ''description: '' @ dq @ ru_Sravnenie @ '' SWOT #'' @ number_of (old_swot_id row) @ '' '' @ right_arrow @ '' #'' @ number_of (new_swot_id row) @ dq,
        ''---'',
        '''',
        ''import ComparisonTimeline, { ComparisonStats } from '' @ sq @ ''@site/src/components/ComparisonTimeline'' @ sq @ '';'',
        '''',
        ''# '' @ ru_Sravnenie @ '' SWOT-'' @ ru_analizov,
        '''',
        emoji_calendar @ '' **'' @ ru_Data @ '':** '' @ dateStr d @ '' '' @ timeStr d @ ''  '',
        emoji_cycle @ '' **'' @ ru_Versii @ '':** #'' @ number_of (old_swot_id row) @ '' '' @ right_arrow @ '' #'' @ number_of (new_swot_id row),
        '''',
        ''---'',
        '''',
        ''<ComparisonTimeline '',
        ''  items={'' @ JSON_stringify rt (items d) @ ''}'',
        ''  summary={'' @ JSON_stringify rt (JString (or_default (summary row) [])) @ ''}'',
        ''/>'',
        ''''
       ]"

definition swot_file :: "runtime \<Rightarrow> swot_row \<Rightarrow> nat \<Rightarrow> error + string \<times> string" where
  \<comment> \<open>the name and the content of the file an analysis is written to\<close>
  "swot_file rt row index =
     (case swot_transform rt row index of Inl e \<Rightarrow> Inl e | Inr d \<Rightarrow>
      case swot_mdx rt row d of Inl e \<Rightarrow> Inl e | Inr mdx \<Rightarrow>
        Inr (slug d @ ''.mdx'', mdx))"

definition comp_file :: "runtime \<Rightarrow> comp_row \<Rightarrow> nat \<Rightarrow> error + string \<times> string" where
  \<comment> \<open>the name and the content of the file a comparison is written to\<close>
  "comp_file rt row index =
     (case comp_transform rt row index of Inl e \<Rightarrow> Inl e | Inr d \<Rightarrow>
        Inr (slug d @ ''.mdx'', comp_mdx rt row d))"

section \<open>The pipeline driver\<close>

fun generate ::
  "('r \<Rightarrow> nat \<Rightarrow> error + string \<times> string) \<Rightarrow> nat \<Rightarrow> 'r list \<Rightarrow> dir_io \<Rightarrow> dir_io \<times> error option"
where
  \<comment> \<open>\<^verbatim>\<open>rows.forEach((row, index) => ...)\<close> from \<open>index\<close> on; an exception ends the loop and
      leaves what was written\<close>
  "generate file index [] io = (io, None)"
| "generate file index (row # rows) io =
     (case file row index of
        Inl e \<Rightarrow> (io, Some e)
      | Inr (name, mdx) \<Rightarrow>
          generate file (index + 1) rows
            (io\<lparr>files := writeFileSync name mdx (files io), out := out io @ [Written name]\<rparr>))"

definition process_kind ::
  "('r row_scheme \<Rightarrow> nat \<Rightarrow> error + string \<times> string) \<Rightarrow> (nat \<Rightarrow> line)
     \<Rightarrow> 'r row_scheme list \<Rightarrow> dir_io \<Rightarrow> dir_io \<times> error option"
where
  \<comment> \<open>one kind of record: the loop, then the reconciler with the identifiers of the rows\<close>
  "process_kind file removed_line rows io =
     (case generate file 0 rows io of
        (io1, Some e) \<Rightarrow> (io1, Some e)
      | (io1, None) \<Rightarrow>
          (case cleanupOldFiles (map row_id rows) io1 of
             (io2, removed) \<Rightarrow>
               (if removed > 0 then io2\<lparr>out := out io2 @ [removed_line removed]\<rparr> else io2, None)))"

fun indexOf :: "string list \<Rightarrow> string \<Rightarrow> int" where
  \<comment> \<open>\<^verbatim>\<open>args.indexOf(x)\<close>\<close>
  "indexOf [] x = - 1"
| "indexOf (y # ys) x =
     (if y = x then 0 else (let i = indexOf ys x in if i < 0 then - 1 else i + 1))"

definition at_index :: "'a list \<Rightarrow> int \<Rightarrow> 'a option" where
  \<comment> \<open>\<^verbatim>\<open>xs[i]\<close>, \<open>None\<close> for undefined\<close>
  "at_index xs i = (if 0 \<le> i \<and> i < int (length xs) then Some (xs ! nat i) else None)"

definition js_or :: "string option \<Rightarrow> string option \<Rightarrow> string option" where
  \<comment> \<open>\<^verbatim>\<open>a || b\<close> on strings: undefined and the empty string are falsy\<close>
  "js_or a b = (case a of None \<Rightarrow> b | Some s \<Rightarrow> if s = [] then b else a)"

definition dbPathArg :: "string list \<Rightarrow> string" where
  \<comment> \<open>lines 13 to 15\<close>
  "dbPathArg args =
     (let a = (case find (\<lambda>a. startsWith a ''--db='') args of
                 None \<Rightarrow> None
               | Some x \<Rightarrow> at_index (js_split CHR ''='' x) 1);
          b = at_index args (indexOf args ''--db'' + 1)
      in case js_or (js_or a b) (Some ''../swot.db'') of
           None \<Rightarrow> ''../swot.db''
         | Some p \<Rightarrow> p)"

record world =
  args :: "string list"
  resolve :: "string \<Rightarrow> string"
  docsDir :: string
  existsSync :: "string \<Rightarrow> bool"
  swot_analyses :: "swot_row list"
  comparisons :: "comp_row list"
  swotDir :: "directory option"
  compDir :: "directory option"

datatype status = Exit nat | Uncaught error

record process =
  stdout :: "line list"
  stderr :: "line list"
  opened :: bool
  closed :: bool
  swotFiles :: "directory option"
  compFiles :: "directory option"
  status :: status

definition mkdirSync :: "directory option \<Rightarrow> directory" where
  \<comment> \<open>\<^verbatim>\<open>fs.mkdirSync(dir, { recursive: true })\<close>: an absent directory is created empty\<close>
  "mkdirSync dir = (case dir of None \<Rightarrow> [] | Some entries \<Rightarrow> entries)"

definition main :: "runtime \<Rightarrow> world \<Rightarrow> process" where
  "main rt w =
     (let dbPath = resolve w (dbPathArg (args w));
          out0 = [DbPathLine dbPath, DocsDirLine (docsDir w)]
      in
      if \<not> existsSync w dbPath then
        \<lparr>stdout = out0 @ [UsageHint], stderr = [DbNotFound dbPath],
         opened = False, closed = False,
         swotFiles = swotDir w, compFiles = compDir w, status = Exit 1\<rparr>
      else
        (let swot0 = mkdirSync (swotDir w);
             comp0 = mkdirSync (compDir w);
             swotRows = swot_analyses w
         in
         case process_kind (swot_file rt) RemovedSwotCount swotRows
                \<lparr>files = swot0, out = out0 @ [FoundSwot (length swotRows)]\<rparr> of
           (io1, Some e) \<Rightarrow>
             \<lparr>stdout = out io1, stderr = [UncaughtException e],
              opened = True, closed = False,
              swotFiles = Some (files io1), compFiles = Some comp0, status = Uncaught e\<rparr>
         | (io1, None) \<Rightarrow>
             (let compRows = comparisons w in
              case process_kind (comp_file rt) RemovedCompCount compRows
                     \<lparr>files = comp0, out = out io1 @ [FoundComparisons (length compRows)]\<rparr> of
                (io2, Some e) \<Rightarrow>
                  \<lparr>stdout = out io2, stderr = [UncaughtException e],
                   opened = True, closed = False,
                   swotFiles = Some (files io1), compFiles = Some (files io2),
                   status = Uncaught e\<rparr>
              | (io2, None) \<Rightarrow>
                  \<lparr>stdout = out io2 @ [Finished, StartServerHint], stderr = [],
                   opened = True, closed = True,
                   swotFiles = Some (files io1), compFiles = Some (files io2),
                   status = Exit 0\<rparr>)))"

section \<open>The authenticating reverse proxy: server.js\<close>

record config =
  USER :: string
  PASSWORD :: string

definition configure :: "string option \<Rightarrow> string option \<Rightarrow> config" where
  \<comment> \<open>\<^verbatim>\<open>process.env.SWOT_USER || 'admin'\<close>, \<^verbatim>\<open>process.env.SWOT_PASSWORD || 'swot2024'\<close>\<close>
  "configure swot_user swot_password =
     \<lparr>USER = or_default swot_user ''admin'', PASSWORD = or_default swot_password ''swot2024''\<rparr>"

definition b64_value :: "char \<Rightarrow> nat option" where
  \<comment> \<open>the six bits of a character of the base64 alphabet or its URL-safe variant\<close>
  "b64_value c =
     (let n = (of_char c :: nat) in
      if 65 \<le> n \<and> n \<le> 90 then Some (n - 65)
      else if 97 \<le> n \<and> n \<le> 122 then Some (n - 71)
      else if 48 \<le> n \<and> n \<le> 57 then Some (n + 4)
      else if c = CHR ''+'' \<or> c = CHR ''-'' then Some 62
      else if c = CHR ''/'' \<or> c = CHR ''_'' then Some 63
      else None)"

fun b64_bytes :: "nat list \<Rightarrow> nat list" where
  "b64_bytes (a # b # c # d # rest) =
     (a * 4 + b div 16) # ((b mod 16) * 16 + c div 4) # ((c mod 4) * 64 + d) # b64_bytes rest"
| "b64_bytes [a, b, c] = [a * 4 + b div 16, (b mod 16) * 16 + c div 4]"
| "b64_bytes [a, b] = [a * 4 + b div 16]"
| "b64_bytes [a] = []"
| "b64_bytes [] = []"

definition replacement :: "nat list" where
  \<comment> \<open>U+FFFD in UTF-8\<close>
  "replacement = [0xEF, 0xBF, 0xBD]"

definition lead_byte :: "nat \<Rightarrow> (nat \<times> nat \<times> nat) option" where
  \<comment> \<open>for the first byte of a sequence of several bytes: the number of bytes still needed
      and the bounds of the next byte\<close>
  "lead_byte b =
     (if 0xC2 \<le> b \<and> b \<le> 0xDF then Some (1, 0x80, 0xBF)
      else if b = 0xE0 then Some (2, 0xA0, 0xBF)
      else if b = 0xED then Some (2, 0x80, 0x9F)
      else if 0xE1 \<le> b \<and> b \<le> 0xEF then Some (2, 0x80, 0xBF)
      else if b = 0xF0 then Some (3, 0x90, 0xBF)
      else if b = 0xF4 then Some (3, 0x80, 0x8F)
      else if 0xF1 \<le> b \<and> b \<le> 0xF3 then Some (3, 0x80, 0xBF)
      else None)"

fun utf8_text :: "nat list \<Rightarrow> nat \<Rightarrow> nat \<Rightarrow> nat \<Rightarrow> nat list \<Rightarrow> nat list" where
  \<comment> \<open>the UTF-8 decoder of \<^verbatim>\<open>buffer.toString()\<close>, the text again in UTF-8: a well-formed
      sequence is kept, every ill-formed part becomes U+FFFD. The state is the bytes of the
      sequence read so far, the number still needed and the bounds of the next byte.\<close>
  "utf8_text seen needed lower upper [] = (if needed = 0 then [] else replacement)"
| "utf8_text seen needed lower upper (b # bs) =
     (if needed \<noteq> 0 \<and> lower \<le> b \<and> b \<le> upper then
        (if needed = 1 then seen @ [b] @ utf8_text [] 0 0x80 0xBF bs
         else utf8_text (seen @ [b]) (needed - 1) 0x80 0xBF bs)
      else
        (if needed \<noteq> 0 then replacement else []) @
        (if b < 0x80 then b # utf8_text [] 0 0x80 0xBF bs
         else (case lead_byte b of
                 Some (n, lo, hi) \<Rightarrow> utf8_text [b] n lo hi bs
               | None \<Rightarrow> replacement @ utf8_text [] 0 0x80 0xBF bs)))"

definition base64_toString :: "string \<Rightarrow> string" where
  \<comment> \<open>\<^verbatim>\<open>Buffer.from(s, 'base64').toString()\<close>: characters outside the base64 alphabet are
      skipped, the text ends at the padding, and the bytes are decoded as UTF-8\<close>
  "base64_toString s =
     map char_of
       (utf8_text [] 0 0x80 0xBF
          (b64_bytes (List.map_filter b64_value (takeWhile (\<lambda>c. c \<noteq> CHR ''='') s))))"

text \<open>
  What the proxy does with a request: it answers 401 with the header
  \<^verbatim>\<open>WWW-Authenticate: Basic realm="SWOT Analyzer"\<close> and one of two pages, or it passes the
  request on to the page server. An upgrade request is passed on or its socket is destroyed.
  The decoding of the header is a parameter; the server runs with \<open>base64_toString\<close>.
\<close>

datatype page = AuthorizationRequired | WrongCredentials

datatype response = Challenge page | Proxied

datatype upgrade_result = ProxiedWs | Destroyed

definition credentials_of :: "(string \<Rightarrow> string) \<Rightarrow> string \<Rightarrow> string option \<times> string option" where
  \<comment> \<open>\<^verbatim>\<open>[user, pass] = Buffer.from(auth.slice(6), 'base64').toString().split(':')\<close>\<close>
  "credentials_of decode auth =
     (let credentials = decode (drop 6 auth);
          parts = js_split CHR '':'' credentials
      in (at_index parts 0, at_index parts 1))"

definition handler :: "config \<Rightarrow> (string \<Rightarrow> string) \<Rightarrow> string option \<Rightarrow> response" where
  \<comment> \<open>the request listener, on the request's \<^verbatim>\<open>authorization\<close> header\<close>
  "handler cfg decode authorization =
     (case authorization of
        None \<Rightarrow> Challenge AuthorizationRequired
      | Some auth \<Rightarrow>
          if auth = [] \<or> \<not> startsWith auth ''Basic '' then Challenge AuthorizationRequired
          else (case credentials_of decode auth of
                  (user, pass) \<Rightarrow>
                    if user \<noteq> Some (USER cfg) \<or> pass \<noteq> Some (PASSWORD cfg)
                    then Challenge WrongCredentials
                    else Proxied))"

definition on_upgrade :: "config \<Rightarrow> (string \<Rightarrow> string) \<Rightarrow> string option \<Rightarrow> upgrade_result" where
  \<comment> \<open>the listener of the \<^verbatim>\<open>upgrade\<close> event\<close>
  "on_upgrade cfg decode authorization =
     (case authorization of
        None \<Rightarrow> Destroyed
      | Some auth \<Rightarrow>
          if auth \<noteq> [] \<and> startsWith auth ''Basic '' then
            (case credentials_of decode auth of
               (user, pass) \<Rightarrow>
                 if user = Some (USER cfg) \<and> pass = Some (PASSWORD cfg) then ProxiedWs
                 else Destroyed)
          else Destroyed)"

text \<open>
  The server as a whole. Before it listens the script prints a banner with the password
  masked, \<^verbatim>\<open>'*'.repeat(PASSWORD.length - 2)\<close>, which throws a RangeError on a negative count:
  then the process ends and no request is ever served. The length is that of the
  JavaScript string, in UTF-16 code units. The port is taken to be one the server can
  listen on.
\<close>

definition utf16_length :: "string \<Rightarrow> nat" where
  \<comment> \<open>the code units of a text held in UTF-8: one for each character, two for a character
      of four bytes\<close>
  "utf16_length s =
     length (filter (\<lambda>c. \<not> (0x80 \<le> (of_char c :: nat) \<and> (of_char c :: nat) < 0xC0)) s)
     + length (filter (\<lambda>c. 0xF0 \<le> (of_char c :: nat)) s)"

definition startup :: "config \<Rightarrow> error option" where
  \<comment> \<open>the exception of the banner, if any\<close>
  "startup cfg = (if int (utf16_length (PASSWORD cfg)) - 2 < 0 then Some RangeError else None)"

datatype kind = Request | Upgrade

datatype outcome = Status401 page | PassedOn | SocketDestroyed

definition served :: "config \<Rightarrow> (string \<Rightarrow> string) \<Rightarrow> kind \<Rightarrow> string option \<Rightarrow> outcome option" where
  \<comment> \<open>what becomes of a request of either kind; \<open>None\<close> when the server never listens\<close>
  "served cfg decode k authorization =
     (case startup cfg of
        Some e \<Rightarrow> None
      | None \<Rightarrow>
          Some (case k of
                  Request \<Rightarrow>
                    (case handler cfg decode authorization of
                       Challenge p \<Rightarrow> Status401 p
                     | Proxied \<Rightarrow> PassedOn)
                | Upgrade \<Rightarrow>
                    (case on_upgrade cfg decode authorization of
                       ProxiedWs \<Rightarrow> PassedOn
                     | Destroyed \<Rightarrow> SocketDestroyed)))"

section \<open>Notions the properties are stated with\<close>

definition dateChars :: "char set" where
  \<comment> \<open>the characters of an ISO date\<close>
  "dateChars = set ''0123456789+-''"

definition slug_of :: "runtime \<Rightarrow> 'a row_scheme \<Rightarrow> string option" where
  \<comment> \<open>the ISO date, in UTC, of the time the machine reads from the creation timestamp, a
      dash, the identifier; none for a record whose timestamp is read as no valid date\<close>
  "slug_of rt row =
     (case new_Date rt (created_at row) of
        None \<Rightarrow> None
      | Some t \<Rightarrow> Some (dateString t @ ''-'' @ show_int (row_id row)))"

definition slug_files :: "runtime \<Rightarrow> 'a row_scheme list \<Rightarrow> string set" where
  \<comment> \<open>the file names of the records of a listing\<close>
  "slug_files rt rows = (\<lambda>s. s @ ''.mdx'') ` set (List.map_filter (slug_of rt) rows)"

definition names :: "directory \<Rightarrow> string set" where
  "names dir = set (readdirSync dir)"

definition exact_reconciliation ::
  "runtime \<Rightarrow> 'a row_scheme list \<Rightarrow> string set \<Rightarrow> string set \<Rightarrow> bool" where
  \<comment> \<open>the file set after a run as the specification words it: the files of the records,
      and the files present before that are protected or do not match the pattern\<close>
  "exact_reconciliation rt rows before after =
     (after = slug_files rt rows \<union> {f \<in> before. startsWith f ''_'' \<or> matchId f = None})"

fun emitted ::
  "('r \<Rightarrow> nat \<Rightarrow> error + string \<times> string) \<Rightarrow> nat \<Rightarrow> 'r list \<Rightarrow> (string \<times> string) list \<times> error option"
where
  \<comment> \<open>the files the loop writes, in order, and the exception that ends it\<close>
  "emitted file index [] = ([], None)"
| "emitted file index (row # rows) =
     (case file row index of
        Inl e \<Rightarrow> ([], Some e)
      | Inr w \<Rightarrow> (case emitted file (index + 1) rows of (ws, e) \<Rightarrow> (w # ws, e)))"

definition write_all :: "(string \<times> string) list \<Rightarrow> directory \<Rightarrow> directory" where
  "write_all ws dir = fold (\<lambda>(name, mdx). writeFileSync name mdx) ws dir"

definition front :: "'a row_scheme \<Rightarrow> string" where
  \<comment> \<open>a document up to the text of its title\<close>
  "front row =
     ''---'' @ nl @ ''sidebar_position: '' @ show_int (1000 - row_id row) @ nl @ ''title: '' @ dq"

definition flagged_latest :: "'a row_scheme \<Rightarrow> string \<Rightarrow> bool" where
  \<comment> \<open>the title of the document starts with the sign for new\<close>
  "flagged_latest row mdx = prefix (front row @ emoji_new) mdx"

definition unparseable :: "runtime \<Rightarrow> string option \<Rightarrow> bool" where
  \<comment> \<open>the column holds text and the text is no JSON\<close>
  "unparseable rt column =
     (case column of None \<Rightarrow> False | Some s \<Rightarrow> s \<noteq> [] \<and> JSON_parse rt s = None)"

definition swot_columns :: "swot_row \<Rightarrow> string option list" where
  \<comment> \<open>the structured columns of an analysis, in the order they are parsed\<close>
  "swot_columns row =
     [strengths_json row, weaknesses_json row, opportunities_json row, threats_json row,
      strategic_so_json row, strategic_wo_json row, strategic_st_json row, strategic_wt_json row]"

definition contents :: "directory option \<Rightarrow> string \<Rightarrow> string option" where
  \<comment> \<open>a directory as the map from its file names to their contents\<close>
  "contents dir = (case dir of None \<Rightarrow> Map.empty | Some entries \<Rightarrow> map_of entries)"



definition is_401 :: "outcome option \<Rightarrow> bool" where
  \<comment> \<open>the request is answered with the 401 challenge\<close>
  "is_401 r = (case r of Some (Status401 p) \<Rightarrow> True | _ \<Rightarrow> False)"

definition basic_credentials :: "(string \<Rightarrow> string) \<Rightarrow> string option \<Rightarrow> string option" where
  \<comment> \<open>the credentials a request carries in a Basic authorization header\<close>
  "basic_credentials decode authorization =
     (case authorization of
        None \<Rightarrow> None
      | Some auth \<Rightarrow> if startsWith auth ''Basic '' then Some (decode (drop 6 auth)) else None)"

section \<open>Worked inputs\<close>

text \<open>
  The record of the end-to-end scenario: identifier 7, created at 2024-03-01T10:00:00Z, one
  strength, every other list empty. The runtime of the examples parses and prints the
  texts the examples store; its clock is three hours east of UTC, and it reads a timestamp
  without a zone in that local time. A second runtime is the same machine set to UTC.
\<close>

definition one_strength :: string where
  "one_strength =
     ''[{'' @ dq @ ''text'' @ dq @ '':'' @ dq @ ''A'' @ dq @ '','' @ dq @ ''reasoning'' @ dq
       @ '':'' @ dq @ ''B'' @ dq @ ''}]''"

definition example_runtime :: runtime where
  "example_runtime =
     \<lparr>JSON_parse = (\<lambda>s.
        if s = ''[]'' then Some (JArray [])
        else if s = one_strength
        then Some (JArray [JObject [(''text'', JString ''A''), (''reasoning'', JString ''B'')]])
        else None),
      JSON_stringify = (\<lambda>v. case v of JArray [] \<Rightarrow> ''[]'' | JString s \<Rightarrow> dq @ s @ dq | _ \<Rightarrow> one_strength),
      ToString = (\<lambda>v. case v of JString s \<Rightarrow> Some s | _ \<Rightarrow> None),
      Date_parse = (\<lambda>s.
        if s = ''2024-03-01T10:00:00Z'' then Some 1709287200000
        else if s = ''2024-02-29T10:00:00Z'' then Some 1709200800000
        else if s = ''2024-03-02T10:00:00Z'' then Some 1709373600000
        else if s = ''2024-03-01 01:00:00'' then Some (1709254800000 - 10800000)
        else None),
      LocalTZA = (\<lambda>t. 10800000),
      TimeZoneString = (\<lambda>t. ''+0300 (Moscow Standard Time)'')\<rparr>"


definition analysis_7 :: swot_row where
  "analysis_7 =
     \<lparr>row_id = 7, created_at = Text ''2024-03-01T10:00:00Z'', source_file = Some ''plan.md'',
      strengths_json = Some one_strength, weaknesses_json = None, opportunities_json = Some [],
      threats_json = None, strategic_so_json = None, strategic_wo_json = None,
      strategic_st_json = None, strategic_wt_json = None, context_content = None\<rparr>"

definition analysis_6 :: swot_row where
  \<comment> \<open>an older record, created at 2024-02-29T10:00:00Z, with every list missing\<close>
  "analysis_6 =
     \<lparr>row_id = 6, created_at = Text ''2024-02-29T10:00:00Z'', source_file = Some ''plan.md'',
      strengths_json = None, weaknesses_json = None, opportunities_json = None,
      threats_json = None, strategic_so_json = None, strategic_wo_json = None,
      strategic_st_json = None, strategic_wt_json = None, context_content = None\<rparr>"


definition analysis_8_malformed :: swot_row where
  \<comment> \<open>a later record whose list of weaknesses is cut short\<close>
  "analysis_8_malformed =
     \<lparr>row_id = 8, created_at = Text ''2024-03-02T10:00:00Z'', source_file = Some ''plan.md'',
      strengths_json = None, weaknesses_json = Some ''[{'', opportunities_json = None,
      threats_json = None, strategic_so_json = None, strategic_wo_json = None,
      strategic_st_json = None, strategic_wt_json = None, context_content = None\<rparr>"

definition analysis_4_malformed :: swot_row where
  \<comment> \<open>an older record, created at 2024-02-29T10:00:00Z, whose list of weaknesses is cut
      short\<close>
  "analysis_4_malformed =
     \<lparr>row_id = 4, created_at = Text ''2024-02-29T10:00:00Z'', source_file = Some ''plan.md'',
      strengths_json = None, weaknesses_json = Some ''[{'', opportunities_json = None,
      threats_json = None, strategic_so_json = None, strategic_wo_json = None,
      strategic_st_json = None, strategic_wt_json = None, context_content = None\<rparr>"

definition comparison_2 :: comp_row where
  "comparison_2 =
     \<lparr>row_id = 2, created_at = Text ''2024-03-01T10:00:00Z'', old_swot_id = Some 6, new_swot_id = Some 7,
      items_json = None, summary = None\<rparr>"

definition comparison_1_malformed :: comp_row where
  \<comment> \<open>an older comparison whose list of changes is cut short\<close>
  "comparison_1_malformed =
     \<lparr>row_id = 1, created_at = Text ''2024-02-29T10:00:00Z'', old_swot_id = Some 4, new_swot_id = Some 6,
      items_json = Some ''[{'', summary = None\<rparr>"

definition example_world :: world where
  "example_world =
     \<lparr>args = [''--db'', ''swot.db''], resolve = (\<lambda>p. ''/srv/'' @ p), docsDir = ''/srv/docs'',
      existsSync = (\<lambda>p. p = ''/srv/swot.db''),
      swot_analyses = [analysis_7], comparisons = [comparison_2],
      swotDir = Some [(''2023-01-01-7.mdx'', ''old''), (''2024-01-01-3.mdx'', ''stale''),
                      (''_index-3.mdx'', ''kept''), (''notes.mdx'', ''kept'')],
      compDir = None\<rparr>"

definition malformed_world :: world where
  \<comment> \<open>the store holds the record of the scenario and the older malformed one; the directory
      of the analyses is empty\<close>
  "malformed_world =
     example_world\<lparr>swot_analyses := [analysis_7, analysis_4_malformed], swotDir := Some []\<rparr>"

section \<open>Decimal text, splitting and dates\<close>

lemma lt10: "(d::nat) < 10 \<Longrightarrow> d = 0 \<or> d = 1 \<or> d = 2 \<or> d = 3 \<or> d = 4 \<or> d = 5 \<or> d = 6 \<or> d = 7 \<or> d = 8 \<or> d = 9"
  by arith

lemma isDigit_digitChar: "d < 10 \<Longrightarrow> isDigit (digitChar d)"
proof -
  assume "d < 10"
  from lt10[OF this] show ?thesis
    by (elim disjE) (hypsubst, code_simp)+
qed

lemma digitVal_digitChar: "d < 10 \<Longrightarrow> digitVal (digitChar d) = d"
  by (simp add: digitVal_def digitChar_def)

lemma show_nat_digits: "list_all isDigit (show_nat n)"
proof (induction n rule: show_nat.induct)
  case (1 n)
  show ?case
  proof (cases "n < 10")
    case True
    then show ?thesis by (subst show_nat.simps) (simp add: isDigit_digitChar)
  next
    case False
    then show ?thesis using 1 by (subst show_nat.simps) (simp add: isDigit_digitChar)
  qed
qed

lemma show_nat_nonempty: "show_nat n \<noteq> []"
  by (subst show_nat.simps) simp

lemma parseInt_snoc: "parseInt (ds @ [c]) = 10 * parseInt ds + digitVal c"
  by (simp add: parseInt_def)

lemma parseInt_show_nat: "parseInt (show_nat n) = n"
proof (induction n rule: show_nat.induct)
  case (1 n)
  show ?case
  proof (cases "n < 10")
    case True
    then show ?thesis by (subst show_nat.simps) (simp add: parseInt_def digitVal_digitChar)
  next
    case False
    then have "parseInt (show_nat n) = 10 * parseInt (show_nat (n div 10)) + digitVal (digitChar (n mod 10))"
      by (subst show_nat.simps) (simp add: parseInt_snoc)
    then show ?thesis using 1 False by (simp add: digitVal_digitChar)
  qed
qed

lemma js_split_nonempty: "js_split c s \<noteq> []"
proof (induction s)
  case Nil
  show ?case by simp
next
  case (Cons x xs)
  then show ?case by (cases "js_split c xs") simp_all
qed

lemma js_split_no_sep: "c \<notin> set p \<Longrightarrow> js_split c p = [p]"
  by (induction p) auto

lemma js_split_first: "c \<notin> set p \<Longrightarrow> js_split c (p @ c # rest) = p # js_split c rest"
  by (induction p) auto

lemma hd_js_split: "c \<notin> set p \<Longrightarrow> hd (js_split c (p @ c # rest)) = p"
  by (simp add: js_split_first)


lemma isDigit_dateChars: "isDigit c \<Longrightarrow> c \<in> dateChars"
  by (auto simp: isDigit_def dateChars_def)

lemma show_nat_set: "c \<in> set (show_nat n) \<Longrightarrow> isDigit c"
  using show_nat_digits[of n] by (simp add: list_all_iff)

lemma isDigit_0: "isDigit CHR ''0''"
  by (simp add: isDigit_def)

lemma pad_set: "c \<in> set (pad n (show_nat k)) \<Longrightarrow> isDigit c"
  by (auto simp: pad_def isDigit_0 show_nat_set)

lemma pad_nonempty: "pad n (show_nat k) \<noteq> []"
  by (simp add: pad_def show_nat_nonempty)

lemma two_set: "c \<in> set (two x) \<Longrightarrow> isDigit c"
  by (simp add: two_def pad_set)

lemma yearString_set: "c \<in> set (yearString y) \<Longrightarrow> c \<in> dateChars"
  by (auto simp: yearString_def dest!: pad_set isDigit_dateChars split: if_splits)
     (simp_all add: dateChars_def)

lemma yearString_nonempty: "yearString y \<noteq> []"
  by (simp add: yearString_def pad_nonempty)

lemma dateString_set: "c \<in> set (dateString t) \<Longrightarrow> c \<in> dateChars"
  by (auto simp: dateString_def split: prod.splits dest: yearString_set two_set isDigit_dateChars)
     (simp add: dateChars_def)

lemma dateString_nonempty: "dateString t \<noteq> []"
  by (simp add: dateString_def yearString_nonempty split: prod.splits)

lemma dateString_no_T: "CHR ''T'' \<notin> set (dateString t)"
  using dateString_set[of "CHR ''T''" t] by (auto simp: dateChars_def)

lemma dateString_hd: "hd (dateString t) \<in> dateChars"
  using dateString_nonempty[of t] dateString_set[of "hd (dateString t)" t] by auto

lemma clockString_no_space: "CHR '' '' \<notin> set (clockString t)"
proof
  assume "CHR '' '' \<in> set (clockString t)"
  then have "isDigit CHR '' '' \<or> CHR '' '' = CHR '':''"
    by (auto simp: clockString_def Let_def dest: two_set)
  then show False by (simp add: isDigit_def)
qed

lemma toISOString_date: "toISOString (Some t) = Inr s \<Longrightarrow> hd (js_split CHR ''T'' s) = dateString t"
  by (auto simp: toISOString_def hd_js_split dateString_no_T)

lemma toTimeString_clock:
  "hd (js_split CHR '' '' (toTimeString rt (Some t))) = clockString (t + LocalTZA rt t)"
  by (simp add: toTimeString_def hd_js_split clockString_no_space)

section \<open>The pattern and the reconciler\<close>

lemma matchId_complete:
  assumes "matches_pattern file pre ds"
  shows "matchId file = Some ds"
proof -
  from assms have f: "file = pre @ ''-'' @ ds @ ''.mdx''" and ne: "ds \<noteq> []"
    and dg: "list_all isDigit ds" by (auto simp: matches_pattern_def)
  have stem: "take (length file - 4) file = pre @ ''-'' @ ds" using f by simp
  have nd: "\<not> isDigit CHR ''-''" by (simp add: isDigit_def)
  have tw: "takeWhile isDigit (rev (pre @ ''-'' @ ds)) = rev ds"
    using dg nd by (simp add: takeWhile_append2 list_all_iff takeWhile_tail)
  have dw: "dropWhile isDigit (rev (pre @ ''-'' @ ds)) = CHR ''-'' # rev pre"
    using dg nd dropWhile_append2[of "rev ds" isDigit "CHR ''-'' # rev pre"] by (simp add: list_all_iff)
  have sf: "suffix ''.mdx'' file" using f by (simp add: suffix_def)
  show ?thesis unfolding matchId_def stem Let_def tw dw using sf ne by simp
qed

lemma matchId_sound:
  assumes "matchId file = Some ds"
  shows "\<exists>pre. matches_pattern file pre ds"
proof -
  from assms have sf: "suffix ''.mdx'' file" by (auto simp: matchId_def split: if_splits)
  then obtain stem where f: "file = stem @ ''.mdx''" by (auto simp: suffix_def)
  have st: "take (length file - 4) file = stem" using f by simp
  let ?ds = "rev (takeWhile isDigit (rev stem))"
  let ?pre = "rev (dropWhile isDigit (rev stem))"
  from assms have ds: "ds = ?ds" and ne: "?ds \<noteq> []" and pne: "?pre \<noteq> []" and l: "last ?pre = CHR ''-''"
    using sf by (auto simp: matchId_def st Let_def split: if_splits)
  have "stem = ?pre @ ?ds" by (metis rev_append rev_rev_ident takeWhile_dropWhile_id)
  moreover have "?pre = butlast ?pre @ ''-''" using pne l by (metis append_butlast_last_id)
  ultimately have "stem = butlast ?pre @ ''-'' @ ?ds" by (metis append.assoc)
  moreover have "list_all isDigit ?ds" by (simp add: list_all_iff) (metis set_takeWhileD)
  ultimately show ?thesis using f ne ds unfolding matches_pattern_def
    by (intro exI[of _ "butlast ?pre"]) auto
qed

lemma matchId_iff: "matchId file = Some ds \<longleftrightarrow> (\<exists>pre. matches_pattern file pre ds)"
  using matchId_complete matchId_sound by blast


lemma cleanup_step_eq:
  "cleanup_step ids f (io, n) =
     (if orphan ids f
      then (io\<lparr>files := filter (\<lambda>e. fst e \<noteq> f) (files io), out := out io @ [RemovedStale f]\<rparr>, n + 1)
      else (io, n))"
proof -
  have "AList.delete f (files io) = filter (\<lambda>e. fst e \<noteq> f) (files io)"
    by (auto simp: AList.delete_eq intro: filter_cong)
  then show ?thesis
    by (simp add: cleanup_step_def orphan_def unlinkSync_def Let_def split: option.splits)
qed

lemma cleanup_fold:
  "fold (cleanup_step ids) fs (io, n) =
     (io\<lparr>files := filter (\<lambda>e. \<not> (fst e \<in> set fs \<and> orphan ids (fst e))) (files io),
         out := out io @ map RemovedStale (filter (orphan ids) fs)\<rparr>,
      n + length (filter (orphan ids) fs))"
proof (induction fs arbitrary: io n)
  case Nil
  then show ?case by simp
next
  case (Cons f fs)
  show ?case
  proof (cases "orphan ids f")
    case True
    have "filter (\<lambda>e. \<not> (fst e \<in> set fs \<and> orphan ids (fst e))) (filter (\<lambda>e. fst e \<noteq> f) (files io))
        = filter (\<lambda>e. \<not> (fst e \<in> set (f # fs) \<and> orphan ids (fst e))) (files io)"
      using True by (auto intro: filter_cong)
    then show ?thesis using True by (simp add: cleanup_step_eq Cons.IH)
  next
    case False
    have "filter (\<lambda>e. \<not> (fst e \<in> set fs \<and> orphan ids (fst e))) (files io)
        = filter (\<lambda>e. \<not> (fst e \<in> set (f # fs) \<and> orphan ids (fst e))) (files io)"
      using False by (auto intro: filter_cong)
    then show ?thesis using False by (simp add: cleanup_step_eq Cons.IH)
  qed
qed

lemma cleanupOldFiles_eq:
  "cleanupOldFiles ids io =
     (io\<lparr>files := filter (\<lambda>e. \<not> stale ids (fst e)) (files io),
         out := out io @ map RemovedStale (filter (stale ids) (readdirSync (files io)))\<rparr>,
      length (filter (stale ids) (readdirSync (files io))))"
proof -
  have a: "filter (\<lambda>e. \<not> (fst e \<in> set (filter listed (readdirSync (files io))) \<and> orphan ids (fst e))) (files io)
         = filter (\<lambda>e. \<not> stale ids (fst e)) (files io)"
    by (rule filter_cong) (auto simp: readdirSync_def stale_def)
  have b: "filter (orphan ids) (filter listed (readdirSync (files io))) = filter (stale ids) (readdirSync (files io))"
    by (simp add: stale_def[abs_def] conj_commute)
  show ?thesis
    unfolding cleanupOldFiles_def Let_def cleanup_fold a b by simp
qed

section \<open>The transform stage and the front of a document\<close>

lemma heading_eq:
  "heading rt row index =
     (case new_Date rt (created_at row) of
        None \<Rightarrow> Inl RangeError
      | Some t \<Rightarrow>
          Inr \<lparr>dateStr = dateString t, timeStr = take 5 (clockString (t + LocalTZA rt t)),
               slug = dateString t @ ''-'' @ show_int (row_id row), isLatest = (index = 0)\<rparr>)"
proof (cases "new_Date rt (created_at row)")
  case None
  then show ?thesis by (simp add: heading_def toISOString_def)
next
  case (Some t)
  obtain s where s: "toISOString (Some t) = Inr s" by (simp add: toISOString_def)
  show ?thesis
    using Some s toISOString_date[OF s] toTimeString_clock[of rt t]
    by (simp add: heading_def Let_def)
qed

lemma heading_Inr:
  assumes "heading rt row index = Inr h"
  shows "slug_of rt row = Some (slug h)" and "isLatest h = (index = 0)"
    and "\<exists>t. new_Date rt (created_at row) = Some t \<and> dateStr h = dateString t"
  using assms by (auto simp: heading_eq slug_of_def split: option.splits)

lemma heading_Inl: "heading rt row index = Inl e \<Longrightarrow> e = RangeError \<and> slug_of rt row = None"
  by (auto simp: heading_eq slug_of_def split: option.splits)

lemma heading_total: "slug_of rt row \<noteq> None \<Longrightarrow> \<exists>h. heading rt row index = Inr h"
  by (auto simp: heading_eq slug_of_def split: option.splits)

lemma swot_transform_Inr:
  assumes "swot_transform rt row index = Inr d"
  shows "\<exists>h. heading rt row index = Inr h \<and> dateStr d = dateStr h \<and> timeStr d = timeStr h
           \<and> slug d = slug h \<and> isLatest d = isLatest h"
  using assms unfolding swot_transform_def by (auto split: sum.splits)

lemma comp_transform_Inr:
  assumes "comp_transform rt row index = Inr d"
  shows "\<exists>h. heading rt row index = Inr h \<and> dateStr d = dateStr h \<and> timeStr d = timeStr h
           \<and> slug d = slug h \<and> isLatest d = isLatest h"
  using assms unfolding comp_transform_def by (auto split: sum.splits)

lemma js_join_Cons: "js_join sep (p # ps) = p @ concat (map (\<lambda>q. sep @ q) ps)"
  by (simp add: js_join_def)

lemma swot_mdx_front:
  assumes "swot_mdx rt row d = Inr mdx"
  shows "\<exists>rest. mdx = front row @ (if isLatest d then emoji_new @ '' '' else []) @ dateStr d @ rest"
proof -
  from assms obtain ls where
    "mdx = js_join nl (''---'' # (''sidebar_position: '' @ show_int (sidebar_position row))
        # (''title: '' @ dq @ (if isLatest d then emoji_new @ '' '' else []) @ dateStr d @ '' ''
             @ em_dash @ '' '' @ text_of (source_file row) @ dq) # ls)"
    unfolding swot_mdx_def by (auto split: sum.splits)
  then show ?thesis
    by (simp add: js_join_Cons front_def sidebar_position_def)
qed

lemma comp_mdx_front:
  "\<exists>rest. comp_mdx rt row d = front row @ (if isLatest d then emoji_new @ '' '' else []) @ ru_Sravnenie @ rest"
  unfolding comp_mdx_def by (simp add: js_join_Cons front_def sidebar_position_def)

section \<open>The file of a record\<close>

lemma emoji_not_date: "hd emoji_new \<notin> dateChars"
  unfolding emoji_new_def utf8_def dateChars_def by code_simp

lemma emoji_nonempty: "emoji_new \<noteq> []"
  by (simp add: emoji_new_def utf8_def)

lemma emoji_not_Sravnenie: "hd emoji_new \<noteq> hd ru_Sravnenie"
  unfolding emoji_new_def ru_Sravnenie_def utf8_def by code_simp

lemma Sravnenie_nonempty: "ru_Sravnenie \<noteq> []"
  by (simp add: ru_Sravnenie_def utf8_def)

lemma not_prefix_hd: "a \<noteq> [] \<Longrightarrow> b \<noteq> [] \<Longrightarrow> hd a \<noteq> hd b \<Longrightarrow> \<not> prefix a (b @ r)"
  by (cases a; cases b) auto

lemma flagged_front:
  assumes "mdx = front row @ (if l then emoji_new @ '' '' else []) @ b @ rest"
    and "b \<noteq> []" and "hd emoji_new \<noteq> hd b"
  shows "flagged_latest row mdx \<longleftrightarrow> l"
proof (cases l)
  case True
  then show ?thesis using assms(1) by (simp add: flagged_latest_def)
next
  case False
  have "\<not> prefix emoji_new (b @ rest)"
    using assms(2,3) emoji_nonempty by (rule_tac not_prefix_hd) auto
  then show ?thesis using False assms(1) by (simp add: flagged_latest_def)
qed

lemma prefix_front:
  "mdx = front row @ r \<Longrightarrow>
   prefix (''---'' @ nl @ ''sidebar_position: '' @ show_int (1000 - row_id row) @ nl) mdx"
  by (simp add: front_def prefix_def)

lemma swot_file_Inr:
  assumes "swot_file rt row index = Inr (name, mdx)"
  shows "\<exists>s. slug_of rt row = Some s \<and> name = s @ ''.mdx''"
    and "flagged_latest row mdx \<longleftrightarrow> index = 0"
    and "prefix (''---'' @ nl @ ''sidebar_position: '' @ show_int (1000 - row_id row) @ nl) mdx"
proof -
  from assms obtain d where d: "swot_transform rt row index = Inr d"
    and m: "swot_mdx rt row d = Inr mdx" and n: "name = slug d @ ''.mdx''"
    unfolding swot_file_def by (auto split: sum.splits)
  from swot_transform_Inr[OF d] obtain h where h: "heading rt row index = Inr h"
    and eq: "dateStr d = dateStr h" "slug d = slug h" "isLatest d = isLatest h" by blast
  from heading_Inr[OF h] obtain t where s: "slug_of rt row = Some (slug h)"
    and l: "isLatest h = (index = 0)" and t: "dateStr h = dateString t" by blast
  from swot_mdx_front[OF m] obtain rest where
    r: "mdx = front row @ (if isLatest d then emoji_new @ '' '' else []) @ dateStr d @ rest" by blast
  show "\<exists>s. slug_of rt row = Some s \<and> name = s @ ''.mdx''" using s n eq by simp
  have "hd emoji_new \<noteq> hd (dateStr d)"
    using emoji_not_date dateString_hd[of t] eq t by auto
  from flagged_front[OF r _ this] show "flagged_latest row mdx \<longleftrightarrow> index = 0"
    using eq t l dateString_nonempty[of t] by simp
  show "prefix (''---'' @ nl @ ''sidebar_position: '' @ show_int (1000 - row_id row) @ nl) mdx"
    using r by (rule prefix_front)
qed

lemma comp_file_Inr:
  assumes "comp_file rt row index = Inr (name, mdx)"
  shows "\<exists>s. slug_of rt row = Some s \<and> name = s @ ''.mdx''"
    and "flagged_latest row mdx \<longleftrightarrow> index = 0"
    and "prefix (''---'' @ nl @ ''sidebar_position: '' @ show_int (1000 - row_id row) @ nl) mdx"
proof -
  from assms obtain d where d: "comp_transform rt row index = Inr d"
    and m: "mdx = comp_mdx rt row d" and n: "name = slug d @ ''.mdx''"
    unfolding comp_file_def by (auto split: sum.splits)
  from comp_transform_Inr[OF d] obtain h where h: "heading rt row index = Inr h"
    and eq: "dateStr d = dateStr h" "slug d = slug h" "isLatest d = isLatest h" by blast
  from heading_Inr[OF h] have s: "slug_of rt row = Some (slug h)"
    and l: "isLatest h = (index = 0)" by blast+
  from comp_mdx_front[of rt row d] m obtain rest where
    r: "mdx = front row @ (if isLatest d then emoji_new @ '' '' else []) @ ru_Sravnenie @ rest" by auto
  show "\<exists>s. slug_of rt row = Some s \<and> name = s @ ''.mdx''" using s n eq by simp
  from flagged_front[OF r Sravnenie_nonempty emoji_not_Sravnenie]
  show "flagged_latest row mdx \<longleftrightarrow> index = 0" using eq l by simp
  show "prefix (''---'' @ nl @ ''sidebar_position: '' @ show_int (1000 - row_id row) @ nl) mdx"
    using r by (rule prefix_front)
qed

section \<open>The loop over a listing\<close>

lemma generate_eq:
  "generate file k rows io =
     (case emitted file k rows of
        (ws, e) \<Rightarrow> (io\<lparr>files := write_all ws (files io), out := out io @ map (\<lambda>w. Written (fst w)) ws\<rparr>, e))"
proof (induction rows arbitrary: k io)
  case Nil
  show ?case by (simp add: write_all_def)
next
  case (Cons row rows)
  show ?case
  proof (cases "file row k")
    case (Inl e)
    then show ?thesis by (simp add: write_all_def)
  next
    case (Inr w)
    obtain name mdx where w: "w = (name, mdx)" by (cases w)
    obtain ws e where em: "emitted file (k + 1) rows = (ws, e)" by (cases "emitted file (k + 1) rows")
    show ?thesis using Inr w em Cons.IH[of "k + 1"]
      by (simp add: write_all_def)
  qed
qed

lemma emitted_None:
  "emitted file k rows = (ws, None) \<Longrightarrow>
   length ws = length rows \<and> (\<forall>i<length rows. file (rows ! i) (k + i) = Inr (ws ! i))"
proof (induction rows arbitrary: k ws)
  case Nil
  then show ?case by simp
next
  case (Cons row rows)
  from Cons.prems obtain w ws' where w: "file row k = Inr w"
    and em: "emitted file (k + 1) rows = (ws', None)" and ws: "ws = w # ws'"
    by (auto split: sum.splits prod.splits)
  from Cons.IH[OF em] have ih: "length ws' = length rows"
    "\<forall>i<length rows. file (rows ! i) (k + 1 + i) = Inr (ws' ! i)" by simp_all
  show ?case
  proof (intro conjI allI impI)
    show "length ws = length (row # rows)" using ih ws by simp
    fix i assume "i < length (row # rows)"
    then show "file ((row # rows) ! i) (k + i) = Inr (ws ! i)"
      using w ws ih by (cases i) simp_all
  qed
qed

lemma emitted_Some:
  "emitted file k rows = (ws, Some e) \<Longrightarrow>
   length ws < length rows \<and> (\<forall>i<length ws. file (rows ! i) (k + i) = Inr (ws ! i))
   \<and> file (rows ! length ws) (k + length ws) = Inl e"
proof (induction rows arbitrary: k ws)
  case Nil
  then show ?case by simp
next
  case (Cons row rows)
  show ?case
  proof (cases "file row k")
    case (Inl e')
    then show ?thesis using Cons.prems by simp
  next
    case (Inr w)
    with Cons.prems obtain ws' where em: "emitted file (k + 1) rows = (ws', Some e)"
      and ws: "ws = w # ws'" by (auto split: prod.splits)
    from Cons.IH[OF em] have ih: "length ws' < length rows"
      "\<forall>i<length ws'. file (rows ! i) (k + 1 + i) = Inr (ws' ! i)"
      "file (rows ! length ws') (k + 1 + length ws') = Inl e" by simp_all
    show ?thesis
    proof (intro conjI allI impI)
      show "length ws < length (row # rows)" using ih ws by simp
      show "file ((row # rows) ! length ws) (k + length ws) = Inl e" using ih ws by simp
      fix i assume "i < length ws"
      then show "file ((row # rows) ! i) (k + i) = Inr (ws ! i)"
        using Inr ws ih by (cases i) simp_all
    qed
  qed
qed

lemma map_of_write_all: "map_of (write_all ws dir) = map_of dir ++ map_of (rev ws)"
proof (induction ws arbitrary: dir)
  case Nil
  show ?case by (simp add: write_all_def)
next
  case (Cons w ws)
  obtain name mdx where w: "w = (name, mdx)" by (cases w)
  have "write_all (w # ws) dir = write_all ws (writeFileSync name mdx dir)"
    by (simp add: write_all_def w)
  then show ?case
    by (simp add: Cons.IH w writeFileSync_def update_conv' map_add_def fun_eq_iff split: option.splits)
qed

lemma names_write_all: "names (write_all ws dir) = names dir \<union> fst ` set ws"
proof -
  have "names (write_all ws dir) = dom (map_of (write_all ws dir))"
    by (simp add: names_def readdirSync_def dom_map_of_conv_image_fst)
  also have "\<dots> = dom (map_of dir) \<union> dom (map_of (rev ws))"
    by (simp add: map_of_write_all Un_commute)
  also have "\<dots> = names dir \<union> fst ` set ws"
    by (simp add: names_def readdirSync_def dom_map_of_conv_image_fst)
  finally show ?thesis .
qed

lemma swot_transform_isLatest: "swot_transform rt row index = Inr d \<Longrightarrow> isLatest d = (index = 0)"
  using swot_transform_Inr[of rt row index d] heading_Inr(2)[of rt row index] by auto

lemma comp_transform_isLatest: "comp_transform rt row index = Inr d \<Longrightarrow> isLatest d = (index = 0)"
  using comp_transform_Inr[of rt row index d] heading_Inr(2)[of rt row index] by auto

lemma generate_done:
  assumes "generate file 0 rows io = (io', None)"
  shows "\<exists>ws. length ws = length rows \<and> files io' = write_all ws (files io)
           \<and> (\<forall>i<length rows. file (rows ! i) i = Inr (ws ! i))"
proof -
  obtain ws e where em: "emitted file 0 rows = (ws, e)" by (cases "emitted file 0 rows")
  with assms have e: "e = None" and fs: "files io' = write_all ws (files io)"
    by (auto simp: generate_eq)
  from emitted_None[of "file" 0 "rows" "ws"] em e have "length ws = length rows"
    and "\<forall>i<length rows. file (rows ! i) i = Inr (ws ! i)" by auto
  with fs show ?thesis by blast
qed

lemma generate_flags:
  assumes g: "generate file 0 rows io = (io', None)"
    and fl: "\<And>row i name mdx. file row i = Inr (name, mdx) \<Longrightarrow> flagged_latest row mdx \<longleftrightarrow> i = 0"
  shows "\<exists>ws. length ws = length rows \<and> files io' = write_all ws (files io)
           \<and> (\<forall>i<length rows. file (rows ! i) i = Inr (ws ! i)
                 \<and> (flagged_latest (rows ! i) (snd (ws ! i)) \<longleftrightarrow> i = 0))"
proof -
  from generate_done[OF g] obtain ws where len: "length ws = length rows"
    and fs: "files io' = write_all ws (files io)"
    and nth: "\<forall>i<length rows. file (rows ! i) i = Inr (ws ! i)" by blast
  have "flagged_latest (rows ! i) (snd (ws ! i)) \<longleftrightarrow> i = 0" if i: "i < length rows" for i
  proof -
    have "file (rows ! i) i = Inr (fst (ws ! i), snd (ws ! i))" using nth i by simp
    then show ?thesis by (rule fl)
  qed
  with len fs nth show ?thesis by blast
qed

section \<open>One kind of record: the loop and the reconciler\<close>

lemma process_kind_eq:
  "process_kind file removed_line rows io =
     (case emitted file 0 rows of
        (ws, Some e) \<Rightarrow>
          (io\<lparr>files := write_all ws (files io), out := out io @ map (\<lambda>w. Written (fst w)) ws\<rparr>, Some e)
      | (ws, None) \<Rightarrow>
          (let io1 = io\<lparr>files := write_all ws (files io), out := out io @ map (\<lambda>w. Written (fst w)) ws\<rparr>;
               gone = filter (stale (map row_id rows)) (readdirSync (files io1));
               io2 = io1\<lparr>files := filter (\<lambda>e. \<not> stale (map row_id rows) (fst e)) (files io1),
                        out := out io1 @ map RemovedStale gone\<rparr>
           in (if length gone > 0 then io2\<lparr>out := out io2 @ [removed_line (length gone)]\<rparr> else io2, None)))"
  by (simp add: process_kind_def generate_eq cleanupOldFiles_eq Let_def split: prod.splits option.splits)

lemma process_kind_done:
  assumes "process_kind file removed_line rows io = (io', None)"
  shows "\<exists>ws. emitted file 0 rows = (ws, None)
           \<and> files io' = filter (\<lambda>e. \<not> stale (map row_id rows) (fst e)) (write_all ws (files io))"
  using assms unfolding process_kind_eq
  by (auto simp: Let_def split: prod.splits option.splits if_splits)

lemma process_kind_thrown:
  assumes "process_kind file removed_line rows io = (io', Some e)"
  shows "\<exists>ws. emitted file 0 rows = (ws, Some e) \<and> files io' = write_all ws (files io)
           \<and> out io' = out io @ map (\<lambda>w. Written (fst w)) ws"
  using assms unfolding process_kind_eq
  by (auto simp: Let_def split: prod.splits option.splits if_splits)

lemma names_filter: "names (filter (\<lambda>e. P (fst e)) dir) = {f \<in> names dir. P f}"
  by (auto simp: names_def readdirSync_def)

lemma set_map_filter: "set (List.map_filter f xs) = {y. \<exists>x\<in>set xs. f x = Some y}"
proof (intro set_eqI iffI)
  fix y assume "y \<in> set (List.map_filter f xs)"
  then show "y \<in> {y. \<exists>x\<in>set xs. f x = Some y}"
    by (auto simp: List.map_filter_def)
next
  fix y assume "y \<in> {y. \<exists>x\<in>set xs. f x = Some y}"
  then obtain x where x: "x \<in> set xs" "f x = Some y" by blast
  then have "x \<in> set (filter (\<lambda>x. f x \<noteq> None) xs)" by simp
  then have "(the \<circ> f) x \<in> (the \<circ> f) ` set (filter (\<lambda>x. f x \<noteq> None) xs)"
    by (rule imageI)
  then show "y \<in> set (List.map_filter f xs)"
    using x(2) by (simp add: List.map_filter_def)
qed

lemma emitted_names:
  assumes em: "emitted file 0 rows = (ws, None)"
    and nm: "\<And>row i name mdx. file row i = Inr (name, mdx) \<Longrightarrow> \<exists>s. slug_of rt row = Some s \<and> name = s @ ''.mdx''"
  shows "fst ` set ws = slug_files rt rows"
proof -
  from emitted_None[OF em] have len: "length ws = length rows"
    and nth: "\<And>i. i < length rows \<Longrightarrow> file (rows ! i) i = Inr (ws ! i)" by auto
  have each: "\<exists>s. slug_of rt (rows ! i) = Some s \<and> fst (ws ! i) = s @ ''.mdx''" if i: "i < length rows" for i
  proof -
    have "file (rows ! i) i = Inr (fst (ws ! i), snd (ws ! i))" using nth[OF i] by simp
    from nm[OF this] show ?thesis .
  qed
  show ?thesis
  proof (intro set_eqI iffI)
    fix f assume "f \<in> fst ` set ws"
    then obtain w where "w \<in> set ws" and f: "f = fst w" by blast
    then obtain i where i: "i < length ws" and w: "w = ws ! i"
      by (metis in_set_conv_nth)
    have i': "i < length rows" using i len by simp
    from each[OF i'] obtain s where s: "slug_of rt (rows ! i) = Some s" and n: "fst (ws ! i) = s @ ''.mdx''"
      by blast
    have "rows ! i \<in> set rows" using i' by simp
    with s have "s \<in> set (List.map_filter (slug_of rt) rows)"
      unfolding set_map_filter by blast
    then show "f \<in> slug_files rt rows"
      unfolding slug_files_def f w n by (rule imageI)
  next
    fix f assume "f \<in> slug_files rt rows"
    then obtain s where "s \<in> set (List.map_filter (slug_of rt) rows)" and f: "f = s @ ''.mdx''"
      unfolding slug_files_def by blast
    then obtain r where r: "r \<in> set rows" and s: "slug_of rt r = Some s"
      unfolding set_map_filter by blast
    from r obtain i where i: "i < length rows" and ri: "rows ! i = r"
      by (metis in_set_conv_nth)
    from each[OF i] obtain s' where "slug_of rt (rows ! i) = Some s'" and n: "fst (ws ! i) = s' @ ''.mdx''"
      by blast
    with s ri have "s' = s" by simp
    with n f have "f = fst (ws ! i)" by simp
    moreover have "ws ! i \<in> set ws" using i len by simp
    ultimately show "f \<in> fst ` set ws" by (rule_tac image_eqI)
  qed
qed

lemma show_int_nonneg: "0 \<le> i \<Longrightarrow> show_int i = show_nat (nat i)"
  by (simp add: show_int_def)

lemma slug_file_not_stale:
  assumes "slug_of rt row = Some s" and "0 \<le> row_id row" and "row_id row \<in> set ids"
  shows "\<not> stale ids (s @ ''.mdx'')"
proof -
  from assms(1) obtain t where s: "s = dateString t @ ''-'' @ show_int (row_id row)"
    by (auto simp: slug_of_def split: option.splits)
  let ?ds = "show_nat (nat (row_id row))"
  have "matches_pattern (s @ ''.mdx'') (dateString t) ?ds"
    using s assms(2) by (simp add: matches_pattern_def show_int_nonneg show_nat_nonempty show_nat_digits)
  then have "matchId (s @ ''.mdx'') = Some ?ds" by (rule matchId_complete)
  then show ?thesis using assms(2,3) by (simp add: stale_def orphan_def parseInt_show_nat)
qed

lemma slug_files_not_stale:
  assumes "\<forall>r\<in>set rows. 0 \<le> row_id r" and "f \<in> slug_files rt rows"
  shows "\<not> stale (map row_id rows) f"
proof -
  from assms(2) obtain r s where r: "r \<in> set rows" and s: "slug_of rt r = Some s" and f: "f = s @ ''.mdx''"
    unfolding slug_files_def set_map_filter by blast
  show ?thesis unfolding f using s assms(1) r by (intro slug_file_not_stale[of rt r]) auto
qed

lemma reconciled_names:
  assumes pk: "process_kind file removed_line rows io = (io', None)"
    and nm: "\<And>row i name mdx. file row i = Inr (name, mdx) \<Longrightarrow> \<exists>s. slug_of rt row = Some s \<and> name = s @ ''.mdx''"
  shows "names (files io') = {f \<in> slug_files rt rows \<union> names (files io). \<not> stale (map row_id rows) f}"
    and "(\<forall>r\<in>set rows. 0 \<le> row_id r) \<Longrightarrow>
         names (files io') = slug_files rt rows \<union> {f \<in> names (files io). \<not> stale (map row_id rows) f}"
proof -
  from process_kind_done[OF pk] obtain ws where em: "emitted file 0 rows = (ws, None)"
    and fs: "files io' = filter (\<lambda>e. \<not> stale (map row_id rows) (fst e)) (write_all ws (files io))"
    by blast
  have w: "fst ` set ws = slug_files rt rows" using em nm by (rule emitted_names)
  show a: "names (files io') = {f \<in> slug_files rt rows \<union> names (files io). \<not> stale (map row_id rows) f}"
    unfolding fs names_filter[of "\<lambda>f. \<not> stale (map row_id rows) f"] names_write_all w by auto
  assume "\<forall>r\<in>set rows. 0 \<le> row_id r"
  then have "\<And>f. f \<in> slug_files rt rows \<Longrightarrow> \<not> stale (map row_id rows) f"
    by (rule slug_files_not_stale)
  then show "names (files io') = slug_files rt rows \<union> {f \<in> names (files io). \<not> stale (map row_id rows) f}"
    unfolding a by auto
qed

lemma cleanup_names:
  assumes "cleanupOldFiles validIds io = (io', removed)"
  shows "names (files io') = {f \<in> names (files io). \<not> stale validIds f}"
    and "map_of (files io') = map_of (files io) |` {f. \<not> stale validIds f}"
    and "removed = length (filter (stale validIds) (readdirSync (files io)))"
proof -
  from assms have fs: "files io' = filter (\<lambda>e. \<not> stale validIds (fst e)) (files io)"
    and r: "removed = length (filter (stale validIds) (readdirSync (files io)))"
    by (auto simp: cleanupOldFiles_eq)
  show "names (files io') = {f \<in> names (files io). \<not> stale validIds f}"
    unfolding fs by (rule names_filter[of "\<lambda>f. \<not> stale validIds f"])
  show "removed = length (filter (stale validIds) (readdirSync (files io)))" by (rule r)
  have "filter (\<lambda>e. \<not> stale validIds (fst e)) (files io) = AList.restrict {f. \<not> stale validIds f} (files io)"
    by (auto simp: AList.restrict_eq intro: filter_cong)
  then show "map_of (files io') = map_of (files io) |` {f. \<not> stale validIds f}"
    unfolding fs by (simp add: restr_conv')
qed

lemma stale_iff:
  "stale validIds f \<longleftrightarrow>
     endsWith f ''.mdx'' \<and> \<not> startsWith f ''_''
     \<and> (\<exists>ds. matchId f = Some ds \<and> int (parseInt ds) \<notin> set validIds)"
  by (auto simp: stale_def listed_def orphan_def split: option.splits)

lemma process_kind_total:
  assumes "emitted file 0 rows = (ws, None)"
  shows "\<exists>io'. process_kind file removed_line rows io = (io', None)"
  using assms unfolding process_kind_eq by (simp add: Let_def)

section \<open>The worked inputs\<close>

lemma example_slug: "slug_of example_runtime analysis_7 = Some ''2024-03-01-7''"
  by code_simp

lemma example_slug_files: "slug_files example_runtime [analysis_7] = {''2024-03-01-7.mdx''}"
  by (simp add: slug_files_def List.map_filter_def example_slug)

lemma old_file_matches: "matchId ''2023-01-01-7.mdx'' = Some ''7''"
  by (rule matchId_complete) (simp add: matches_pattern_def isDigit_def)

lemma old_file_listed: "listed ''2023-01-01-7.mdx''"
  by (simp add: listed_def endsWith_def startsWith_def suffix_def)

lemma parse_7: "parseInt ''7'' = 7"
  by (simp add: parseInt_def digitVal_def)

lemma old_file_not_stale: "\<not> stale [7] ''2023-01-01-7.mdx''"
  by (simp add: stale_def orphan_def old_file_matches parse_7)

lemma example_strengths_render:
  "category example_runtime (JArray [JObject [(''text'', JString ''A''), (''reasoning'', JString ''B'')]])
     \<noteq> Inl e"
  by (simp add: category_def item_text_def get_property_def interpolate_def example_runtime_def)

lemma category_empty: "category rt (JArray []) = Inr (show_nat 0, [])"
  by (simp add: category_def js_join_def)

lemma example_transform:
  "swot_transform example_runtime analysis_7 index =
     Inr \<lparr>dateStr = dateString 1709287200000,
          timeStr = take 5 (clockString (1709287200000 + 10800000)),
          slug = dateString 1709287200000 @ ''-'' @ show_int 7,
          isLatest = (index = 0),
          strengths = JArray [JObject [(''text'', JString ''A''), (''reasoning'', JString ''B'')]],
          weaknesses = JArray [], opportunities = JArray [], threats = JArray [],
          strategicSO = JArray [], strategicWO = JArray [], strategicST = JArray [],
          strategicWT = JArray []\<rparr>"
  by (simp add: swot_transform_def heading_eq new_Date_def TimeClip_def analysis_7_def parse_field_def
      or_default_def example_runtime_def one_strength_def dq_def)

lemma swot_mdx_ok:
  assumes "category rt (strengths d) = Inr s" and "category rt (weaknesses d) = Inr w"
    and "category rt (opportunities d) = Inr p" and "category rt (threats d) = Inr t"
  shows "\<exists>mdx. swot_mdx rt row d = Inr mdx"
  using assms by (simp add: swot_mdx_def)

lemma example_file_ok: "\<exists>w. swot_file example_runtime analysis_7 index = Inr w"
proof -
  let ?s = "JArray [JObject [(''text'', JString ''A''), (''reasoning'', JString ''B'')]]"
  obtain s where s: "category example_runtime ?s = Inr s"
    using example_strengths_render by (cases "category example_runtime ?s") auto
  have "\<exists>mdx. swot_mdx example_runtime analysis_7
      \<lparr>dateStr = dateString 1709287200000,
          timeStr = take 5 (clockString (1709287200000 + 10800000)),
          slug = dateString 1709287200000 @ ''-'' @ show_int 7,
          isLatest = (index = 0),
          strengths = ?s,
          weaknesses = JArray [], opportunities = JArray [], threats = JArray [],
          strategicSO = JArray [], strategicWO = JArray [], strategicST = JArray [],
          strategicWT = JArray []\<rparr> = Inr mdx"
    by (rule swot_mdx_ok) (simp_all add: s category_empty)
  then show ?thesis
    by (auto simp: swot_file_def example_transform)
qed

lemma example_emitted: "\<exists>w. emitted (swot_file example_runtime) 0 [analysis_7] = ([w], None)"
  using example_file_ok[of 0] by auto

lemma example_run:
  "\<exists>io'. process_kind (swot_file example_runtime) RemovedSwotCount [analysis_7] io = (io', None)"
proof -
  from example_emitted obtain w where "emitted (swot_file example_runtime) 0 [analysis_7] = ([w], None)"
    by blast
  then show ?thesis by (rule process_kind_total)
qed

lemma example_names:
  "names (files (fst (process_kind (swot_file example_runtime) RemovedSwotCount [analysis_7]
      \<lparr>files = [(''2023-01-01-7.mdx'', ''old'')], out = []\<rparr>)))
   = {''2024-03-01-7.mdx'', ''2023-01-01-7.mdx''}"
proof -
  let ?io = "\<lparr>files = [(''2023-01-01-7.mdx'', ''old'')], out = []\<rparr>"
  from example_run[of ?io] obtain io' where
    pk: "process_kind (swot_file example_runtime) RemovedSwotCount [analysis_7] ?io = (io', None)"
    by blast
  have "names (files io') = slug_files example_runtime [analysis_7]
      \<union> {f \<in> names (files ?io). \<not> stale (map row_id [analysis_7]) f}"
    using pk by (rule reconciled_names(2)) (auto dest: swot_file_Inr(1) simp: analysis_7_def)
  moreover have "map row_id [analysis_7] = [7]" by (simp add: analysis_7_def)
  moreover have "{f \<in> names (files ?io). \<not> stale [7] f} = {''2023-01-01-7.mdx''}"
    using old_file_not_stale by (auto simp: names_def readdirSync_def)
  ultimately show ?thesis using pk by (simp add: example_slug_files)
qed

lemma example_comp_file_ok: "\<exists>w. comp_file example_runtime comparison_2 index = Inr w"
  by (simp add: comp_file_def comp_transform_def heading_eq new_Date_def TimeClip_def comparison_2_def
      parse_field_def or_default_def example_runtime_def)

lemma example_comp_run:
  "\<exists>io'. process_kind (comp_file example_runtime) RemovedCompCount [comparison_2] io = (io', None)"
proof -
  from example_comp_file_ok[of 0] obtain w where "comp_file example_runtime comparison_2 0 = Inr w"
    by blast
  then have "emitted (comp_file example_runtime) 0 [comparison_2] = ([w], None)" by simp
  then show ?thesis by (rule process_kind_total)
qed

lemma stale_3: "stale [7] ''2024-01-01-3.mdx''"
proof -
  have "matchId ''2024-01-01-3.mdx'' = Some ''3''"
    by (rule matchId_complete) (simp add: matches_pattern_def isDigit_def)
  moreover have "parseInt ''3'' = 3" by (simp add: parseInt_def digitVal_def)
  moreover have "listed ''2024-01-01-3.mdx''"
    by (simp add: listed_def endsWith_def startsWith_def suffix_def)
  ultimately show ?thesis by (simp add: stale_def orphan_def)
qed

lemma example_6_transform:
  "swot_transform example_runtime analysis_6 index =
     Inr \<lparr>dateStr = dateString 1709200800000,
          timeStr = take 5 (clockString (1709200800000 + 10800000)),
          slug = dateString 1709200800000 @ ''-'' @ show_int 6,
          isLatest = (index = 0),
          strengths = JArray [], weaknesses = JArray [], opportunities = JArray [],
          threats = JArray [], strategicSO = JArray [], strategicWO = JArray [],
          strategicST = JArray [], strategicWT = JArray []\<rparr>"
  by (simp add: swot_transform_def heading_eq new_Date_def TimeClip_def analysis_6_def parse_field_def
      or_default_def example_runtime_def)

lemma example_6_file_ok: "\<exists>w. swot_file example_runtime analysis_6 index = Inr w"
proof -
  have "\<exists>mdx. swot_mdx example_runtime analysis_6
      \<lparr>dateStr = dateString 1709200800000,
          timeStr = take 5 (clockString (1709200800000 + 10800000)),
          slug = dateString 1709200800000 @ ''-'' @ show_int 6,
          isLatest = (index = 0),
          strengths = JArray [], weaknesses = JArray [], opportunities = JArray [],
          threats = JArray [], strategicSO = JArray [], strategicWO = JArray [],
          strategicST = JArray [], strategicWT = JArray []\<rparr> = Inr mdx"
    by (rule swot_mdx_ok) (simp_all add: category_empty)
  then show ?thesis
    by (auto simp: swot_file_def example_6_transform)
qed

lemma example_listing_generated:
  "\<exists>io'. generate (swot_file example_runtime) 0 [analysis_7, analysis_6] io = (io', None)"
proof -
  from example_file_ok[of 0] obtain w0 where "swot_file example_runtime analysis_7 0 = Inr w0" by blast
  moreover from example_6_file_ok[of 1] obtain w1 where "swot_file example_runtime analysis_6 1 = Inr w1"
    by blast
  ultimately have "emitted (swot_file example_runtime) 0 [analysis_7, analysis_6] = ([w0, w1], None)"
    by simp
  then show ?thesis by (simp add: generate_eq)
qed

section \<open>A run as a whole\<close>

lemma parse_field_falsy:
  "parse_field rt None = parse_field rt (Some ''[]'')"
  "parse_field rt (Some []) = parse_field rt (Some ''[]'')"
  by (simp_all add: parse_field_def or_default_def)

lemma parse_field_empty:
  assumes "JSON_parse rt ''[]'' = Some (JArray [])" and "column = None \<or> column = Some []"
  shows "parse_field rt column = Inr (JArray [])"
  using assms by (auto simp: parse_field_def or_default_def)

lemma parse_field_unparseable: "unparseable rt column \<Longrightarrow> parse_field rt column = Inl SyntaxError"
  by (auto simp: unparseable_def parse_field_def or_default_def split: option.splits)

lemma parse_field_Inl: "parse_field rt column = Inl e \<Longrightarrow> e = SyntaxError"
  by (auto simp: parse_field_def split: option.splits)

lemma swot_transform_unparseable:
  assumes "heading rt row index = Inr h" and "\<exists>c\<in>set (swot_columns row). unparseable rt c"
  shows "swot_transform rt row index = Inl SyntaxError"
proof -
  from assms(2) obtain c where c: "c \<in> set (swot_columns row)" and "unparseable rt c" by blast
  then have u: "parse_field rt c = Inl SyntaxError" by (simp add: parse_field_unparseable)
  have "\<exists>e. swot_transform rt row index = Inl e"
    using c u assms(1) unfolding swot_transform_def swot_columns_def
    by (auto split: sum.splits)
  then obtain e where e: "swot_transform rt row index = Inl e" by blast
  then have "e = SyntaxError"
    using assms(1) unfolding swot_transform_def
    by (auto split: sum.splits dest: parse_field_Inl)
  with e show ?thesis by simp
qed

lemma swot_file_unparseable:
  assumes "new_Date rt (created_at row) \<noteq> None" and "\<exists>c\<in>set (swot_columns row). unparseable rt c"
  shows "swot_file rt row index = Inl SyntaxError"
proof -
  from assms(1) obtain h where "heading rt row index = Inr h" by (auto simp: heading_eq)
  then have "swot_transform rt row index = Inl SyntaxError"
    using assms(2) by (rule swot_transform_unparseable)
  then show ?thesis by (simp add: swot_file_def)
qed

lemma comp_file_unparseable:
  assumes "new_Date rt (created_at row) \<noteq> None" and "unparseable rt (items_json row)"
  shows "comp_file rt row index = Inl SyntaxError"
proof -
  from assms(1) obtain h where "heading rt row index = Inr h" by (auto simp: heading_eq)
  then show ?thesis
    using parse_field_unparseable[OF assms(2)] by (simp add: comp_file_def comp_transform_def)
qed

lemma swot_file_empty_lists:
  assumes p: "JSON_parse rt ''[]'' = Some (JArray [])"
    and t: "new_Date rt (created_at row) \<noteq> None"
    and c: "\<forall>c\<in>set (swot_columns row). c = None \<or> c = Some []"
  shows "\<exists>w. swot_file rt row index = Inr w"
proof -
  from t obtain h where h: "heading rt row index = Inr h" by (auto simp: heading_eq)
  have f: "parse_field rt (strengths_json row) = Inr (JArray [])"
    "parse_field rt (weaknesses_json row) = Inr (JArray [])"
    "parse_field rt (opportunities_json row) = Inr (JArray [])"
    "parse_field rt (threats_json row) = Inr (JArray [])"
    "parse_field rt (strategic_so_json row) = Inr (JArray [])"
    "parse_field rt (strategic_wo_json row) = Inr (JArray [])"
    "parse_field rt (strategic_st_json row) = Inr (JArray [])"
    "parse_field rt (strategic_wt_json row) = Inr (JArray [])"
    using c by (simp_all add: swot_columns_def parse_field_empty[OF p])
  have d: "swot_transform rt row index =
     Inr \<lparr>dateStr = dateStr h, timeStr = timeStr h, slug = slug h, isLatest = isLatest h,
          strengths = JArray [], weaknesses = JArray [], opportunities = JArray [],
          threats = JArray [], strategicSO = JArray [], strategicWO = JArray [],
          strategicST = JArray [], strategicWT = JArray []\<rparr>"
    by (simp add: swot_transform_def h f)
  have "\<exists>mdx. swot_mdx rt row
     \<lparr>dateStr = dateStr h, timeStr = timeStr h, slug = slug h, isLatest = isLatest h,
          strengths = JArray [], weaknesses = JArray [], opportunities = JArray [],
          threats = JArray [], strategicSO = JArray [], strategicWO = JArray [],
          strategicST = JArray [], strategicWT = JArray []\<rparr> = Inr mdx"
    by (rule swot_mdx_ok) (simp_all add: category_empty)
  then show ?thesis by (auto simp: swot_file_def d)
qed

lemma emitted_at:
  assumes "length ws < length rows"
    and "\<forall>j<length ws. file (rows ! j) (k + j) = Inr (ws ! j)"
    and "file (rows ! length ws) (k + length ws) = Inl e"
  shows "emitted file k rows = (ws, Some e)"
  using assms
proof (induction rows arbitrary: k ws)
  case Nil
  then show ?case by simp
next
  case (Cons row rows)
  show ?case
  proof (cases ws)
    case Nil
    then show ?thesis using Cons.prems by simp
  next
    case (Cons w ws')
    have w: "file row k = Inr w" using Cons.prems(2) Cons by auto
    have "emitted file (k + 1) rows = (ws', Some e)"
    proof (rule Cons.IH)
      show "length ws' < length rows" using Cons.prems(1) Cons by simp
      show "\<forall>j<length ws'. file (rows ! j) (k + 1 + j) = Inr (ws' ! j)"
      proof (intro allI impI)
        fix j assume "j < length ws'"
        then have "file ((row # rows) ! Suc j) (k + Suc j) = Inr (ws ! Suc j)"
          using Cons.prems(2) Cons by auto
        then show "file (rows ! j) (k + 1 + j) = Inr (ws' ! j)" using Cons by simp
      qed
      show "file (rows ! length ws') (k + 1 + length ws') = Inl e"
        using Cons.prems(3) Cons by simp
    qed
    then show ?thesis using w Cons by simp
  qed
qed

lemma emitted_fails:
  assumes "row \<in> set rows" and "\<And>i. \<exists>e. file row i = Inl e"
  shows "\<exists>ws e. emitted file k rows = (ws, Some e)"
  using assms(1)
proof (induction rows arbitrary: k)
  case Nil
  then show ?case by simp
next
  case (Cons r rows)
  show ?case
  proof (cases "file r k")
    case (Inl e)
    then show ?thesis by simp
  next
    case (Inr w)
    have "r \<noteq> row" using Inr assms(2)[of k] by auto
    with Cons.prems have "row \<in> set rows" by simp
    from Cons.IH[OF this, of "k + 1"] obtain ws e where "emitted file (k + 1) rows = (ws, Some e)"
      by blast
    then show ?thesis using Inr by simp
  qed
qed

lemma main_status:
  assumes "existsSync w (resolve w (dbPathArg (args w)))"
  shows "status (main rt w) =
     (case snd (emitted (swot_file rt) 0 (swot_analyses w)) of
        Some e \<Rightarrow> Uncaught e
      | None \<Rightarrow> (case snd (emitted (comp_file rt) 0 (comparisons w)) of
                    Some e \<Rightarrow> Uncaught e | None \<Rightarrow> Exit 0))"
    and "closed (main rt w) \<longleftrightarrow> status (main rt w) = Exit 0"
  using assms
  by (auto simp: main_def Let_def process_kind_eq split: prod.splits option.splits)

lemma main_swotFiles:
  assumes "existsSync w (resolve w (dbPathArg (args w)))"
  shows "swotFiles (main rt w) =
     Some (case emitted (swot_file rt) 0 (swot_analyses w) of
             (ws, Some e) \<Rightarrow> write_all ws (mkdirSync (swotDir w))
           | (ws, None) \<Rightarrow>
               filter (\<lambda>e. \<not> stale (map row_id (swot_analyses w)) (fst e))
                 (write_all ws (mkdirSync (swotDir w))))"
  using assms
  by (auto simp: main_def Let_def process_kind_eq split: prod.splits option.splits)

lemma main_compFiles:
  assumes "existsSync w (resolve w (dbPathArg (args w)))"
  shows "compFiles (main rt w) =
     Some (case snd (emitted (swot_file rt) 0 (swot_analyses w)) of
             Some e \<Rightarrow> mkdirSync (compDir w)
           | None \<Rightarrow>
               (case emitted (comp_file rt) 0 (comparisons w) of
                  (ws, Some e) \<Rightarrow> write_all ws (mkdirSync (compDir w))
                | (ws, None) \<Rightarrow>
                    filter (\<lambda>e. \<not> stale (map row_id (comparisons w)) (fst e))
                      (write_all ws (mkdirSync (compDir w)))))"
  using assms
  by (auto simp: main_def Let_def process_kind_eq split: prod.splits option.splits)


lemma main_thrown:
  assumes x: "existsSync w (resolve w (dbPathArg (args w)))"
    and em: "emitted (swot_file rt) 0 (swot_analyses w) = (ws, Some e)"
  shows "status (main rt w) = Uncaught e" and "\<not> closed (main rt w)"
    and "swotFiles (main rt w) = Some (write_all ws (mkdirSync (swotDir w)))"
    and "compFiles (main rt w) = Some (mkdirSync (compDir w))"
proof -
  show s: "status (main rt w) = Uncaught e" using main_status(1)[OF x, of rt] em by simp
  show "\<not> closed (main rt w)" using main_status(2)[OF x, of rt] s by simp
  show "swotFiles (main rt w) = Some (write_all ws (mkdirSync (swotDir w)))"
    using main_swotFiles[OF x, of rt] em by simp
  show "compFiles (main rt w) = Some (mkdirSync (compDir w))"
    using main_compFiles[OF x, of rt] em by simp
qed

lemma names_write_all_mono: "names dir \<subseteq> names (write_all ws dir)"
  by (simp add: names_write_all)






section \<open>The content of a file and the zone of the machine\<close>





















section \<open>The credential check of the proxy\<close>

lemma js_split_parts: "p \<in> set (js_split c s) \<Longrightarrow> c \<notin> set p"
proof (induction s arbitrary: p)
  case Nil
  then show ?case by simp
next
  case (Cons x xs)
  show ?case
  proof (cases "x = c")
    case True
    with Cons show ?thesis by auto
  next
    case False
    obtain q qs where q: "js_split c xs = q # qs"
      using js_split_nonempty[of c xs] by (cases "js_split c xs") auto
    with False Cons.prems have "p = x # q \<or> p \<in> set qs" by auto
    then show ?thesis
    proof
      assume "p = x # q"
      moreover have "c \<notin> set q" using Cons.IH[of q] q by simp
      ultimately show ?thesis using False by auto
    next
      assume "p \<in> set qs"
      then show ?thesis using Cons.IH[of p] q by simp
    qed
  qed
qed

lemma js_split_concat: "js_split c s = p # ps \<Longrightarrow> s = p @ concat (map (\<lambda>q. c # q) ps)"
proof (induction s arbitrary: p ps)
  case Nil
  then show ?case by simp
next
  case (Cons x xs)
  show ?case
  proof (cases "x = c")
    case True
    with Cons.prems have p: "p = []" and ps: "ps = js_split c xs" by auto
    obtain q qs where q: "js_split c xs = q # qs"
      using js_split_nonempty[of c xs] by (cases "js_split c xs") auto
    from Cons.IH[OF q] have "xs = q @ concat (map (\<lambda>q. c # q) qs)" .
    then show ?thesis using True p ps q by simp
  next
    case False
    obtain q qs where q: "js_split c xs = q # qs"
      using js_split_nonempty[of c xs] by (cases "js_split c xs") auto
    with False Cons.prems have p: "p = x # q" and ps: "ps = qs" by auto
    from Cons.IH[OF q] have "xs = q @ concat (map (\<lambda>q. c # q) qs)" .
    then show ?thesis using p ps by simp
  qed
qed

lemma at_index_0: "at_index xs 0 = Some x \<longleftrightarrow> (\<exists>ys. xs = x # ys)"
  by (cases xs) (auto simp: at_index_def)

lemma at_index_1: "at_index xs 1 = Some y \<longleftrightarrow> (\<exists>x ys. xs = x # y # ys)"
proof (cases xs)
  case Nil
  then show ?thesis by (simp add: at_index_def)
next
  case (Cons a as)
  then show ?thesis by (cases as) (auto simp: at_index_def)
qed

lemma first_two_parts:
  assumes "at_index (js_split c s) 0 = Some u" and "at_index (js_split c s) 1 = Some p"
  shows "c \<notin> set u" and "c \<notin> set p" and "prefix (u @ c # p) s"
    and "s = u @ c # p \<or> prefix (u @ c # p @ [c]) s"
proof -
  from assms obtain ps where sp: "js_split c s = u # p # ps"
    by (auto simp: at_index_0 at_index_1)
  show "c \<notin> set u" using js_split_parts[of u c s] sp by simp
  show "c \<notin> set p" using js_split_parts[of p c s] sp by simp
  from js_split_concat[OF sp] have s: "s = u @ c # p @ concat (map (\<lambda>q. c # q) ps)" by simp
  then show "prefix (u @ c # p) s" by (metis append.assoc append_Cons prefixI)
  show "s = u @ c # p \<or> prefix (u @ c # p @ [c]) s"
  proof (cases ps)
    case Nil
    then show ?thesis using s by simp
  next
    case (Cons q qs)
    then have "s = (u @ c # p @ [c]) @ q @ concat (map (\<lambda>q. c # q) qs)" using s by simp
    then show ?thesis by (metis prefixI)
  qed
qed

lemma split_pair:
  assumes "c \<notin> set u" and "c \<notin> set p"
  shows "js_split c (u @ c # p) = [u, p]"
  using assms by (simp add: js_split_first js_split_no_sep)

lemma handler_Proxied_iff:
  "handler cfg decode authorization = Proxied \<longleftrightarrow>
     (\<exists>creds. basic_credentials decode authorization = Some creds
        \<and> at_index (js_split CHR '':'' creds) 0 = Some (USER cfg)
        \<and> at_index (js_split CHR '':'' creds) 1 = Some (PASSWORD cfg))"
proof (cases authorization)
  case None
  then show ?thesis by (simp add: handler_def basic_credentials_def)
next
  case (Some auth)
  have "startsWith auth ''Basic '' \<Longrightarrow> auth \<noteq> []" by (auto simp: startsWith_def)
  then show ?thesis using Some
    by (auto simp: handler_def basic_credentials_def credentials_of_def Let_def)
qed

lemma handler_cases: "handler cfg decode authorization \<noteq> Proxied \<Longrightarrow>
    \<exists>p. handler cfg decode authorization = Challenge p"
  by (cases "handler cfg decode authorization") auto

lemma on_upgrade_iff:
  "on_upgrade cfg decode authorization = ProxiedWs \<longleftrightarrow> handler cfg decode authorization = Proxied"
  by (auto simp: on_upgrade_def handler_def split: option.splits prod.splits if_splits)

lemma on_upgrade_cases: "on_upgrade cfg decode authorization \<noteq> ProxiedWs \<Longrightarrow>
    on_upgrade cfg decode authorization = Destroyed"
  by (cases "on_upgrade cfg decode authorization") auto

lemma handler_Proxied_prefix:
  assumes "handler cfg decode authorization = Proxied"
  shows "\<exists>creds. basic_credentials decode authorization = Some creds
           \<and> prefix (USER cfg @ '':'' @ PASSWORD cfg) creds
           \<and> (creds = USER cfg @ '':'' @ PASSWORD cfg
                \<or> prefix (USER cfg @ '':'' @ PASSWORD cfg @ '':'') creds)"
    and "CHR '':'' \<notin> set (USER cfg)" and "CHR '':'' \<notin> set (PASSWORD cfg)"
proof -
  from assms obtain creds where c: "basic_credentials decode authorization = Some creds"
    and u: "at_index (js_split CHR '':'' creds) 0 = Some (USER cfg)"
    and p: "at_index (js_split CHR '':'' creds) 1 = Some (PASSWORD cfg)"
    unfolding handler_Proxied_iff by blast
  from first_two_parts[OF u p] c
  show "\<exists>creds. basic_credentials decode authorization = Some creds
           \<and> prefix (USER cfg @ '':'' @ PASSWORD cfg) creds
           \<and> (creds = USER cfg @ '':'' @ PASSWORD cfg
                \<or> prefix (USER cfg @ '':'' @ PASSWORD cfg @ '':'') creds)"
    by auto
  from first_two_parts[OF u p] show "CHR '':'' \<notin> set (USER cfg)" and "CHR '':'' \<notin> set (PASSWORD cfg)"
    by auto
qed

lemma handler_exact_pair:
  assumes "CHR '':'' \<notin> set (USER cfg)" and "CHR '':'' \<notin> set (PASSWORD cfg)"
    and "basic_credentials decode authorization = Some (USER cfg @ '':'' @ PASSWORD cfg)"
  shows "handler cfg decode authorization = Proxied"
  unfolding handler_Proxied_iff using assms split_pair[OF assms(1,2)]
  by (auto simp: at_index_def)

lemma handler_extra_field:
  assumes "CHR '':'' \<notin> set (USER cfg)" and "CHR '':'' \<notin> set (PASSWORD cfg)"
    and "basic_credentials decode authorization = Some (USER cfg @ '':'' @ PASSWORD cfg @ '':'' @ junk)"
  shows "handler cfg decode authorization = Proxied"
proof -
  have "js_split CHR '':'' (USER cfg @ CHR '':'' # PASSWORD cfg @ CHR '':'' # junk)
      = USER cfg # PASSWORD cfg # js_split CHR '':'' junk"
    using assms(1,2) by (simp add: js_split_first)
  then show ?thesis unfolding handler_Proxied_iff using assms(3) by (auto simp: at_index_def)
qed

lemma colon_password_rejects:
  assumes "CHR '':'' \<in> set (PASSWORD cfg)"
  shows "\<exists>p. handler cfg decode authorization = Challenge p"
    and "on_upgrade cfg decode authorization = Destroyed"
proof -
  have n: "handler cfg decode authorization \<noteq> Proxied"
    using handler_Proxied_prefix(3)[of cfg decode authorization] assms by blast
  then show "\<exists>p. handler cfg decode authorization = Challenge p" by (rule handler_cases)
  from n have "on_upgrade cfg decode authorization \<noteq> ProxiedWs" by (simp add: on_upgrade_iff)
  then show "on_upgrade cfg decode authorization = Destroyed" by (rule on_upgrade_cases)
qed

lemma colon_password_exact:
  assumes "CHR '':'' \<in> set (PASSWORD cfg)"
    and "decode b = USER cfg @ '':'' @ PASSWORD cfg"
  shows "handler cfg decode (Some (''Basic '' @ b)) = Challenge WrongCredentials"
proof -
  from colon_password_rejects(1)[OF assms(1), of decode "Some (''Basic '' @ b)"]
  obtain p where p: "handler cfg decode (Some (''Basic '' @ b)) = Challenge p" by blast
  have "startsWith (''Basic '' @ b) ''Basic ''" by (simp add: startsWith_def)
  then have "p = WrongCredentials" using p
    by (auto simp: handler_def split: prod.splits if_splits)
  with p show ?thesis by simp
qed

lemma decode_default: "base64_toString ''YWRtaW46c3dvdDIwMjQ='' = ''admin:swot2024''"
  by code_simp

lemma decode_extra: "base64_toString ''YWRtaW46c3dvdDIwMjQ6ZXh0cmE='' = ''admin:swot2024:extra''"
  by code_simp

lemma decode_colon: "base64_toString ''YWRtaW46YTpi'' = ''admin:a:b''"
  by code_simp

lemma default_config: "USER (configure None None) = ''admin''" "PASSWORD (configure None None) = ''swot2024''"
  by (simp_all add: configure_def or_default_def)

lemma colon_config: "USER (configure None (Some ''a:b'')) = ''admin''"
    "PASSWORD (configure None (Some ''a:b'')) = ''a:b''"
  by (simp_all add: configure_def or_default_def)

section \<open>Claim C1\<close>

text \<open>
  Claim C1, as it is stated, at the record of the scenario and a directory that holds one
  file: a document of the same record under an older date. The run succeeds; the file is not
  protected, matches the pattern and is no file of a record, and it is still there.
\<close>

theorem file_set_not_exact:
  "snd (process_kind (swot_file example_runtime) RemovedSwotCount [analysis_7]
          \<lparr>files = [(''2023-01-01-7.mdx'', ''old'')], out = []\<rparr>) = None
   \<and> \<not> exact_reconciliation example_runtime [analysis_7] (names [(''2023-01-01-7.mdx'', ''old'')])
         (names (files (fst (process_kind (swot_file example_runtime) RemovedSwotCount [analysis_7]
            \<lparr>files = [(''2023-01-01-7.mdx'', ''old'')], out = []\<rparr>))))"
proof -
  let ?io = "\<lparr>files = [(''2023-01-01-7.mdx'', ''old'')], out = []\<rparr>"
  from example_run[of ?io] have ok:
    "snd (process_kind (swot_file example_runtime) RemovedSwotCount [analysis_7] ?io) = None"
    by auto
  have "\<not> startsWith ''2023-01-01-7.mdx'' ''_''" by (simp add: startsWith_def)
  then have "{f \<in> names [(''2023-01-01-7.mdx'', ''old'')]. startsWith f ''_'' \<or> matchId f = None} = {}"
    using old_file_matches by (auto simp: names_def readdirSync_def)
  then have rhs: "slug_files example_runtime [analysis_7]
      \<union> {f \<in> names [(''2023-01-01-7.mdx'', ''old'')]. startsWith f ''_'' \<or> matchId f = None}
      = {''2024-03-01-7.mdx''}"
    by (simp only: example_slug_files Un_empty_right)
  have ne: "''2023-01-01-7.mdx'' \<noteq> ''2024-03-01-7.mdx''" by simp
  have "{''2024-03-01-7.mdx'', ''2023-01-01-7.mdx''} \<noteq> {''2024-03-01-7.mdx''}"
  proof
    assume "{''2024-03-01-7.mdx'', ''2023-01-01-7.mdx''} = {''2024-03-01-7.mdx''}"
    then have "''2023-01-01-7.mdx'' \<in> {''2024-03-01-7.mdx''}" by blast
    with ne show False by blast
  qed
  then have "\<not> exact_reconciliation example_runtime [analysis_7] (names [(''2023-01-01-7.mdx'', ''old'')])
      {''2024-03-01-7.mdx'', ''2023-01-01-7.mdx''}"
    unfolding exact_reconciliation_def rhs .
  with ok show ?thesis by (simp add: example_names)
qed

text \<open>
  Claim C1, amended. After a pass over one kind of record that ends without an exception,
  the directory holds the files of the records and the files that were there before, less
  the stale ones: the listed files (extension \<^verbatim>\<open>.mdx\<close>, no leading underscore) that match the
  pattern with an identifier that is no identifier of the listing. When no identifier is
  negative no file of a record is stale, so the directory holds the files of the records and
  every file present before that is protected, does not match, or carries a valid
  identifier. The reconciler alone removes exactly the stale files, leaves the content of
  the others as it was, and returns the number it removed.
\<close>

theorem reconciled_file_set:
  "(process_kind (swot_file rt) RemovedSwotCount rows io = (io', None) \<longrightarrow>
      names (files io') = {f \<in> slug_files rt rows \<union> names (files io). \<not> stale (map row_id rows) f}
      \<and> ((\<forall>r\<in>set rows. 0 \<le> row_id r) \<longrightarrow>
           names (files io') =
             slug_files rt rows \<union> {f \<in> names (files io). \<not> stale (map row_id rows) f}))
   \<and> (process_kind (comp_file rt) RemovedCompCount crows cio = (cio', None) \<longrightarrow>
      names (files cio') = {f \<in> slug_files rt crows \<union> names (files cio). \<not> stale (map row_id crows) f}
      \<and> ((\<forall>r\<in>set crows. 0 \<le> row_id r) \<longrightarrow>
           names (files cio') =
             slug_files rt crows \<union> {f \<in> names (files cio). \<not> stale (map row_id crows) f}))
   \<and> (cleanupOldFiles validIds dio = (dio', removed) \<longrightarrow>
      names (files dio') = {f \<in> names (files dio). \<not> stale validIds f}
      \<and> map_of (files dio') = map_of (files dio) |` {f. \<not> stale validIds f}
      \<and> removed = length (filter (stale validIds) (readdirSync (files dio))))
   \<and> (stale validIds f \<longleftrightarrow>
        endsWith f ''.mdx'' \<and> \<not> startsWith f ''_''
        \<and> (\<exists>ds. matchId f = Some ds \<and> int (parseInt ds) \<notin> set validIds))"
proof (intro conjI impI)
  assume pk: "process_kind (swot_file rt) RemovedSwotCount rows io = (io', None)"
  have nm: "\<And>row i name mdx. swot_file rt row i = Inr (name, mdx)
      \<Longrightarrow> \<exists>s. slug_of rt row = Some s \<and> name = s @ ''.mdx''"
    by (rule swot_file_Inr(1))
  show "names (files io') = {f \<in> slug_files rt rows \<union> names (files io). \<not> stale (map row_id rows) f}"
    using pk nm by (rule reconciled_names(1))
  assume "\<forall>r\<in>set rows. 0 \<le> row_id r"
  with pk nm show "names (files io') =
      slug_files rt rows \<union> {f \<in> names (files io). \<not> stale (map row_id rows) f}"
    by (rule reconciled_names(2))
next
  assume pk: "process_kind (comp_file rt) RemovedCompCount crows cio = (cio', None)"
  have nm: "\<And>row i name mdx. comp_file rt row i = Inr (name, mdx)
      \<Longrightarrow> \<exists>s. slug_of rt row = Some s \<and> name = s @ ''.mdx''"
    by (rule comp_file_Inr(1))
  show "names (files cio') = {f \<in> slug_files rt crows \<union> names (files cio). \<not> stale (map row_id crows) f}"
    using pk nm by (rule reconciled_names(1))
  assume "\<forall>r\<in>set crows. 0 \<le> row_id r"
  with pk nm show "names (files cio') =
      slug_files rt crows \<union> {f \<in> names (files cio). \<not> stale (map row_id crows) f}"
    by (rule reconciled_names(2))
next
  assume c: "cleanupOldFiles validIds dio = (dio', removed)"
  show "names (files dio') = {f \<in> names (files dio). \<not> stale validIds f}"
    using c by (rule cleanup_names(1))
  show "map_of (files dio') = map_of (files dio) |` {f. \<not> stale validIds f}"
    using c by (rule cleanup_names(2))
  show "removed = length (filter (stale validIds) (readdirSync (files dio)))"
    using c by (rule cleanup_names(3))
next
  show "stale validIds f \<longleftrightarrow>
        endsWith f ''.mdx'' \<and> \<not> startsWith f ''_''
        \<and> (\<exists>ds. matchId f = Some ds \<and> int (parseInt ds) \<notin> set validIds)"
    by (rule stale_iff)
qed

text \<open>
  The amended claim at the record of the scenario with an older document of the same
  record in the directory, at a comparison in an empty directory, and at the reconciler with
  the file of the second scenario, \<^verbatim>\<open>2024-01-01-3.mdx\<close>, which is stale when 7 is the only valid
  identifier.
\<close>

theorem reconciled_file_set_witness:
  "snd (process_kind (swot_file example_runtime) RemovedSwotCount [analysis_7]
          \<lparr>files = [(''2023-01-01-7.mdx'', ''old'')], out = []\<rparr>) = None
   \<and> 0 \<le> row_id analysis_7
   \<and> names (files (fst (process_kind (swot_file example_runtime) RemovedSwotCount [analysis_7]
          \<lparr>files = [(''2023-01-01-7.mdx'', ''old'')], out = []\<rparr>)))
       = slug_files example_runtime [analysis_7]
         \<union> {f \<in> names [(''2023-01-01-7.mdx'', ''old'')]. \<not> stale (map row_id [analysis_7]) f}
   \<and> snd (process_kind (comp_file example_runtime) RemovedCompCount [comparison_2]
          \<lparr>files = [], out = []\<rparr>) = None
   \<and> 0 \<le> row_id comparison_2
   \<and> names (files (fst (process_kind (comp_file example_runtime) RemovedCompCount [comparison_2]
          \<lparr>files = [], out = []\<rparr>)))
       = slug_files example_runtime [comparison_2] \<union> {f \<in> names []. \<not> stale (map row_id [comparison_2]) f}
   \<and> names (files (fst (cleanupOldFiles [7] \<lparr>files = [(''2024-01-01-3.mdx'', ''x'')], out = []\<rparr>)))
       = {f \<in> names [(''2024-01-01-3.mdx'', ''x'')]. \<not> stale [7] f}
   \<and> stale [7] ''2024-01-01-3.mdx''
   \<and> matchId ''2024-01-01-3.mdx'' = Some ''3''"
proof -
  let ?io = "\<lparr>files = [(''2023-01-01-7.mdx'', ''old'')], out = []\<rparr>"
  let ?cio = "\<lparr>files = [], out = []\<rparr> :: dir_io"
  let ?dio = "\<lparr>files = [(''2024-01-01-3.mdx'', ''x'')], out = []\<rparr>"
  let ?p = "process_kind (swot_file example_runtime) RemovedSwotCount [analysis_7] ?io"
  let ?c = "process_kind (comp_file example_runtime) RemovedCompCount [comparison_2] ?cio"
  let ?d = "cleanupOldFiles [7] ?dio"
  from example_run[of ?io] have p: "?p = (fst ?p, None)" by auto
  from example_comp_run[of ?cio] have c: "?c = (fst ?c, None)" by auto
  have d: "?d = (fst ?d, snd ?d)" by simp
  have a7: "0 \<le> row_id analysis_7" by (simp add: analysis_7_def)
  have c2: "0 \<le> row_id comparison_2" by (simp add: comparison_2_def)
  note t = reconciled_file_set[of example_runtime "[analysis_7]" ?io "fst ?p"
      "[comparison_2]" ?cio "fst ?c" "[7]" ?dio "fst ?d" "snd ?d" "''2024-01-01-3.mdx''"]
  have a7': "\<forall>r\<in>set [analysis_7]. 0 \<le> row_id r" using a7 by simp
  have c2': "\<forall>r\<in>set [comparison_2]. 0 \<le> row_id r" using c2 by simp
  from t p a7' have 1: "names (files (fst ?p)) = slug_files example_runtime [analysis_7]
         \<union> {f \<in> names (files ?io). \<not> stale (map row_id [analysis_7]) f}" by blast
  from t c c2' have 2: "names (files (fst ?c)) = slug_files example_runtime [comparison_2]
         \<union> {f \<in> names (files ?cio). \<not> stale (map row_id [comparison_2]) f}" by blast
  from t d have 3: "names (files (fst ?d)) = {f \<in> names (files ?dio). \<not> stale [7] f}" by blast
  from t stale_3 obtain ds where "matchId ''2024-01-01-3.mdx'' = Some ds" by blast
  moreover have "matchId ''2024-01-01-3.mdx'' = Some ''3''"
    by (rule matchId_complete) (simp add: matches_pattern_def isDigit_def)
  ultimately have 4: "matchId ''2024-01-01-3.mdx'' = Some ''3''" by simp
  from p have p': "snd ?p = None" by (metis snd_conv)
  from c have c': "snd ?c = None" by (metis snd_conv)
  show ?thesis using p' c' a7 c2 1 2 3 4 stale_3 by simp
qed

section \<open>Claim C2\<close>

lemma process_kind_first_failure:
  assumes "length ws < length rows"
    and "\<forall>j<length ws. file (rows ! j) j = Inr (ws ! j)"
    and "file (rows ! length ws) (length ws) = Inl e"
  shows "process_kind file removed_line rows io =
     (io\<lparr>files := write_all ws (files io), out := out io @ map (\<lambda>w. Written (fst w)) ws\<rparr>, Some e)"
proof -
  have "emitted file 0 rows = (ws, Some e)"
    using assms by (intro emitted_at) simp_all
  then show ?thesis by (simp add: process_kind_eq)
qed

lemma main_malformed_analysis:
  assumes x: "existsSync w (resolve w (dbPathArg (args w)))"
    and r: "row \<in> set (swot_analyses w)"
    and t: "new_Date rt (created_at row) \<noteq> None"
    and u: "\<exists>c\<in>set (swot_columns row). unparseable rt c"
  shows "\<exists>e. status (main rt w) = Uncaught e" and "\<not> closed (main rt w)"
    and "compFiles (main rt w) = Some (mkdirSync (compDir w))"
    and "\<forall>f\<in>names (mkdirSync (swotDir w)). contents (swotFiles (main rt w)) f \<noteq> None"
proof -
  have "\<And>i. \<exists>e. swot_file rt row i = Inl e" using swot_file_unparseable[OF t u] by blast
  with r obtain ws e where em: "emitted (swot_file rt) 0 (swot_analyses w) = (ws, Some e)"
    using emitted_fails[of row "swot_analyses w" "swot_file rt" 0] by blast
  note m = main_thrown[OF x em]
  show "\<exists>e. status (main rt w) = Uncaught e" using m(1) by blast
  show "\<not> closed (main rt w)" by (rule m(2))
  show "compFiles (main rt w) = Some (mkdirSync (compDir w))" by (rule m(4))
  show "\<forall>f\<in>names (mkdirSync (swotDir w)). contents (swotFiles (main rt w)) f \<noteq> None"
  proof
    fix f assume "f \<in> names (mkdirSync (swotDir w))"
    then have "f \<in> names (write_all ws (mkdirSync (swotDir w)))" by (simp add: names_write_all)
    then have "f \<in> dom (map_of (write_all ws (mkdirSync (swotDir w))))"
      by (simp add: names_def readdirSync_def dom_map_of_conv_image_fst)
    then show "contents (swotFiles (main rt w)) f \<noteq> None"
      unfolding m(3) by (auto simp: contents_def)
  qed
qed

lemma main_malformed_comparison:
  assumes x: "existsSync w (resolve w (dbPathArg (args w)))"
    and r: "row \<in> set (comparisons w)"
    and t: "new_Date rt (created_at row) \<noteq> None"
    and u: "unparseable rt (items_json row)"
  shows "\<exists>e. status (main rt w) = Uncaught e" and "\<not> closed (main rt w)"
proof -
  have "\<And>i. \<exists>e. comp_file rt row i = Inl e" using comp_file_unparseable[OF t u] by blast
  with r obtain ws e where em: "emitted (comp_file rt) 0 (comparisons w) = (ws, Some e)"
    using emitted_fails[of row "comparisons w" "comp_file rt" 0] by blast
  show s: "\<exists>e. status (main rt w) = Uncaught e"
    using main_status(1)[OF x, of rt] em by (auto split: option.splits)
  then show "\<not> closed (main rt w)" using main_status(2)[OF x, of rt] by auto
qed

lemma main_first_failure:
  assumes x: "existsSync w (resolve w (dbPathArg (args w)))"
    and "length ws < length (swot_analyses w)"
    and "\<forall>j<length ws. swot_file rt (swot_analyses w ! j) j = Inr (ws ! j)"
    and t: "new_Date rt (created_at (swot_analyses w ! length ws)) \<noteq> None"
    and u: "\<exists>c\<in>set (swot_columns (swot_analyses w ! length ws)). unparseable rt c"
  shows "status (main rt w) = Uncaught SyntaxError"
    and "swotFiles (main rt w) = Some (write_all ws (mkdirSync (swotDir w)))"
    and "compFiles (main rt w) = Some (mkdirSync (compDir w))"
    and "\<not> closed (main rt w)"
proof -
  have "swot_file rt (swot_analyses w ! length ws) (length ws) = Inl SyntaxError"
    using t u by (rule swot_file_unparseable)
  with assms(2,3) have em: "emitted (swot_file rt) 0 (swot_analyses w) = (ws, Some SyntaxError)"
    by (intro emitted_at) simp_all
  note m = main_thrown[OF x em]
  show "status (main rt w) = Uncaught SyntaxError" by (rule m(1))
  show "swotFiles (main rt w) = Some (write_all ws (mkdirSync (swotDir w)))" by (rule m(3))
  show "compFiles (main rt w) = Some (mkdirSync (compDir w))" by (rule m(4))
  show "\<not> closed (main rt w)" by (rule m(2))
qed

lemma malformed_unparseable: "unparseable example_runtime (weaknesses_json analysis_4_malformed)"
  by (simp add: unparseable_def analysis_4_malformed_def example_runtime_def one_strength_def dq_def)

lemma malformed_column:
  "\<exists>c\<in>set (swot_columns analysis_4_malformed). unparseable example_runtime c"
  using malformed_unparseable by (auto simp: swot_columns_def)

lemma malformed_date: "new_Date example_runtime (created_at analysis_4_malformed) \<noteq> None"
  by (simp add: new_Date_def TimeClip_def analysis_4_malformed_def example_runtime_def)

lemma malformed_store:
  "existsSync malformed_world (resolve malformed_world (dbPathArg (args malformed_world)))"
  by (simp add: malformed_world_def example_world_def dbPathArg_def at_index_def js_or_def
      startsWith_def)

lemma malformed_rows:
  "swot_analyses malformed_world = [analysis_7, analysis_4_malformed]"
  "swotDir malformed_world = Some []" "compDir malformed_world = None"
  by (simp_all add: malformed_world_def example_world_def)

lemma example_file_named:
  "\<exists>mdx. swot_file example_runtime analysis_7 index = Inr (''2024-03-01-7.mdx'', mdx)"
proof -
  from example_file_ok[of index] obtain name mdx where
    f: "swot_file example_runtime analysis_7 index = Inr (name, mdx)" by (metis surj_pair)
  from swot_file_Inr(1)[OF f] have "name = ''2024-03-01-7.mdx''" by (simp add: example_slug)
  with f show ?thesis by blast
qed

text \<open>
  Claim C2, as it is stated, at a store that holds the record of the scenario and an older
  record whose list of weaknesses is the text \<^verbatim>\<open>[{\<close>, with an empty directory. The run ends
  with an uncaught SyntaxError at the second record, and the file of the first record has
  been written: the output of that kind is partial.
\<close>

theorem partial_output_remains:
  "swot_analyses malformed_world = [analysis_7, analysis_4_malformed]
   \<and> swotDir malformed_world = Some []
   \<and> unparseable example_runtime (weaknesses_json analysis_4_malformed)
   \<and> status (main example_runtime malformed_world) = Uncaught SyntaxError
   \<and> contents (swotFiles (main example_runtime malformed_world)) ''2024-03-01-7.mdx'' \<noteq> None"
proof -
  from example_file_named[of 0] obtain mdx where
    f: "swot_file example_runtime analysis_7 0 = Inr (''2024-03-01-7.mdx'', mdx)" by blast
  let ?ws = "[(''2024-03-01-7.mdx'', mdx)]"
  have 1: "length ?ws < length (swot_analyses malformed_world)" by (simp add: malformed_rows)
  have 2: "\<forall>j<length ?ws. swot_file example_runtime (swot_analyses malformed_world ! j) j = Inr (?ws ! j)"
    by (simp add: malformed_rows f)
  have 3: "new_Date example_runtime (created_at (swot_analyses malformed_world ! length ?ws)) \<noteq> None"
    using malformed_date by (simp add: malformed_rows)
  have 4: "\<exists>c\<in>set (swot_columns (swot_analyses malformed_world ! length ?ws)).
      unparseable example_runtime c"
    using malformed_column by (simp add: malformed_rows)
  note m = main_first_failure[OF malformed_store 1 2 3 4]
  have "contents (swotFiles (main example_runtime malformed_world)) ''2024-03-01-7.mdx'' = Some mdx"
    unfolding m(2) by (simp add: contents_def malformed_rows mkdirSync_def write_all_def writeFileSync_def)
  then show ?thesis using m(1) malformed_unparseable by (simp add: malformed_rows)
qed

text \<open>
  Claim C2, amended. A structured column that is NULL or the empty text is parsed as the
  text \<^verbatim>\<open>[]\<close>, so on a runtime whose parser reads \<^verbatim>\<open>[]\<close> as the empty list it gives the empty
  list, and a record with a valid date all of whose lists are missing or empty is turned
  into a file without an exception. A column that holds text that is no JSON makes the
  loop body throw a SyntaxError, for an analysis and for a comparison. Nothing catches it:
  the pass over that kind ends at the first such record, with the files of the records
  before it written and no file after it, and the reconciler does not run; the run ends
  with an uncaught exception, the connection is not closed, and after a failure among the
  analyses no comparison is processed.
\<close>

theorem malformed_field_aborts:
  "parse_field rt None = parse_field rt (Some ''[]'')
   \<and> parse_field rt (Some []) = parse_field rt (Some ''[]'')
   \<and> (JSON_parse rt ''[]'' = Some (JArray []) \<and> (column = None \<or> column = Some [])
        \<longrightarrow> parse_field rt column = Inr (JArray []))
   \<and> (JSON_parse rt ''[]'' = Some (JArray []) \<and> new_Date rt (created_at row) \<noteq> None
        \<and> (\<forall>c\<in>set (swot_columns row). c = None \<or> c = Some [])
        \<longrightarrow> (\<exists>f. swot_file rt row index = Inr f))
   \<and> (unparseable rt column \<longrightarrow> parse_field rt column = Inl SyntaxError)
   \<and> (new_Date rt (created_at row) \<noteq> None \<and> (\<exists>c\<in>set (swot_columns row). unparseable rt c)
        \<longrightarrow> swot_file rt row index = Inl SyntaxError)
   \<and> (new_Date rt (created_at crow) \<noteq> None \<and> unparseable rt (items_json crow)
        \<longrightarrow> comp_file rt crow index = Inl SyntaxError)
   \<and> (length ws < length rows \<and> (\<forall>j<length ws. swot_file rt (rows ! j) j = Inr (ws ! j))
        \<and> new_Date rt (created_at (rows ! length ws)) \<noteq> None
        \<and> (\<exists>c\<in>set (swot_columns (rows ! length ws)). unparseable rt c)
        \<longrightarrow> process_kind (swot_file rt) removed_line rows io =
              (io\<lparr>files := write_all ws (files io),
                  out := out io @ map (\<lambda>w. Written (fst w)) ws\<rparr>, Some SyntaxError))
   \<and> (length ws < length crows \<and> (\<forall>j<length ws. comp_file rt (crows ! j) j = Inr (ws ! j))
        \<and> new_Date rt (created_at (crows ! length ws)) \<noteq> None
        \<and> unparseable rt (items_json (crows ! length ws))
        \<longrightarrow> process_kind (comp_file rt) removed_line crows io =
              (io\<lparr>files := write_all ws (files io),
                  out := out io @ map (\<lambda>w. Written (fst w)) ws\<rparr>, Some SyntaxError))
   \<and> (existsSync w (resolve w (dbPathArg (args w)))
        \<and> length ws < length (swot_analyses w)
        \<and> (\<forall>j<length ws. swot_file rt (swot_analyses w ! j) j = Inr (ws ! j))
        \<and> new_Date rt (created_at (swot_analyses w ! length ws)) \<noteq> None
        \<and> (\<exists>c\<in>set (swot_columns (swot_analyses w ! length ws)). unparseable rt c)
        \<longrightarrow> status (main rt w) = Uncaught SyntaxError
            \<and> swotFiles (main rt w) = Some (write_all ws (mkdirSync (swotDir w)))
            \<and> compFiles (main rt w) = Some (mkdirSync (compDir w))
            \<and> \<not> closed (main rt w))
   \<and> (existsSync w (resolve w (dbPathArg (args w))) \<and> row \<in> set (swot_analyses w)
        \<and> new_Date rt (created_at row) \<noteq> None \<and> (\<exists>c\<in>set (swot_columns row). unparseable rt c)
        \<longrightarrow> (\<exists>e. status (main rt w) = Uncaught e) \<and> \<not> closed (main rt w)
            \<and> compFiles (main rt w) = Some (mkdirSync (compDir w))
            \<and> (\<forall>f\<in>names (mkdirSync (swotDir w)). contents (swotFiles (main rt w)) f \<noteq> None))
   \<and> (existsSync w (resolve w (dbPathArg (args w))) \<and> crow \<in> set (comparisons w)
        \<and> new_Date rt (created_at crow) \<noteq> None \<and> unparseable rt (items_json crow)
        \<longrightarrow> (\<exists>e. status (main rt w) = Uncaught e) \<and> \<not> closed (main rt w))"
proof (intro conjI impI)
  show "parse_field rt None = parse_field rt (Some ''[]'')" by (rule parse_field_falsy(1))
  show "parse_field rt (Some []) = parse_field rt (Some ''[]'')" by (rule parse_field_falsy(2))
next
  assume "JSON_parse rt ''[]'' = Some (JArray []) \<and> (column = None \<or> column = Some [])"
  then show "parse_field rt column = Inr (JArray [])" using parse_field_empty[of rt column] by blast
next
  assume "JSON_parse rt ''[]'' = Some (JArray []) \<and> new_Date rt (created_at row) \<noteq> None
        \<and> (\<forall>c\<in>set (swot_columns row). c = None \<or> c = Some [])"
  then show "\<exists>f. swot_file rt row index = Inr f"
    using swot_file_empty_lists[of rt row index] by blast
next
  assume "unparseable rt column"
  then show "parse_field rt column = Inl SyntaxError" by (rule parse_field_unparseable)
next
  assume "new_Date rt (created_at row) \<noteq> None \<and> (\<exists>c\<in>set (swot_columns row). unparseable rt c)"
  then show "swot_file rt row index = Inl SyntaxError"
    using swot_file_unparseable[of rt row index] by blast
next
  assume "new_Date rt (created_at crow) \<noteq> None \<and> unparseable rt (items_json crow)"
  then show "comp_file rt crow index = Inl SyntaxError"
    using comp_file_unparseable[of rt crow index] by blast
next
  assume a: "length ws < length rows \<and> (\<forall>j<length ws. swot_file rt (rows ! j) j = Inr (ws ! j))
        \<and> new_Date rt (created_at (rows ! length ws)) \<noteq> None
        \<and> (\<exists>c\<in>set (swot_columns (rows ! length ws)). unparseable rt c)"
  then have "swot_file rt (rows ! length ws) (length ws) = Inl SyntaxError"
    using swot_file_unparseable[of rt "rows ! length ws" "length ws"] by blast
  with a show "process_kind (swot_file rt) removed_line rows io =
              (io\<lparr>files := write_all ws (files io),
                  out := out io @ map (\<lambda>w. Written (fst w)) ws\<rparr>, Some SyntaxError)"
    by (intro process_kind_first_failure) simp_all
next
  assume a: "length ws < length crows \<and> (\<forall>j<length ws. comp_file rt (crows ! j) j = Inr (ws ! j))
        \<and> new_Date rt (created_at (crows ! length ws)) \<noteq> None
        \<and> unparseable rt (items_json (crows ! length ws))"
  then have "comp_file rt (crows ! length ws) (length ws) = Inl SyntaxError"
    using comp_file_unparseable[of rt "crows ! length ws" "length ws"] by blast
  with a show "process_kind (comp_file rt) removed_line crows io =
              (io\<lparr>files := write_all ws (files io),
                  out := out io @ map (\<lambda>w. Written (fst w)) ws\<rparr>, Some SyntaxError)"
    by (intro process_kind_first_failure) simp_all
next
  assume a: "existsSync w (resolve w (dbPathArg (args w)))
        \<and> length ws < length (swot_analyses w)
        \<and> (\<forall>j<length ws. swot_file rt (swot_analyses w ! j) j = Inr (ws ! j))
        \<and> new_Date rt (created_at (swot_analyses w ! length ws)) \<noteq> None
        \<and> (\<exists>c\<in>set (swot_columns (swot_analyses w ! length ws)). unparseable rt c)"
  then have x: "existsSync w (resolve w (dbPathArg (args w)))"
    and 1: "length ws < length (swot_analyses w)"
    and 2: "\<forall>j<length ws. swot_file rt (swot_analyses w ! j) j = Inr (ws ! j)"
    and 3: "new_Date rt (created_at (swot_analyses w ! length ws)) \<noteq> None"
    and 4: "\<exists>c\<in>set (swot_columns (swot_analyses w ! length ws)). unparseable rt c"
    by blast+
  note m = main_first_failure[OF x 1 2 3 4]
  show "status (main rt w) = Uncaught SyntaxError" by (rule m(1))
  show "swotFiles (main rt w) = Some (write_all ws (mkdirSync (swotDir w)))" by (rule m(2))
  show "compFiles (main rt w) = Some (mkdirSync (compDir w))" by (rule m(3))
  show "\<not> closed (main rt w)" by (rule m(4))
next
  assume a: "existsSync w (resolve w (dbPathArg (args w))) \<and> row \<in> set (swot_analyses w)
        \<and> new_Date rt (created_at row) \<noteq> None \<and> (\<exists>c\<in>set (swot_columns row). unparseable rt c)"
  then have x: "existsSync w (resolve w (dbPathArg (args w)))" and 1: "row \<in> set (swot_analyses w)"
    and 2: "new_Date rt (created_at row) \<noteq> None"
    and 3: "\<exists>c\<in>set (swot_columns row). unparseable rt c" by blast+
  note m = main_malformed_analysis[OF x 1 2 3]
  show "\<exists>e. status (main rt w) = Uncaught e" by (rule m(1))
  show "\<not> closed (main rt w)" by (rule m(2))
  show "compFiles (main rt w) = Some (mkdirSync (compDir w))" by (rule m(3))
  show "\<forall>f\<in>names (mkdirSync (swotDir w)). contents (swotFiles (main rt w)) f \<noteq> None" by (rule m(4))
next
  assume a: "existsSync w (resolve w (dbPathArg (args w))) \<and> crow \<in> set (comparisons w)
        \<and> new_Date rt (created_at crow) \<noteq> None \<and> unparseable rt (items_json crow)"
  then have x: "existsSync w (resolve w (dbPathArg (args w)))" and 1: "crow \<in> set (comparisons w)"
    and 2: "new_Date rt (created_at crow) \<noteq> None" and 3: "unparseable rt (items_json crow)"
    by blast+
  note m = main_malformed_comparison[OF x 1 2 3]
  show "\<exists>e. status (main rt w) = Uncaught e" by (rule m(1))
  show "\<not> closed (main rt w)" by (rule m(2))
qed

text \<open>
  The amended claim at the older record all of whose lists are missing, at the malformed
  record, at the store that holds the record of the scenario and the malformed one, and at
  a malformed comparison.
\<close>

theorem malformed_field_aborts_witness:
  "JSON_parse example_runtime ''[]'' = Some (JArray [])
   \<and> new_Date example_runtime (created_at analysis_6) \<noteq> None
   \<and> parse_field example_runtime None = Inr (JArray [])
   \<and> parse_field example_runtime (Some []) = Inr (JArray [])
   \<and> (\<exists>f. swot_file example_runtime analysis_6 1 = Inr f)
   \<and> unparseable example_runtime (Some ''[{'')
   \<and> parse_field example_runtime (Some ''[{'') = Inl SyntaxError
   \<and> new_Date example_runtime (created_at analysis_4_malformed) \<noteq> None
   \<and> swot_file example_runtime analysis_4_malformed 1 = Inl SyntaxError
   \<and> existsSync malformed_world (resolve malformed_world (dbPathArg (args malformed_world)))
   \<and> analysis_4_malformed \<in> set (swot_analyses malformed_world)
   \<and> status (main example_runtime malformed_world) = Uncaught SyntaxError
   \<and> \<not> closed (main example_runtime malformed_world)
   \<and> (\<exists>mdx. swot_file example_runtime analysis_7 0 = Inr (''2024-03-01-7.mdx'', mdx)
         \<and> swotFiles (main example_runtime malformed_world) = Some [(''2024-03-01-7.mdx'', mdx)]
         \<and> fst (process_kind (swot_file example_runtime) RemovedSwotCount
                  [analysis_7, analysis_4_malformed] \<lparr>files = [], out = []\<rparr>)
             = \<lparr>files = [(''2024-03-01-7.mdx'', mdx)], out = [Written ''2024-03-01-7.mdx'']\<rparr>)
   \<and> compFiles (main example_runtime malformed_world) = Some []
   \<and> new_Date example_runtime (created_at comparison_1_malformed) \<noteq> None
   \<and> unparseable example_runtime (items_json comparison_1_malformed)
   \<and> comp_file example_runtime comparison_1_malformed 0 = Inl SyntaxError
   \<and> process_kind (comp_file example_runtime) RemovedCompCount [comparison_1_malformed]
        \<lparr>files = [], out = []\<rparr> = (\<lparr>files = [], out = []\<rparr>, Some SyntaxError)"
proof -
  let ?rt = example_runtime
  let ?io = "\<lparr>files = [], out = []\<rparr> :: dir_io"
  have p: "JSON_parse ?rt ''[]'' = Some (JArray [])" by (simp add: example_runtime_def)
  have d6: "new_Date ?rt (created_at analysis_6) \<noteq> None"
    by (simp add: new_Date_def TimeClip_def analysis_6_def example_runtime_def)
  have c6: "\<forall>c\<in>set (swot_columns analysis_6). c = None \<or> c = Some []"
    by (simp add: swot_columns_def analysis_6_def)
  have u: "unparseable ?rt (Some ''[{'')"
    using malformed_unparseable by (simp add: analysis_4_malformed_def)
  have dc: "new_Date ?rt (created_at comparison_1_malformed) \<noteq> None"
    by (simp add: new_Date_def TimeClip_def comparison_1_malformed_def example_runtime_def)
  have uc: "unparseable ?rt (items_json comparison_1_malformed)"
    using u by (simp add: comparison_1_malformed_def)
  from example_file_named[of 0] obtain mdx where
    f: "swot_file ?rt analysis_7 0 = Inr (''2024-03-01-7.mdx'', mdx)" by blast
  let ?ws = "[(''2024-03-01-7.mdx'', mdx)]"
  let ?rows = "[analysis_7, analysis_4_malformed]"
  have r: "swot_analyses malformed_world = ?rows" by (rule malformed_rows(1))
  have m: "analysis_4_malformed \<in> set (swot_analyses malformed_world)" by (simp add: r)
  have 1: "length ?ws < length ?rows" by simp
  have 2: "\<forall>j<length ?ws. swot_file ?rt (?rows ! j) j = Inr (?ws ! j)" by (simp add: f)
  have 3: "new_Date ?rt (created_at (?rows ! length ?ws)) \<noteq> None" using malformed_date by simp
  have 4: "\<exists>c\<in>set (swot_columns (?rows ! length ?ws)). unparseable ?rt c"
    using malformed_column by simp
  note a = malformed_field_aborts[where rt = ?rt and column = "None" and row = analysis_6
      and index = 1 and crow = comparison_1_malformed and ws = "[]"
      and rows = "[analysis_4_malformed]" and crows = "[comparison_1_malformed]"
      and removed_line = RemovedCompCount and io = ?io and w = malformed_world]
  note a' = malformed_field_aborts[where rt = ?rt and column = "Some []" and row = analysis_6
      and index = 0 and crow = comparison_1_malformed and ws = "[]"
      and rows = "[analysis_4_malformed]" and crows = "[comparison_1_malformed]"
      and removed_line = RemovedCompCount and io = ?io and w = malformed_world]
  note b = malformed_field_aborts[where rt = ?rt and column = "Some ''[{''"
      and row = analysis_4_malformed and index = 1 and crow = comparison_1_malformed
      and ws = ?ws and rows = ?rows and crows = "[comparison_1_malformed]"
      and removed_line = RemovedSwotCount and io = ?io and w = malformed_world]
  from a p have e1: "parse_field ?rt None = Inr (JArray [])" by blast
  from a' p have e2: "parse_field ?rt (Some []) = Inr (JArray [])" by blast
  from a p d6 c6 have e3: "\<exists>f. swot_file ?rt analysis_6 1 = Inr f" by blast
  from b u have e4: "parse_field ?rt (Some ''[{'') = Inl SyntaxError" by blast
  from b malformed_date malformed_column
  have e5: "swot_file ?rt analysis_4_malformed 1 = Inl SyntaxError" by blast
  from b malformed_store 1 2 3 4 r
  have e6: "status (main ?rt malformed_world) = Uncaught SyntaxError"
    and e7: "\<not> closed (main ?rt malformed_world)"
    and e8: "swotFiles (main ?rt malformed_world) = Some (write_all ?ws (mkdirSync (swotDir malformed_world)))"
    and e9: "compFiles (main ?rt malformed_world) = Some (mkdirSync (compDir malformed_world))"
    by simp_all
  from b 1 2 3 4
  have e10: "process_kind (swot_file ?rt) RemovedSwotCount ?rows ?io =
      (?io\<lparr>files := write_all ?ws (files ?io), out := out ?io @ map (\<lambda>w. Written (fst w)) ?ws\<rparr>,
       Some SyntaxError)" by blast
  from a' dc uc have e11:"comp_file ?rt comparison_1_malformed 0 = Inl SyntaxError" by blast
  from a dc uc
  have y: "process_kind (comp_file ?rt) RemovedCompCount [comparison_1_malformed] ?io
      = (?io, Some SyntaxError)"
    by (simp add: write_all_def)
  have w8: "write_all ?ws (mkdirSync (swotDir malformed_world)) = ?ws"
    by (simp add: malformed_rows mkdirSync_def write_all_def writeFileSync_def)
  have w9: "mkdirSync (compDir malformed_world) = []" by (simp add: malformed_rows mkdirSync_def)
  have x: "\<exists>mdx. swot_file ?rt analysis_7 0 = Inr (''2024-03-01-7.mdx'', mdx)
         \<and> swotFiles (main ?rt malformed_world) = Some [(''2024-03-01-7.mdx'', mdx)]
         \<and> fst (process_kind (swot_file ?rt) RemovedSwotCount ?rows ?io)
             = \<lparr>files = [(''2024-03-01-7.mdx'', mdx)], out = [Written ''2024-03-01-7.mdx'']\<rparr>"
    using f e8 e10 by (simp add: write_all_def writeFileSync_def malformed_rows mkdirSync_def)
  show ?thesis
    using p d6 e1 e2 e3 u e4 malformed_date e5 malformed_store m e6 e7 x e9 dc uc e11 y
    by (simp only: w9 simp_thms)
qed

section \<open>Claim C3\<close>

lemma sidebar_position_decreasing:
  "row_id a < row_id b \<Longrightarrow> sidebar_position b < sidebar_position a"
  by (simp add: sidebar_position_def)

text \<open>
  Claim C3. The ordering weight of a record of either kind is 1000 less its identifier, so
  of two records the one with the greater identifier has the smaller weight; the weight is
  what the second line of the document of an analysis and of a comparison carries.
\<close>

theorem weight_decreases:
  "sidebar_position a = 1000 - row_id a
   \<and> (row_id a < row_id b \<longrightarrow> sidebar_position b < sidebar_position a)
   \<and> (swot_file rt srow index = Inr (name, mdx) \<longrightarrow>
        prefix (''---'' @ nl @ ''sidebar_position: '' @ show_int (1000 - row_id srow) @ nl) mdx)
   \<and> (comp_file rt crow cindex = Inr (cname, cmdx) \<longrightarrow>
        prefix (''---'' @ nl @ ''sidebar_position: '' @ show_int (1000 - row_id crow) @ nl) cmdx)"
  using sidebar_position_decreasing[of a b] swot_file_Inr(3)[of rt srow index name mdx]
    comp_file_Inr(3)[of rt crow cindex cname cmdx]
  by (simp add: sidebar_position_def)

text \<open>The claim at the records 7 and 8, and at the documents of record 7 and comparison 2.\<close>

theorem weight_decreases_witness:
  "row_id analysis_7 < row_id analysis_8_malformed
   \<and> sidebar_position analysis_8_malformed < sidebar_position analysis_7
   \<and> sidebar_position analysis_7 = 993
   \<and> (\<exists>name mdx. swot_file example_runtime analysis_7 0 = Inr (name, mdx)
        \<and> prefix (''---'' @ nl @ ''sidebar_position: '' @ show_int (1000 - row_id analysis_7) @ nl) mdx)
   \<and> (\<exists>name mdx. comp_file example_runtime comparison_2 0 = Inr (name, mdx)
        \<and> prefix (''---'' @ nl @ ''sidebar_position: '' @ show_int (1000 - row_id comparison_2) @ nl) mdx)"
proof -
  from example_file_ok[of 0] obtain name mdx where
    s: "swot_file example_runtime analysis_7 0 = Inr (name, mdx)" by (metis surj_pair)
  from example_comp_file_ok[of 0] obtain cname cmdx where
    c: "comp_file example_runtime comparison_2 0 = Inr (cname, cmdx)" by (metis surj_pair)
  have lt: "row_id analysis_7 < row_id analysis_8_malformed"
    by (simp add: analysis_7_def analysis_8_malformed_def)
  note t = weight_decreases[of analysis_7 analysis_8_malformed example_runtime analysis_7 0
      name mdx comparison_2 0 cname cmdx]
  from t lt have 1: "sidebar_position analysis_8_malformed < sidebar_position analysis_7" by blast
  from t have 2: "sidebar_position analysis_7 = 993" by (simp add: analysis_7_def)
  from t s have 3: "prefix (''---'' @ nl @ ''sidebar_position: '' @ show_int (1000 - row_id analysis_7) @ nl) mdx"
    by blast
  from t c have 4: "prefix (''---'' @ nl @ ''sidebar_position: '' @ show_int (1000 - row_id comparison_2) @ nl) cmdx"
    by blast
  show ?thesis using lt 1 2 3 4 s c by blast
qed

section \<open>Claim C4\<close>

text \<open>
  Claim C4. The transform stage sets the latest flag of a record of either kind exactly
  when the rank it is given is 0. The loop over a listing gives the record at position \<open>i\<close>
  the rank \<open>i\<close>: when the loop ends without an exception it has written one file for each
  record, in the order of the listing, the file of the record at position \<open>i\<close> being the
  one computed for rank \<open>i\<close>, and the title of that document starts with the sign for new
  exactly when \<open>i\<close> is 0.
\<close>

theorem latest_flag_iff_rank_zero:
  "(swot_transform rt srow index = Inr d \<longrightarrow> (isLatest d \<longleftrightarrow> index = 0))
   \<and> (comp_transform rt crow cindex = Inr cd \<longrightarrow> (isLatest cd \<longleftrightarrow> cindex = 0))
   \<and> (generate (swot_file rt) 0 rows io = (io', None) \<longrightarrow>
        (\<exists>ws. length ws = length rows \<and> files io' = write_all ws (files io)
           \<and> (\<forall>i<length rows. swot_file rt (rows ! i) i = Inr (ws ! i)
                 \<and> (flagged_latest (rows ! i) (snd (ws ! i)) \<longleftrightarrow> i = 0))))
   \<and> (generate (comp_file rt) 0 crows cio = (cio', None) \<longrightarrow>
        (\<exists>ws. length ws = length crows \<and> files cio' = write_all ws (files cio)
           \<and> (\<forall>i<length crows. comp_file rt (crows ! i) i = Inr (ws ! i)
                 \<and> (flagged_latest (crows ! i) (snd (ws ! i)) \<longleftrightarrow> i = 0))))"
proof (intro conjI impI)
  assume "swot_transform rt srow index = Inr d"
  then show "isLatest d \<longleftrightarrow> index = 0" by (simp add: swot_transform_isLatest)
next
  assume "comp_transform rt crow cindex = Inr cd"
  then show "isLatest cd \<longleftrightarrow> cindex = 0" by (simp add: comp_transform_isLatest)
next
  assume "generate (swot_file rt) 0 rows io = (io', None)"
  then show "\<exists>ws. length ws = length rows \<and> files io' = write_all ws (files io)
           \<and> (\<forall>i<length rows. swot_file rt (rows ! i) i = Inr (ws ! i)
                 \<and> (flagged_latest (rows ! i) (snd (ws ! i)) \<longleftrightarrow> i = 0))"
    by (rule generate_flags) (rule swot_file_Inr(2))
next
  assume "generate (comp_file rt) 0 crows cio = (cio', None)"
  then show "\<exists>ws. length ws = length crows \<and> files cio' = write_all ws (files cio)
           \<and> (\<forall>i<length crows. comp_file rt (crows ! i) i = Inr (ws ! i)
                 \<and> (flagged_latest (crows ! i) (snd (ws ! i)) \<longleftrightarrow> i = 0))"
    by (rule generate_flags) (rule comp_file_Inr(2))
qed

text \<open>
  The claim at the listing of the records 7 and 6, newest first: both are transformed and
  written, the document of record 7 carries the sign and the document of record 6 does not.
\<close>

theorem latest_flag_iff_rank_zero_witness:
  "snd (generate (swot_file example_runtime) 0 [analysis_7, analysis_6] \<lparr>files = [], out = []\<rparr>) = None
   \<and> (\<exists>d. swot_transform example_runtime analysis_7 0 = Inr d \<and> isLatest d)
   \<and> (\<exists>d. swot_transform example_runtime analysis_6 1 = Inr d \<and> \<not> isLatest d)
   \<and> (\<exists>cd. comp_transform example_runtime comparison_2 0 = Inr cd \<and> isLatest cd)
   \<and> (\<exists>w0 w1. swot_file example_runtime analysis_7 0 = Inr w0
         \<and> swot_file example_runtime analysis_6 1 = Inr w1
         \<and> flagged_latest analysis_7 (snd w0) \<and> \<not> flagged_latest analysis_6 (snd w1))
   \<and> snd (generate (comp_file example_runtime) 0 [comparison_2] \<lparr>files = [], out = []\<rparr>) = None
   \<and> (\<exists>w. comp_file example_runtime comparison_2 0 = Inr w \<and> flagged_latest comparison_2 (snd w))"
proof -
  let ?io = "\<lparr>files = [], out = []\<rparr> :: dir_io"
  let ?rows = "[analysis_7, analysis_6]"
  let ?g = "generate (swot_file example_runtime) 0 ?rows ?io"
  let ?c = "generate (comp_file example_runtime) 0 [comparison_2] ?io"
  from example_listing_generated[of ?io] have g: "?g = (fst ?g, None)" by auto
  from example_comp_file_ok[of 0] obtain cw where cw: "comp_file example_runtime comparison_2 0 = Inr cw"
    by blast
  then have "emitted (comp_file example_runtime) 0 [comparison_2] = ([cw], None)" by simp
  then have c: "?c = (fst ?c, None)" by (simp add: generate_eq)
  obtain d7 where d7: "swot_transform example_runtime analysis_7 0 = Inr d7"
    by (simp add: example_transform)
  obtain d6 where d6: "swot_transform example_runtime analysis_6 1 = Inr d6"
    by (simp add: example_6_transform)
  obtain cd where cd: "comp_transform example_runtime comparison_2 0 = Inr cd"
    using cw by (auto simp: comp_file_def split: sum.splits)
  have t7: "isLatest d7"
    using latest_flag_iff_rank_zero[of example_runtime analysis_7 0 d7] d7 by blast
  have t6: "\<not> isLatest d6"
    using latest_flag_iff_rank_zero[of example_runtime analysis_6 1 d6] d6 by simp
  have tc: "isLatest cd"
    using latest_flag_iff_rank_zero[of example_runtime _ _ _ comparison_2 0 cd] cd by blast
  from latest_flag_iff_rank_zero[of example_runtime _ _ _ _ _ _ ?rows ?io "fst ?g"] g
  obtain ws where len: "length ws = length ?rows"
    and nth: "\<forall>i<length ?rows. swot_file example_runtime (?rows ! i) i = Inr (ws ! i)
                 \<and> (flagged_latest (?rows ! i) (snd (ws ! i)) \<longleftrightarrow> i = 0)" by blast
  from nth have w0: "swot_file example_runtime analysis_7 0 = Inr (ws ! 0)"
    and f0: "flagged_latest analysis_7 (snd (ws ! 0))" by auto
  have "(1::nat) < length ?rows" by simp
  with nth have "swot_file example_runtime (?rows ! 1) 1 = Inr (ws ! 1)
      \<and> (flagged_latest (?rows ! 1) (snd (ws ! 1)) \<longleftrightarrow> (1::nat) = 0)" by blast
  then have w1: "swot_file example_runtime analysis_6 1 = Inr (ws ! 1)"
    and f1: "\<not> flagged_latest analysis_6 (snd (ws ! 1))" by simp_all
  from latest_flag_iff_rank_zero[of example_runtime _ _ _ _ _ _ _ _ _ "[comparison_2]" ?io "fst ?c"] c
  obtain cws where cnth: "\<forall>i<length [comparison_2]. comp_file example_runtime ([comparison_2] ! i) i = Inr (cws ! i)
                 \<and> (flagged_latest ([comparison_2] ! i) (snd (cws ! i)) \<longleftrightarrow> i = 0)" by blast
  then have cw0: "comp_file example_runtime comparison_2 0 = Inr (cws ! 0)"
    and cf0: "flagged_latest comparison_2 (snd (cws ! 0))" by auto
  from g have g': "snd ?g = None" by (metis snd_conv)
  from c have c': "snd ?c = None" by (metis snd_conv)
  show ?thesis using g' c' d7 t7 d6 t6 cd tc w0 w1 f0 f1 cw0 cf0 by blast
qed

section \<open>Claim C5\<close>




















section \<open>Claim C6\<close>

lemma main_store_missing:
  assumes "\<not> existsSync w (resolve w (dbPathArg (args w)))"
  shows "main rt w =
     \<lparr>stdout = [DbPathLine (resolve w (dbPathArg (args w))), DocsDirLine (docsDir w), UsageHint],
      stderr = [DbNotFound (resolve w (dbPathArg (args w)))],
      opened = False, closed = False,
      swotFiles = swotDir w, compFiles = compDir w, status = Exit 1\<rparr>"
  using assms by (simp add: main_def Let_def)

lemma main_store_present:
  assumes "existsSync w (resolve w (dbPathArg (args w)))"
  shows "opened (main rt w)" and "swotFiles (main rt w) \<noteq> None" and "compFiles (main rt w) \<noteq> None"
  using assms by (auto simp: main_def Let_def split: prod.splits option.splits)

text \<open>
  Claim C6. When nothing exists at the resolved location of the store the program prints the
  two header lines, the diagnostic on the error stream and the usage hint, and exits with
  code 1: no connection is opened and both output directories are as they were, not even
  created. The check comes before the connection: when the location exists the connection
  is opened.
\<close>

theorem store_not_found:
  "(\<not> existsSync w (resolve w (dbPathArg (args w))) \<longrightarrow>
      status (main rt w) = Exit 1
      \<and> stderr (main rt w) = [DbNotFound (resolve w (dbPathArg (args w)))]
      \<and> stdout (main rt w)
          = [DbPathLine (resolve w (dbPathArg (args w))), DocsDirLine (docsDir w), UsageHint]
      \<and> \<not> opened (main rt w) \<and> \<not> closed (main rt w)
      \<and> swotFiles (main rt w) = swotDir w \<and> compFiles (main rt w) = compDir w)
   \<and> (existsSync w (resolve w (dbPathArg (args w))) \<longrightarrow> opened (main rt w))"
  using main_store_missing[of w rt] main_store_present(1)[of w rt] by simp

lemma dbPathArg_none: "dbPathArg [] = ''../swot.db''"
  by (simp add: dbPathArg_def at_index_def js_or_def)

lemma dbPathArg_flag: "dbPathArg [''--db'', ''swot.db''] = ''swot.db''"
  by (simp add: dbPathArg_def at_index_def js_or_def startsWith_def)

text \<open>
  The claim at the world of the examples started without an argument, where the default
  location resolves to nothing that exists, and started with the location of its store.
\<close>

theorem store_not_found_witness:
  "\<not> existsSync (example_world\<lparr>args := []\<rparr>)
       (resolve (example_world\<lparr>args := []\<rparr>) (dbPathArg (args (example_world\<lparr>args := []\<rparr>))))
   \<and> status (main example_runtime (example_world\<lparr>args := []\<rparr>)) = Exit 1
   \<and> stderr (main example_runtime (example_world\<lparr>args := []\<rparr>)) = [DbNotFound ''/srv/../swot.db'']
   \<and> \<not> opened (main example_runtime (example_world\<lparr>args := []\<rparr>))
   \<and> swotFiles (main example_runtime (example_world\<lparr>args := []\<rparr>)) = swotDir example_world
   \<and> compFiles (main example_runtime (example_world\<lparr>args := []\<rparr>)) = None
   \<and> existsSync example_world (resolve example_world (dbPathArg (args example_world)))
   \<and> opened (main example_runtime example_world)"
proof -
  let ?w = "example_world\<lparr>args := []\<rparr>"
  have p: "resolve ?w (dbPathArg (args ?w)) = ''/srv/../swot.db''"
    by (simp add: example_world_def dbPathArg_none)
  have n: "\<not> existsSync ?w (resolve ?w (dbPathArg (args ?w)))"
    unfolding p by (simp add: example_world_def)
  have e: "existsSync example_world (resolve example_world (dbPathArg (args example_world)))"
    by (simp add: example_world_def dbPathArg_flag)
  from store_not_found[of ?w example_runtime] n p
  have 1: "status (main example_runtime ?w) = Exit 1"
    and 2: "stderr (main example_runtime ?w) = [DbNotFound ''/srv/../swot.db'']"
    and 3: "\<not> opened (main example_runtime ?w)"
    and 4: "swotFiles (main example_runtime ?w) = swotDir ?w"
    and 5: "compFiles (main example_runtime ?w) = compDir ?w" by simp_all
  from store_not_found[of example_world example_runtime] e
  have 6: "opened (main example_runtime example_world)" by blast
  have 7: "swotDir ?w = swotDir example_world" by simp
  have 8: "compDir ?w = None" by (simp add: example_world_def)
  show ?thesis using n e 1 2 3 4 5 6 7 8 by simp
qed

section \<open>Claim C7\<close>













section \<open>Claim C8\<close>

text \<open>
  Claim C8 fails on the code. The proxy splits the decoded credentials at every colon and
  compares the first two parts only: a request that presents the configured user with a
  password that is the configured password, a colon and anything more is forwarded, as a
  plain request and as an upgrade, though its password is not the configured one.
\<close>

theorem extra_field_is_forwarded:
  "CHR '':'' \<notin> set (USER cfg) \<and> CHR '':'' \<notin> set (PASSWORD cfg)
   \<and> basic_credentials decode authorization
       = Some (USER cfg @ '':'' @ PASSWORD cfg @ '':'' @ junk)
   \<longrightarrow> handler cfg decode authorization = Proxied
       \<and> on_upgrade cfg decode authorization = ProxiedWs"
  using handler_extra_field[of cfg decode authorization junk]
  by (simp add: on_upgrade_iff)

text \<open>
  The failing input: the default configuration (user \<^verbatim>\<open>admin\<close>, password \<^verbatim>\<open>swot2024\<close>) and a
  request whose Basic header carries \<^verbatim>\<open>admin:swot2024:extra\<close>, the user \<^verbatim>\<open>admin\<close> with the
  password \<^verbatim>\<open>swot2024:extra\<close>.
\<close>

theorem extra_field_is_forwarded_witness:
  "USER (configure None None) = ''admin'' \<and> PASSWORD (configure None None) = ''swot2024''
   \<and> basic_credentials base64_toString (Some ''Basic YWRtaW46c3dvdDIwMjQ6ZXh0cmE='')
       = Some ''admin:swot2024:extra''
   \<and> ''admin:swot2024:extra'' \<noteq> USER (configure None None) @ '':'' @ PASSWORD (configure None None)
   \<and> handler (configure None None) base64_toString (Some ''Basic YWRtaW46c3dvdDIwMjQ6ZXh0cmE='')
       = Proxied
   \<and> on_upgrade (configure None None) base64_toString (Some ''Basic YWRtaW46c3dvdDIwMjQ6ZXh0cmE='')
       = ProxiedWs"
proof -
  let ?a = "Some ''Basic YWRtaW46c3dvdDIwMjQ6ZXh0cmE=''"
  let ?cfg = "configure None None"
  have b: "basic_credentials base64_toString ?a = Some ''admin:swot2024:extra''"
    by (simp add: basic_credentials_def startsWith_def decode_extra)
  have c: "basic_credentials base64_toString ?a
      = Some (USER ?cfg @ '':'' @ PASSWORD ?cfg @ '':'' @ ''extra'')"
    by (simp add: b default_config)
  have n: "CHR '':'' \<notin> set (USER ?cfg)" "CHR '':'' \<notin> set (PASSWORD ?cfg)"
    by (simp_all add: default_config)
  from extra_field_is_forwarded[of ?cfg base64_toString ?a "''extra''"] n c
  have h: "handler ?cfg base64_toString ?a = Proxied"
    and u: "on_upgrade ?cfg base64_toString ?a = ProxiedWs" by blast+
  show ?thesis using b h u by (simp add: default_config)
qed

section \<open>Claim C9\<close>

lemma matches_pattern_unique:
  assumes "matches_pattern file pre ds" and "matches_pattern file pre' ds'"
  shows "pre' = pre \<and> ds' = ds"
proof -
  have "matchId file = Some ds" by (rule matchId_complete) (rule assms(1))
  moreover have "matchId file = Some ds'" by (rule matchId_complete) (rule assms(2))
  ultimately have d: "ds' = ds" by simp
  from assms have "pre @ ''-'' @ ds @ ''.mdx'' = pre' @ ''-'' @ ds' @ ''.mdx''"
    by (simp add: matches_pattern_def)
  with d show ?thesis by simp
qed

lemma cleanup_keeps_valid:
  assumes "cleanupOldFiles validIds io = (io', removed)"
    and "(file, content) \<in> set (files io)"
    and "matchId file = Some ds" and "int (parseInt ds) \<in> set validIds"
  shows "(file, content) \<in> set (files io')"
proof -
  have "\<not> stale validIds file" using assms(3,4) by (simp add: stale_def orphan_def)
  moreover have "files io' = filter (\<lambda>e. \<not> stale validIds (fst e)) (files io)"
    using assms(1) by (auto simp: cleanupOldFiles_eq)
  ultimately show ?thesis using assms(2) by simp
qed

lemma matchId_extension: "matchId file = Some ds \<Longrightarrow> endsWith file ''.mdx''"
proof -
  assume "matchId file = Some ds"
  then obtain pre where "matches_pattern file pre ds" using matchId_iff[of "file" ds] by blast
  then have "file = (pre @ ''-'' @ ds) @ ''.mdx''" by (simp add: matches_pattern_def)
  then show ?thesis unfolding endsWith_def by (metis suffixI)
qed

lemma cleanup_removes_invalid:
  assumes "cleanupOldFiles validIds io = (io', removed)"
    and "matchId file = Some ds" and "int (parseInt ds) \<notin> set validIds"
    and "\<not> startsWith file ''_''"
  shows "file \<notin> names (files io')"
proof -
  have "listed file" using matchId_extension[OF assms(2)] assms(4) by (simp add: listed_def)
  then have "stale validIds file" using assms(2,3) by (simp add: stale_def orphan_def)
  then show ?thesis using cleanup_names(1)[OF assms(1)] by simp
qed

lemma cleanup_counts_invalid:
  assumes "cleanupOldFiles validIds io = (io', removed)"
    and "file \<in> names (files io)"
    and "matchId file = Some ds" and "int (parseInt ds) \<notin> set validIds"
    and "\<not> startsWith file ''_''"
  shows "0 < removed" and "RemovedStale file \<in> set (out io')"
proof -
  have "listed file" using matchId_extension[OF assms(3)] assms(5) by (simp add: listed_def)
  then have s: "stale validIds file" using assms(3,4) by (simp add: stale_def orphan_def)
  from assms(2) have "file \<in> set (readdirSync (files io))" by (simp add: names_def)
  with s have m: "file \<in> set (filter (stale validIds) (readdirSync (files io)))" by simp
  then have "filter (stale validIds) (readdirSync (files io)) \<noteq> []"
    by (metis empty_iff list.set(1))
  then show "0 < removed" using cleanup_names(3)[OF assms(1)] by simp
  from assms(1) have "out io' = out io @ map RemovedStale (filter (stale validIds) (readdirSync (files io)))"
    by (auto simp: cleanupOldFiles_eq)
  with m show "RemovedStale file \<in> set (out io')" by auto
qed

text \<open>
  Claim C9. The reconciler reads the identifier of a file as the run of digits between the
  last dash and the extension \<^verbatim>\<open>.mdx\<close>: a name matches the pattern with group \<open>ds\<close> exactly
  when it is some text, a dash, the digits \<open>ds\<close> and the extension, and that reading of a
  name is unique, so in \<^verbatim>\<open>2024-01-01-3.mdx\<close> the identifier is 3 and no part of the date. The
  reconciler decides by that identifier alone. A file whose identifier read so is a valid
  one stays in the directory with its content, whatever the rest of its name is. A file
  whose identifier read so is not a valid one, and whose name does not start with an
  underscore, is gone from the directory afterwards, whatever the rest of its name is; if
  it was there it is counted and its removal is reported. So \<^verbatim>\<open>2024-01-01-3.mdx\<close> is deleted
  when the valid identifiers are 2024 and 1, the numbers of its date, and kept when 3 is
  valid.
\<close>

theorem identifier_is_last_digit_group:
  "(matchId file = Some ds \<longleftrightarrow> (\<exists>pre. matches_pattern file pre ds))
   \<and> (matches_pattern file pre ds \<and> matches_pattern file pre' ds' \<longrightarrow> pre' = pre \<and> ds' = ds)
   \<and> matchId ''2024-01-01-3.mdx'' = Some ''3'' \<and> parseInt ''3'' = 3
   \<and> (cleanupOldFiles validIds io = (io', removed) \<and> (file, content) \<in> set (files io)
        \<and> matchId file = Some ds \<and> int (parseInt ds) \<in> set validIds
      \<longrightarrow> (file, content) \<in> set (files io'))
   \<and> (cleanupOldFiles validIds io = (io', removed)
        \<and> matchId file = Some ds \<and> int (parseInt ds) \<notin> set validIds \<and> \<not> startsWith file ''_''
      \<longrightarrow> file \<notin> names (files io')
          \<and> (file \<in> names (files io) \<longrightarrow> 0 < removed \<and> RemovedStale file \<in> set (out io')))
   \<and> files (fst (cleanupOldFiles [2024, 1] \<lparr>files = [(''2024-01-01-3.mdx'', content)], out = []\<rparr>)) = []
   \<and> files (fst (cleanupOldFiles [3] \<lparr>files = [(''2024-01-01-3.mdx'', content)], out = []\<rparr>))
       = [(''2024-01-01-3.mdx'', content)]"
proof -
  have a: "matches_pattern ''2024-01-01-3.mdx'' ''2024-01-01'' ''3''"
    by (simp add: matches_pattern_def isDigit_def)
  have b: "parseInt ''3'' = 3" by (simp add: parseInt_def digitVal_def)
  have m: "matchId ''2024-01-01-3.mdx'' = Some ''3''" by (rule matchId_complete[OF a])
  have l: "listed ''2024-01-01-3.mdx''"
    by (simp add: listed_def endsWith_def startsWith_def suffix_def)
  have s: "stale [2024, 1] ''2024-01-01-3.mdx''" using m b l by (simp add: stale_def orphan_def)
  have k: "\<not> stale [3] ''2024-01-01-3.mdx''" using m b by (simp add: stale_def orphan_def)
  have d: "files (fst (cleanupOldFiles [2024, 1] \<lparr>files = [(''2024-01-01-3.mdx'', content)], out = []\<rparr>)) = []"
    using s by (simp add: cleanupOldFiles_eq)
  have e: "files (fst (cleanupOldFiles [3] \<lparr>files = [(''2024-01-01-3.mdx'', content)], out = []\<rparr>))
       = [(''2024-01-01-3.mdx'', content)]"
    using k by (simp add: cleanupOldFiles_eq)
  show ?thesis
    using matchId_iff[of "file" "ds"] matches_pattern_unique[of "file" "pre" "ds" "pre'" "ds'"]
      m b d e
      cleanup_keeps_valid[of "validIds" "io" "io'" "removed" "file" "content" "ds"]
      cleanup_removes_invalid[of "validIds" "io" "io'" "removed" "file" "ds"]
      cleanup_counts_invalid[of "validIds" "io" "io'" "removed" "file" "ds"]
    by blast
qed

text \<open>
  The claim at two files in one directory, with 7 the only valid identifier: a file that
  carries the identifier 7 under a date that is not the date of the record is kept, and a
  file that carries the identifier 3 under the date \<^verbatim>\<open>2024-07-07\<close> is deleted, counted and
  reported.
\<close>

theorem identifier_is_last_digit_group_witness:
  "matchId ''2023-06-01-7.mdx'' = Some ''7''
   \<and> matches_pattern ''2023-06-01-7.mdx'' ''2023-06-01'' ''7''
   \<and> int (parseInt ''7'') \<in> set [7]
   \<and> (''2023-06-01-7.mdx'', ''old'')
       \<in> set (files (fst (cleanupOldFiles [7]
            \<lparr>files = [(''2023-06-01-7.mdx'', ''old''), (''2024-07-07-3.mdx'', ''x'')], out = []\<rparr>)))
   \<and> matchId ''2024-07-07-3.mdx'' = Some ''3''
   \<and> int (parseInt ''3'') \<notin> set [7]
   \<and> ''2024-07-07-3.mdx'' \<in> names [(''2023-06-01-7.mdx'', ''old''), (''2024-07-07-3.mdx'', ''x'')]
   \<and> ''2024-07-07-3.mdx''
       \<notin> names (files (fst (cleanupOldFiles [7]
            \<lparr>files = [(''2023-06-01-7.mdx'', ''old''), (''2024-07-07-3.mdx'', ''x'')], out = []\<rparr>)))
   \<and> 0 < snd (cleanupOldFiles [7]
            \<lparr>files = [(''2023-06-01-7.mdx'', ''old''), (''2024-07-07-3.mdx'', ''x'')], out = []\<rparr>)
   \<and> RemovedStale ''2024-07-07-3.mdx''
       \<in> set (out (fst (cleanupOldFiles [7]
            \<lparr>files = [(''2023-06-01-7.mdx'', ''old''), (''2024-07-07-3.mdx'', ''x'')], out = []\<rparr>)))"
proof -
  let ?io = "\<lparr>files = [(''2023-06-01-7.mdx'', ''old''), (''2024-07-07-3.mdx'', ''x'')], out = []\<rparr>"
  let ?r = "cleanupOldFiles [7] ?io"
  have r: "?r = (fst ?r, snd ?r)" by simp
  have m: "matches_pattern ''2023-06-01-7.mdx'' ''2023-06-01'' ''7''"
    by (simp add: matches_pattern_def isDigit_def)
  have m3: "matches_pattern ''2024-07-07-3.mdx'' ''2024-07-07'' ''3''"
    by (simp add: matches_pattern_def isDigit_def)
  have p: "int (parseInt ''7'') \<in> set [7]" by (simp add: parseInt_def digitVal_def)
  have p3: "int (parseInt ''3'') \<notin> set [7]" by (simp add: parseInt_def digitVal_def)
  have u: "\<not> startsWith ''2024-07-07-3.mdx'' ''_''" by (simp add: startsWith_def)
  have n: "''2024-07-07-3.mdx'' \<in> names (files ?io)" by (simp add: names_def readdirSync_def)
  have f: "(''2023-06-01-7.mdx'', ''old'') \<in> set (files ?io)" by simp
  note t = identifier_is_last_digit_group[of "''2023-06-01-7.mdx''" "''7''" "''2023-06-01''"
      "''2023-06-01''" "''7''" "[7]" ?io "fst ?r" "snd ?r" "''old''"]
  note t3 = identifier_is_last_digit_group[of "''2024-07-07-3.mdx''" "''3''" "''2024-07-07''"
      "''2024-07-07''" "''3''" "[7]" ?io "fst ?r" "snd ?r" "''x''"]
  from t m have i: "matchId ''2023-06-01-7.mdx'' = Some ''7''" by blast
  from t3 m3 have i3: "matchId ''2024-07-07-3.mdx'' = Some ''3''" by blast
  from t r f i p have k: "(''2023-06-01-7.mdx'', ''old'') \<in> set (files (fst ?r))" by blast
  from t3 r i3 p3 u have g: "''2024-07-07-3.mdx'' \<notin> names (files (fst ?r))" by blast
  from t3 r i3 p3 u n have c: "0 < snd ?r" and o: "RemovedStale ''2024-07-07-3.mdx'' \<in> set (out (fst ?r))"
    by blast+
  from n have n': "''2024-07-07-3.mdx'' \<in> names [(''2023-06-01-7.mdx'', ''old''), (''2024-07-07-3.mdx'', ''x'')]"
    by simp
  show ?thesis using m p i k i3 p3 n' g c o by blast
qed

section \<open>Claim C10\<close>

lemma startup_iff: "startup cfg = None \<longleftrightarrow> 2 \<le> utf16_length (PASSWORD cfg)"
  by (auto simp: startup_def)

lemma served_started:
  assumes "2 \<le> utf16_length (PASSWORD cfg)"
  shows "served cfg decode Request authorization =
           Some (case handler cfg decode authorization of
                   Challenge p \<Rightarrow> Status401 p | Proxied \<Rightarrow> PassedOn)"
    and "served cfg decode Upgrade authorization =
           Some (case on_upgrade cfg decode authorization of
                   ProxiedWs \<Rightarrow> PassedOn | Destroyed \<Rightarrow> SocketDestroyed)"
  using assms by (simp_all add: served_def startup_def)

lemma served_not_started:
  assumes "\<not> 2 \<le> utf16_length (PASSWORD cfg)"
  shows "served cfg decode k authorization = None"
  using assms by (simp add: served_def startup_def)

lemma colon_never_passed_on:
  assumes "CHR '':'' \<in> set (PASSWORD cfg)"
  shows "served cfg decode k authorization \<noteq> Some PassedOn"
proof (cases "2 \<le> utf16_length (PASSWORD cfg)")
  case False
  then show ?thesis by (simp add: served_not_started)
next
  case True
  from colon_password_rejects[OF assms, of decode authorization]
  obtain p where "handler cfg decode authorization = Challenge p"
    and "on_upgrade cfg decode authorization = Destroyed" by blast
  then show ?thesis using served_started[OF True, of decode authorization] by (cases k) simp_all
qed

lemma colon_served:
  assumes "CHR '':'' \<in> set (PASSWORD cfg)" and "2 \<le> utf16_length (PASSWORD cfg)"
  shows "\<exists>p. served cfg decode Request authorization = Some (Status401 p)"
    and "served cfg decode Upgrade authorization = Some SocketDestroyed"
proof -
  from colon_password_rejects[OF assms(1), of decode authorization]
  obtain p where p: "handler cfg decode authorization = Challenge p"
    and u: "on_upgrade cfg decode authorization = Destroyed" by blast
  show "\<exists>p. served cfg decode Request authorization = Some (Status401 p)"
    using served_started(1)[OF assms(2), of decode authorization] p by simp
  show "served cfg decode Upgrade authorization = Some SocketDestroyed"
    using served_started(2)[OF assms(2), of decode authorization] u by simp
qed

lemma colon_served_exact:
  assumes "CHR '':'' \<in> set (PASSWORD cfg)" and "2 \<le> utf16_length (PASSWORD cfg)"
    and "decode b = USER cfg @ '':'' @ PASSWORD cfg"
  shows "served cfg decode Request (Some (''Basic '' @ b)) = Some (Status401 WrongCredentials)"
  using served_started(1)[OF assms(2), of decode "Some (''Basic '' @ b)"]
    colon_password_exact[of cfg decode b] assms(1,3) by simp

lemma colon_length: "utf16_length (PASSWORD (configure None (Some ''a:b''))) = 3"
  by code_simp

lemma lone_colon_length: "utf16_length (PASSWORD (configure None (Some '':''))) = 1"
  by code_simp

lemma lone_colon_config: "PASSWORD (configure None (Some '':'')) = '':''"
  by (simp add: configure_def or_default_def)

text \<open>
  Claim C10, as it is stated, at two configurations whose password holds a colon. With the
  password \<^verbatim>\<open>a:b\<close> an upgrade request that presents \<^verbatim>\<open>admin\<close> and \<^verbatim>\<open>a:b\<close> is not answered with
  a 401 challenge: the listener of the upgrade event writes no response, it destroys the
  socket. With the password \<^verbatim>\<open>:\<close> the banner throws before the server listens, and the
  request that presents \<^verbatim>\<open>admin\<close> and \<^verbatim>\<open>:\<close> is not answered at all.
\<close>

theorem not_every_request_gets_401:
  "CHR '':'' \<in> set (PASSWORD (configure None (Some ''a:b'')))
   \<and> base64_toString ''YWRtaW46YTpi'' = ''admin:a:b''
   \<and> served (configure None (Some ''a:b'')) base64_toString Upgrade (Some ''Basic YWRtaW46YTpi'')
       = Some SocketDestroyed
   \<and> \<not> is_401 (served (configure None (Some ''a:b'')) base64_toString Upgrade
                  (Some ''Basic YWRtaW46YTpi''))
   \<and> CHR '':'' \<in> set (PASSWORD (configure None (Some '':'')))
   \<and> base64_toString ''YWRtaW46Og=='' = ''admin::''
   \<and> served (configure None (Some '':'')) base64_toString Request (Some ''Basic YWRtaW46Og=='')
       = None
   \<and> \<not> is_401 (served (configure None (Some '':'')) base64_toString Request
                  (Some ''Basic YWRtaW46Og==''))"
proof -
  let ?cfg = "configure None (Some ''a:b'')"
  let ?one = "configure None (Some '':'')"
  have c: "CHR '':'' \<in> set (PASSWORD ?cfg)" by (simp add: colon_config)
  have l: "2 \<le> utf16_length (PASSWORD ?cfg)" by (simp add: colon_length)
  have u: "served ?cfg base64_toString Upgrade (Some ''Basic YWRtaW46YTpi'') = Some SocketDestroyed"
    using c l by (rule colon_served(2))
  have c1: "CHR '':'' \<in> set (PASSWORD ?one)" by (simp add: lone_colon_config)
  have l1: "\<not> 2 \<le> utf16_length (PASSWORD ?one)" by (simp add: lone_colon_length)
  have n: "served ?one base64_toString Request (Some ''Basic YWRtaW46Og=='') = None"
    using l1 by (rule served_not_started)
  have d: "base64_toString ''YWRtaW46Og=='' = ''admin::''" by code_simp
  show ?thesis using c u c1 n d decode_colon by (simp add: is_401_def)
qed

text \<open>
  Claim C10, amended. The proxy splits the decoded credentials at every colon and compares
  the first two parts, and no part holds a colon. So when the configured password holds a
  colon no request of either kind is ever passed on, whatever the header and however it is
  decoded. When the server starts, which it does when the password has two code units or
  more, every plain request is answered with the 401 challenge and a request that presents
  exactly the configured user and password is answered with the page for wrong
  credentials; the socket of every upgrade request is destroyed, with no response written.
\<close>

theorem colon_in_password_locks_out:
  "CHR '':'' \<in> set (PASSWORD cfg) \<longrightarrow>
     served cfg decode k authorization \<noteq> Some PassedOn
     \<and> handler cfg decode authorization \<noteq> Proxied
     \<and> on_upgrade cfg decode authorization \<noteq> ProxiedWs
     \<and> (2 \<le> utf16_length (PASSWORD cfg) \<longrightarrow>
          (\<exists>p. handler cfg decode authorization = Challenge p
               \<and> served cfg decode Request authorization = Some (Status401 p))
          \<and> on_upgrade cfg decode authorization = Destroyed
          \<and> served cfg decode Upgrade authorization = Some SocketDestroyed
          \<and> (decode b = USER cfg @ '':'' @ PASSWORD cfg \<longrightarrow>
               handler cfg decode (Some (''Basic '' @ b)) = Challenge WrongCredentials
               \<and> served cfg decode Request (Some (''Basic '' @ b)) = Some (Status401 WrongCredentials)
               \<and> served cfg decode Upgrade (Some (''Basic '' @ b)) = Some SocketDestroyed))"
proof (intro impI conjI)
  assume c: "CHR '':'' \<in> set (PASSWORD cfg)"
  show "served cfg decode k authorization \<noteq> Some PassedOn" using c by (rule colon_never_passed_on)
  from colon_password_rejects[OF c, of decode authorization]
  obtain p where p: "handler cfg decode authorization = Challenge p"
    and u: "on_upgrade cfg decode authorization = Destroyed" by blast
  show "handler cfg decode authorization \<noteq> Proxied" using p by simp
  show "on_upgrade cfg decode authorization \<noteq> ProxiedWs" using u by simp
  assume l: "2 \<le> utf16_length (PASSWORD cfg)"
  show "\<exists>p. handler cfg decode authorization = Challenge p
           \<and> served cfg decode Request authorization = Some (Status401 p)"
    using p served_started(1)[OF l, of decode authorization] by simp
  show "on_upgrade cfg decode authorization = Destroyed" by (rule u)
  show "served cfg decode Upgrade authorization = Some SocketDestroyed"
    using c l by (rule colon_served(2))
  assume d: "decode b = USER cfg @ '':'' @ PASSWORD cfg"
  show "handler cfg decode (Some (''Basic '' @ b)) = Challenge WrongCredentials"
    using colon_password_exact[of cfg decode b] c d by simp
  show "served cfg decode Request (Some (''Basic '' @ b)) = Some (Status401 WrongCredentials)"
    using colon_served_exact[of cfg decode b] c l d by simp
  show "served cfg decode Upgrade (Some (''Basic '' @ b)) = Some SocketDestroyed"
    using c l by (rule colon_served(2))
qed

text \<open>
  The amended claim at the password \<^verbatim>\<open>a:b\<close> and the request that presents \<^verbatim>\<open>admin\<close> with
  \<^verbatim>\<open>a:b\<close>, as a plain request and as an upgrade request.
\<close>

theorem colon_in_password_locks_out_witness:
  "CHR '':'' \<in> set (PASSWORD (configure None (Some ''a:b'')))
   \<and> 2 \<le> utf16_length (PASSWORD (configure None (Some ''a:b'')))
   \<and> base64_toString ''YWRtaW46YTpi''
       = USER (configure None (Some ''a:b'')) @ '':'' @ PASSWORD (configure None (Some ''a:b''))
   \<and> handler (configure None (Some ''a:b'')) base64_toString (Some (''Basic '' @ ''YWRtaW46YTpi''))
       = Challenge WrongCredentials
   \<and> served (configure None (Some ''a:b'')) base64_toString Request
        (Some (''Basic '' @ ''YWRtaW46YTpi'')) = Some (Status401 WrongCredentials)
   \<and> on_upgrade (configure None (Some ''a:b'')) base64_toString (Some (''Basic '' @ ''YWRtaW46YTpi''))
       = Destroyed
   \<and> served (configure None (Some ''a:b'')) base64_toString Upgrade
        (Some (''Basic '' @ ''YWRtaW46YTpi'')) = Some SocketDestroyed"
proof -
  let ?cfg = "configure None (Some ''a:b'')"
  let ?a = "Some (''Basic '' @ ''YWRtaW46YTpi'')"
  have c: "CHR '':'' \<in> set (PASSWORD ?cfg)" by (simp add: colon_config)
  have l: "2 \<le> utf16_length (PASSWORD ?cfg)" by (simp add: colon_length)
  have d: "base64_toString ''YWRtaW46YTpi'' = USER ?cfg @ '':'' @ PASSWORD ?cfg"
    by (simp add: colon_config decode_colon)
  note t = colon_in_password_locks_out[of ?cfg base64_toString Request ?a "''YWRtaW46YTpi''"]
  from t c l d have 1: "handler ?cfg base64_toString ?a = Challenge WrongCredentials" by blast
  from t c l d have 2: "served ?cfg base64_toString Request ?a = Some (Status401 WrongCredentials)"
    by blast
  from t c l have 3: "on_upgrade ?cfg base64_toString ?a = Destroyed" by blast
  from t c l have 4: "served ?cfg base64_toString Upgrade ?a = Some SocketDestroyed" by blast
  show ?thesis using c l d 1 2 3 4 by blast
qed

end
